theory Spec2Isabelle
  imports Complex_Main
begin

section \<open>Numbers and vectors\<close>

text \<open>
  JavaScript numbers are modelled as exact reals: every branch, assignment and
  arithmetic expression of the source is kept, rounding, NaN and the infinities
  are not.  Where the source starts a running minimum at \<open>Infinity\<close> the model
  uses an option (\<open>None\<close> for \<open>Infinity\<close>).

  A division by zero gives the source an infinity or NaN, which no real number
  stands for.  The divisions of the update loop that a state can reach with a
  zero divisor (by \<open>deltaTime\<close> and by \<open>mass\<close> in \<open>update\<close> of main.js) are branches
  of the model that return \<open>None\<close>: a result \<open>Some\<close> of the model is a state of
  finite numbers.  Every other division that the model keeps has a constant
  divisor or stands behind a guard of the source that excludes a zero divisor,
  except the divisions by the segment counts in the two grid constructors, which
  are meant for positive counts.

  \<open>THREE.Vector3\<close> is a library class; the operations the two physics files
  call are modelled here from the library's documented behaviour.  The source
  mutates vectors in place, the model returns the new vector.
\<close>

record vec3 =
  vx :: real
  vy :: real
  vz :: real

definition vec :: "real \<Rightarrow> real \<Rightarrow> real \<Rightarrow> vec3" where
  "vec a b c = \<lparr>vx = a, vy = b, vz = c\<rparr>"

definition add :: "vec3 \<Rightarrow> vec3 \<Rightarrow> vec3" where
  "add a b = vec (vx a + vx b) (vy a + vy b) (vz a + vz b)"

definition sub :: "vec3 \<Rightarrow> vec3 \<Rightarrow> vec3" where
  "sub a b = vec (vx a - vx b) (vy a - vy b) (vz a - vz b)"

definition multiplyScalar :: "vec3 \<Rightarrow> real \<Rightarrow> vec3" where
  "multiplyScalar a s = vec (vx a * s) (vy a * s) (vz a * s)"

text \<open>
  \<open>divideScalar\<close> multiplies by \<open>1 / s\<close>; for \<open>s = 0\<close> that factor is \<open>Infinity\<close> and
  every component of the result is an infinity or NaN.
\<close>

definition divideScalar :: "vec3 \<Rightarrow> real \<Rightarrow> vec3 option" where
  "divideScalar a s = (if s = 0 then None else Some (multiplyScalar a (1 / s)))"

definition addScaledVector :: "vec3 \<Rightarrow> vec3 \<Rightarrow> real \<Rightarrow> vec3" where
  "addScaledVector a v s = vec (vx a + vx v * s) (vy a + vy v * s) (vz a + vz v * s)"

definition dot :: "vec3 \<Rightarrow> vec3 \<Rightarrow> real" where
  "dot a b = vx a * vx b + vy a * vy b + vz a * vz b"

definition lengthSq :: "vec3 \<Rightarrow> real" where
  "lengthSq a = vx a * vx a + vy a * vy a + vz a * vz a"

definition vlength :: "vec3 \<Rightarrow> real" where
  "vlength a = sqrt (lengthSq a)"

definition distanceTo :: "vec3 \<Rightarrow> vec3 \<Rightarrow> real" where
  "distanceTo a b = sqrt (lengthSq (sub a b))"

text \<open>
  \<open>normalize\<close> divides by \<open>length() || 1\<close>, which is never zero, so the division
  is written out.
\<close>

definition normalize :: "vec3 \<Rightarrow> vec3" where
  "normalize a = multiplyScalar a (1 / (if vlength a = 0 then 1 else vlength a))"

definition clamp :: "real \<Rightarrow> real \<Rightarrow> real \<Rightarrow> real" where
  "clamp v lo hi = max lo (min hi v)"

section \<open>cloth.js: Particle\<close>

record Particle =
  position :: vec3
  previous :: vec3
  acceleration :: vec3
  inverseMass :: real
  pinned :: bool
  pinPosition :: vec3

definition newParticle :: "real \<Rightarrow> real \<Rightarrow> real \<Rightarrow> real \<Rightarrow> Particle" where
  "newParticle a b c m =
     \<lparr>position = vec a b c, previous = vec a b c, acceleration = vec 0 0 0,
      inverseMass = (if m > 0 then 1 / m else 0), pinned = False,
      pinPosition = vec 0 0 0\<rparr>"

definition addForce :: "Particle \<Rightarrow> vec3 \<Rightarrow> Particle" where
  "addForce p f =
     (if inverseMass p = 0 then p
      else p\<lparr>acceleration := addScaledVector (acceleration p) f (inverseMass p)\<rparr>)"

definition integrate :: "Particle \<Rightarrow> real \<Rightarrow> real \<Rightarrow> Particle" where
  "integrate p deltaTime damping =
     (if pinned p then
        p\<lparr>position := pinPosition p, previous := pinPosition p,
          acceleration := vec 0 0 0\<rparr>
      else
        let temp = position p;
            velocity = sub (position p) (previous p);
            dampingFactor = 1 - damping;
            dampedVelocity = multiplyScalar velocity dampingFactor
        in p\<lparr>position := addScaledVector (add (position p) dampedVelocity)
                            (acceleration p) (deltaTime * deltaTime),
             previous := temp,
             acceleration := vec 0 0 0\<rparr>)"

definition pinToCurrent :: "Particle \<Rightarrow> Particle" where
  "pinToCurrent p = p\<lparr>pinned := True, pinPosition := position p\<rparr>"

definition unpin :: "Particle \<Rightarrow> Particle" where
  "unpin p = p\<lparr>pinned := False\<rparr>"

section \<open>cloth.js: Constraint\<close>

text \<open>
  A constraint holds references to two particle objects of the cloth's array;
  the model holds their indices, and \<open>satisfy\<close> takes and returns the array.
\<close>

record Constraint =
  p1 :: nat
  p2 :: nat
  restDistance :: real
  stiffness :: real
  broken :: bool

definition newConstraint :: "nat \<Rightarrow> nat \<Rightarrow> real \<Rightarrow> real \<Rightarrow> Constraint" where
  "newConstraint i1 i2 r st =
     \<lparr>p1 = i1, p2 = i2, restDistance = r, stiffness = st, broken = False\<rparr>"

definition effInv :: "Particle \<Rightarrow> real" where
  "effInv p = (if pinned p then 0 else inverseMass p)"

definition satisfy :: "Constraint \<Rightarrow> Particle list \<Rightarrow> Particle list" where
  "satisfy c ps =
     (if broken c then ps
      else
        let a = ps ! p1 c;
            b = ps ! p2 c;
            delta = sub (position b) (position a);
            currentDist = vlength delta
        in if currentDist = 0 then ps
           else
             let relaxation = 0.25 * stiffness c;
                 diff = (currentDist - restDistance c) / currentDist * relaxation;
                 inv1 = effInv a;
                 inv2 = effInv b;
                 sumInv = inv1 + inv2
             in if sumInv = 0 then ps
                else
                  let move1 = (inv1 / sumInv) * diff;
                      move2 = (inv2 / sumInv) * diff;
                      ps1 = ps[p1 c := a\<lparr>position := addScaledVector (position a) delta move1\<rparr>];
                      b1 = ps1 ! p2 c
                  in ps1[p2 c := b1\<lparr>position := addScaledVector (position b1) delta (- move2)\<rparr>])"

section \<open>cloth.js: Cloth\<close>

text \<open>
  The grid sizes and the iteration count are loop bounds of the source and are
  natural numbers here.  \<open>particles\<close> is the array of particle objects.
\<close>

record Cloth =
  width :: real
  height :: real
  segmentsX :: nat
  segmentsY :: nat
  gravity :: vec3
  damping :: real
  iterations :: nat
  tearFactor :: real
  particles :: "Particle list"
  constraints :: "Constraint list"
  physicsEnabled :: bool

definition idx :: "nat \<Rightarrow> nat \<Rightarrow> nat \<Rightarrow> nat" where
  "idx sx gx gy = gy * (sx + 1) + gx"

definition topRowIndices :: "Cloth \<Rightarrow> nat list" where
  "topRowIndices s = map (\<lambda>gx. idx (segmentsX s) gx 0) [0..<segmentsX s + 1]"

subsection \<open>Grid construction\<close>

definition gridParticles :: "real \<Rightarrow> real \<Rightarrow> nat \<Rightarrow> nat \<Rightarrow> Particle list" where
  "gridParticles w h sx sy =
     (let dx = w / real sx; dy = h / real sy; offsetX = - w / 2; offsetY = 4
      in concat (map (\<lambda>gy. map (\<lambda>gx.
           newParticle (offsetX + real gx * dx) (offsetY - real gy * dy) 0 1)
             [0..<sx + 1]) [0..<sy + 1]))"

definition pinBelowTop :: "nat list \<Rightarrow> Particle list \<Rightarrow> Particle list" where
  "pinBelowTop topRow ps =
     map (\<lambda>i. if i \<in> set topRow then ps ! i else pinToCurrent (ps ! i)) [0..<length ps]"

definition structuralAt :: "nat \<Rightarrow> nat \<Rightarrow> real \<Rightarrow> real \<Rightarrow> real \<Rightarrow> nat \<Rightarrow> nat \<Rightarrow> Constraint list" where
  "structuralAt sx sy restX restY diag gx gy =
     (if gx < sx then [newConstraint (idx sx gx gy) (idx sx (gx + 1) gy) restX 1] else []) @
     (if gy < sy then [newConstraint (idx sx gx gy) (idx sx gx (gy + 1)) restY 1] else []) @
     (if gx < sx \<and> gy < sy
      then [newConstraint (idx sx gx gy) (idx sx (gx + 1) (gy + 1)) diag 1,
            newConstraint (idx sx (gx + 1) gy) (idx sx gx (gy + 1)) diag 1]
      else [])"

text \<open>The source tests \<open>y < segmentsY - 1\<close> on numbers; on naturals this is \<open>gy + 1 < sy\<close>.\<close>

definition bendingAt :: "nat \<Rightarrow> nat \<Rightarrow> real \<Rightarrow> real \<Rightarrow> nat \<Rightarrow> nat \<Rightarrow> Constraint list" where
  "bendingAt sx sy bendingRestY bendingStiffness gx gy =
     (if gy + 1 < sy
      then [newConstraint (idx sx gx gy) (idx sx gx (gy + 2)) bendingRestY bendingStiffness]
      else [])"

definition gridConstraints :: "real \<Rightarrow> real \<Rightarrow> nat \<Rightarrow> nat \<Rightarrow> Constraint list" where
  "gridConstraints w h sx sy =
     (let dx = w / real sx; dy = h / real sy;
          restX = dx; restY = dy; diag = sqrt (dx * dx + dy * dy);
          bendingRestY = restY * 2; bendingStiffness = 0.4
      in concat (map (\<lambda>gy. concat (map (\<lambda>gx.
           structuralAt sx sy restX restY diag gx gy) [0..<sx + 1])) [0..<sy + 1]) @
         concat (map (\<lambda>gy. concat (map (\<lambda>gx.
           bendingAt sx sy bendingRestY bendingStiffness gx gy) [0..<sx + 1])) [0..<sy + 1]))"

definition newCloth :: "real \<Rightarrow> real \<Rightarrow> nat \<Rightarrow> nat \<Rightarrow> real \<Rightarrow> real \<Rightarrow> nat \<Rightarrow> real \<Rightarrow> Cloth" where
  "newCloth w h sx sy g d it tf =
     \<lparr>width = w, height = h, segmentsX = sx, segmentsY = sy, gravity = vec 0 g 0,
      damping = d, iterations = it, tearFactor = tf,
      particles = pinBelowTop (map (\<lambda>gx. idx sx gx 0) [0..<sx + 1]) (gridParticles w h sx sy),
      constraints = gridConstraints w h sx sy,
      physicsEnabled = False\<rparr>"

subsection \<open>Simulation step\<close>

text \<open>
  One visit of the relaxation loop of \<open>step\<close>: the body executed for the
  constraint at index \<open>j\<close>, with the tear check before \<open>satisfy\<close>.
\<close>

definition stepVisit :: "nat \<Rightarrow> Cloth \<Rightarrow> Cloth" where
  "stepVisit j s =
     (let c = constraints s ! j
      in if broken c then s
         else
           let currentDist = distanceTo (position (particles s ! p2 c))
                                        (position (particles s ! p1 c))
           in if currentDist > restDistance c * tearFactor s
              then s\<lparr>constraints := (constraints s)[j := c\<lparr>broken := True\<rparr>]\<rparr>
              else s\<lparr>particles := satisfy c (particles s)\<rparr>)"

definition stepPass :: "nat \<Rightarrow> Cloth \<Rightarrow> Cloth" where
  "stepPass i s =
     (let reverse = (i mod 2 = 1)
      in if reverse then fold stepVisit (rev [0..<length (constraints s)]) s
         else fold stepVisit [0..<length (constraints s)] s)"

definition step :: "Cloth \<Rightarrow> real \<Rightarrow> Cloth" where
  "step s deltaTime =
     (if \<not> physicsEnabled s then s
      else
        let s1 = s\<lparr>particles := map (\<lambda>p. addForce p (gravity s)) (particles s)\<rparr>;
            s2 = s1\<lparr>particles := map (\<lambda>p. integrate p deltaTime (damping s1)) (particles s1)\<rparr>
        in fold stepPass [0..<iterations s2] s2)"

subsection \<open>Pre-start shaping and relaxation\<close>

definition sagCol :: "nat list \<Rightarrow> nat \<Rightarrow> nat \<Rightarrow> real \<Rightarrow> real \<Rightarrow> nat \<Rightarrow> Particle list \<Rightarrow> Particle list" where
  "sagCol topRow leftCol spanCols maxSag yBaseline col ps =
     (let t = (real col - real leftCol) / real spanCols;
          dip = maxSag * (4 * t * (1 - t));
          i = topRow ! col;
          p = ps ! i
      in if pinned p then ps
         else
           let targetY = yBaseline - dip;
               newY = vy (position p) * 0.2 + targetY * 0.8
           in ps[i := p\<lparr>position := (position p)\<lparr>vy := newY\<rparr>,
                         previous := (previous p)\<lparr>vy := newY\<rparr>\<rparr>])"

definition sagSpan :: "nat list \<Rightarrow> nat list \<Rightarrow> real \<Rightarrow> nat \<Rightarrow> Particle list \<Rightarrow> Particle list" where
  "sagSpan topRow pinnedCols dx a ps =
     (let leftCol = pinnedCols ! a;
          rightCol = pinnedCols ! (a + 1);
          spanCols = rightCol - leftCol
      in if spanCols \<le> 1 then ps
         else
           let spanWidth = real spanCols * dx;
               maxSag = spanWidth * 0.55;
               yLeft = vy (position (ps ! (topRow ! leftCol)));
               yRight = vy (position (ps ! (topRow ! rightCol)));
               yBaseline = min yLeft yRight
           in fold (sagCol topRow leftCol spanCols maxSag yBaseline) [leftCol + 1..<rightCol] ps)"

definition applyPreSagOnTopRow :: "Cloth \<Rightarrow> nat \<Rightarrow> Cloth" where
  "applyPreSagOnTopRow s repeat =
     (let topRow = topRowIndices s;
          pinnedCols = filter (\<lambda>i. pinned (particles s ! (topRow ! i))) [0..<length topRow]
      in if length pinnedCols < 2 then s
         else
           let dx = width s / real (segmentsX s)
           in s\<lparr>particles :=
                ((fold (sagSpan topRow pinnedCols dx) [0..<length pinnedCols - 1]) ^^ repeat)
                  (particles s)\<rparr>)"

text \<open>
  The pass used before the simulation starts (in \<open>relaxConstraints\<close> and in
  \<open>startSimulation\<close>): every unbroken constraint is satisfied, with no tear check.
\<close>

definition relaxVisit :: "nat \<Rightarrow> Cloth \<Rightarrow> Cloth" where
  "relaxVisit j s =
     (let c = constraints s ! j
      in if broken c then s else s\<lparr>particles := satisfy c (particles s)\<rparr>)"

definition relaxPass :: "Cloth \<Rightarrow> Cloth" where
  "relaxPass s = fold relaxVisit [0..<length (constraints s)] s"

definition relaxRound :: "Cloth \<Rightarrow> Cloth" where
  "relaxRound s =
     (let s1 = relaxPass s
      in if \<not> physicsEnabled s1 then applyPreSagOnTopRow s1 3 else s1)"

definition relaxConstraints :: "Cloth \<Rightarrow> Cloth" where
  "relaxConstraints s =
     (let s1 = (relaxRound ^^ 12) s
      in if \<not> physicsEnabled s1 then applyPreSagOnTopRow s1 5 else s1)"

subsection \<open>Pin selection and start\<close>

text \<open>
  \<open>togglePin\<close> receives any number as index; the model takes an integer, so that
  indices below zero are inputs too.  \<open>particles[index]\<close> is \<open>undefined\<close> outside
  the array, and the source returns \<open>false\<close> there.
\<close>

definition togglePin :: "Cloth \<Rightarrow> int \<Rightarrow> bool \<times> Cloth" where
  "togglePin s index =
     (if index < 0 \<or> index \<ge> int (length (particles s)) then (False, s)
      else if nat index \<notin> set (topRowIndices s) then (False, s)
      else if physicsEnabled s then (False, s)
      else
        let i = nat index;
            p = particles s ! i;
            s1 = s\<lparr>particles := (particles s)[i := (if pinned p then unpin p else pinToCurrent p)]\<rparr>;
            s2 = relaxConstraints s1
        in (pinned (particles s2 ! i), s2))"

definition hasConstraintPoints :: "Cloth \<Rightarrow> bool" where
  "hasConstraintPoints s = list_ex (\<lambda>i. pinned (particles s ! i)) (topRowIndices s)"

definition unpinBelowTop :: "nat list \<Rightarrow> Particle list \<Rightarrow> Particle list" where
  "unpinBelowTop topRow ps =
     map (\<lambda>i. if i \<in> set topRow then ps ! i else unpin (ps ! i)) [0..<length ps]"

definition startSimulation :: "Cloth \<Rightarrow> bool \<times> Cloth" where
  "startSimulation s =
     (if \<not> hasConstraintPoints s then (False, s)
      else
        let s1 = (relaxPass ^^ 12) s;
            s2 = applyPreSagOnTopRow s1 1;
            s3 = s2\<lparr>physicsEnabled := True\<rparr>
        in (True, s3\<lparr>particles := unpinBelowTop (topRowIndices s) (particles s3)\<rparr>))"

definition breakConstraints :: "Cloth \<Rightarrow> (Particle list \<Rightarrow> Constraint \<Rightarrow> bool) \<Rightarrow> nat \<times> Cloth" where
  "breakConstraints s predicate =
     (length (filter (\<lambda>c. \<not> broken c \<and> predicate (particles s) c) (constraints s)),
      s\<lparr>constraints :=
          map (\<lambda>c. if \<not> broken c \<and> predicate (particles s) c then c\<lparr>broken := True\<rparr> else c)
            (constraints s)\<rparr>)"

section \<open>main.js: ClothPhysics\<close>

text \<open>
  The second physics implementation builds its particles and constraints as
  plain objects.  Names that the first implementation already uses carry the
  suffix \<open>_m\<close> (\<open>_p\<close> for the fields of \<open>params\<close>, \<open>_c\<close> for the constraint's
  \<open>active\<close> flag); the grid coordinates \<open>x\<close>, \<open>y\<close> and \<open>index\<close> of a particle are
  \<open>x_m\<close>, \<open>y_m\<close> and \<open>index_m\<close>.

  \<open>Math.random()\<close> is modelled as reading the next value of an arbitrary
  sequence \<open>rand\<close>; the functions that draw take the position \<open>k\<close> in the
  sequence and return the new position.  \<open>pivotPoints\<close> stands for
  \<open>pivotManager.pivotPoints\<close>.
\<close>

record Params =
  mass_p :: real
  damping_p :: real
  gravity_p :: real
  windForce :: real
  windFrequency :: real
  stiffness_p :: real
  bendingStiffness :: real
  tearThreshold :: real

record particle_m =
  position_m :: vec3
  previousPosition :: vec3
  originalPosition :: vec3
  velocity :: vec3
  force :: vec3
  mass :: real
  pinned_m :: bool
  index_m :: nat
  x_m :: nat
  y_m :: nat
  active :: bool
  cutFactor :: real

record constraint_m =
  p1_m :: nat
  p2_m :: nat
  restLength :: real
  stiffness_m :: real
  baseStiffness :: real
  active_c :: bool

record ClothPhysics =
  width_m :: real
  height_m :: real
  segmentsX_m :: nat
  segmentsY_m :: nat
  pivotPoints :: "vec3 list"
  params :: Params
  particles_m :: "particle_m list"
  constraints_m :: "constraint_m list"
  cutParticles :: "nat set"
  time :: real

definition defaultParams :: Params where
  "defaultParams =
     \<lparr>mass_p = 0.1, damping_p = 0.02, gravity_p = - 9.8, windForce = 0.15,
      windFrequency = 1.5, stiffness_p = 0.85, bendingStiffness = 0.15,
      tearThreshold = 2.8\<rparr>"

subsection \<open>Anchor resolution\<close>

text \<open>
  The scan for the nearest top-row particle: \<open>nearestParticle\<close> is the index of
  the particle object the source holds, \<open>minDistance\<close> is \<open>None\<close> while it is
  still \<open>Infinity\<close>.
\<close>

definition nearestStep :: "vec3 \<Rightarrow> particle_m list \<Rightarrow> nat \<Rightarrow> nat option \<times> real option \<Rightarrow> nat option \<times> real option" where
  "nearestStep pivotPos ps i acc =
     (let particle = ps ! i
      in if y_m particle = 0
         then
           let dist = distanceTo (originalPosition particle) pivotPos
           in if (case snd acc of None \<Rightarrow> True | Some minDistance \<Rightarrow> dist < minDistance)
              then (Some i, Some dist)
              else acc
         else acc)"

definition nearestTop :: "vec3 \<Rightarrow> particle_m list \<Rightarrow> nat option \<times> real option" where
  "nearestTop pivotPos ps = fold (nearestStep pivotPos ps) [0..<length ps] (None, None)"

definition attachPivot :: "vec3 \<Rightarrow> particle_m list \<Rightarrow> particle_m list" where
  "attachPivot pivotPos ps =
     (case nearestTop pivotPos ps of
        (Some i, Some minDistance) \<Rightarrow>
          if minDistance < 0.5
          then ps[i := (ps ! i)\<lparr>pinned_m := True, position_m := pivotPos,
                                 previousPosition := pivotPos\<rparr>]
          else ps
      | _ \<Rightarrow> ps)"

definition clearPins :: "particle_m list \<Rightarrow> particle_m list" where
  "clearPins ps = map (\<lambda>p. p\<lparr>pinned_m := False\<rparr>) ps"

definition attachToPivots :: "ClothPhysics \<Rightarrow> ClothPhysics" where
  "attachToPivots s =
     s\<lparr>particles_m := fold attachPivot (pivotPoints s) (clearPins (particles_m s))\<rparr>"

subsection \<open>Construction\<close>

definition initParticle :: "real \<Rightarrow> real \<Rightarrow> nat \<Rightarrow> nat \<Rightarrow> Params \<Rightarrow> nat \<Rightarrow> nat \<Rightarrow> particle_m" where
  "initParticle w h sx sy P gx gy =
     (let segmentWidth = w / real sx; segmentHeight = h / real sy;
          v = vec (real gx * segmentWidth - w / 2) (- real gy * segmentHeight + h / 2) 0
      in \<lparr>position_m = v, previousPosition = v, originalPosition = v,
          velocity = vec 0 0 0, force = vec 0 0 0, mass = mass_p P, pinned_m = False,
          index_m = gy * (sx + 1) + gx, x_m = gx, y_m = gy, active = True,
          cutFactor = 1\<rparr>)"

definition initParticles :: "real \<Rightarrow> real \<Rightarrow> nat \<Rightarrow> nat \<Rightarrow> Params \<Rightarrow> particle_m list" where
  "initParticles w h sx sy P =
     concat (map (\<lambda>gy. map (\<lambda>gx. initParticle w h sx sy P gx gy) [0..<sx + 1]) [0..<sy + 1])"

definition addConstraint :: "particle_m list \<Rightarrow> nat \<Rightarrow> nat \<Rightarrow> real \<Rightarrow> constraint_m list \<Rightarrow> constraint_m list" where
  "addConstraint ps index1 index2 st cs =
     (if \<not> index1 < length ps \<or> \<not> index2 < length ps then cs
      else cs @ [\<lparr>p1_m = index1, p2_m = index2,
                   restLength = distanceTo (position_m (ps ! index1)) (position_m (ps ! index2)),
                   stiffness_m = st, baseStiffness = st, active_c = True\<rparr>])"

definition constraintsAt :: "particle_m list \<Rightarrow> nat \<Rightarrow> nat \<Rightarrow> Params \<Rightarrow> nat \<times> nat \<Rightarrow> constraint_m list \<Rightarrow> constraint_m list" where
  "constraintsAt ps sx sy P g cs =
     (let gx = fst g; gy = snd g; i = gy * (sx + 1) + gx;
          c1 = (if gx < sx then addConstraint ps i (i + 1) (stiffness_p P) cs else cs);
          c2 = (if gy < sy then addConstraint ps i (i + (sx + 1)) (stiffness_p P) c1 else c1);
          c3 = (if gx < sx \<and> gy < sy
                then addConstraint ps (i + 1) (i + (sx + 1)) (stiffness_p P * 0.7)
                       (addConstraint ps i (i + (sx + 1) + 1) (stiffness_p P * 0.7) c2)
                else c2);
          c4 = (if gx + 1 < sx then addConstraint ps i (i + 2) (bendingStiffness P) c3 else c3)
      in if gy + 1 < sy then addConstraint ps i (i + 2 * (sx + 1)) (bendingStiffness P) c4 else c4)"

definition createConstraints :: "ClothPhysics \<Rightarrow> ClothPhysics" where
  "createConstraints s =
     s\<lparr>constraints_m :=
         fold (constraintsAt (particles_m s) (segmentsX_m s) (segmentsY_m s) (params s))
           (concat (map (\<lambda>gy. map (\<lambda>gx. (gx, gy)) [0..<segmentsX_m s + 1])
                      [0..<segmentsY_m s + 1])) []\<rparr>"

definition init :: "ClothPhysics \<Rightarrow> ClothPhysics" where
  "init s =
     createConstraints (attachToPivots
       (s\<lparr>particles_m := initParticles (width_m s) (height_m s) (segmentsX_m s)
                            (segmentsY_m s) (params s),
          constraints_m := [], cutParticles := {}\<rparr>))"

definition newClothPhysics :: "real \<Rightarrow> real \<Rightarrow> nat \<Rightarrow> nat \<Rightarrow> vec3 list \<Rightarrow> ClothPhysics" where
  "newClothPhysics w h sx sy pivots =
     init \<lparr>width_m = w, height_m = h, segmentsX_m = sx, segmentsY_m = sy,
           pivotPoints = pivots, params = defaultParams, particles_m = [],
           constraints_m = [], cutParticles = {}, time = 0\<rparr>"

subsection \<open>Update\<close>

definition applyForce :: "Params \<Rightarrow> real \<Rightarrow> real \<Rightarrow> particle_m \<Rightarrow> particle_m" where
  "applyForce P t r particle =
     (let f1 = (vec 0 0 0)\<lparr>vy := gravity_p P * mass particle\<rparr>;
          windX = sin (t * windFrequency P) * windForce P;
          windZ = cos (t * windFrequency P * 0.7) * windForce P * 0.5;
          turbulence = (r - 0.5) * 0.02;
          f2 = f1\<lparr>vx := vx f1 + (windX + turbulence)\<rparr>;
          f3 = f2\<lparr>vz := vz f2 + (windZ + turbulence * 0.5)\<rparr>
      in particle\<lparr>force := add f3 (multiplyScalar (velocity particle) (- damping_p P))\<rparr>)"

fun applyForces :: "(nat \<Rightarrow> real) \<Rightarrow> nat \<Rightarrow> Params \<Rightarrow> real \<Rightarrow> particle_m list \<Rightarrow> nat \<times> particle_m list" where
  "applyForces rand k P t [] = (k, [])"
| "applyForces rand k P t (particle # ps) =
     (if \<not> pinned_m particle \<and> active particle
      then (let r = applyForces rand (k + 1) P t ps
            in (fst r, applyForce P t (rand k) particle # snd r))
      else (let r = applyForces rand k P t ps in (fst r, particle # snd r)))"

text \<open>
  The body of the Verlet loop for one particle, and the loop.  A free, active
  particle is integrated with two divisions, by \<open>mass\<close> and by \<open>deltaTime\<close>; when
  one of the divisors is zero the particle's new position or velocity is not a
  finite vector, and the model returns \<open>None\<close>.
\<close>

definition verlet :: "real \<Rightarrow> particle_m \<Rightarrow> particle_m option" where
  "verlet deltaTime particle =
     (if \<not> pinned_m particle \<and> active particle
      then
        if mass particle = 0 then None
        else
          let temp = position_m particle;
              pos = add (position_m particle)
                      (add (sub (position_m particle) (previousPosition particle))
                         (multiplyScalar (force particle) (deltaTime * deltaTime / mass particle)))
          in map_option
               (\<lambda>v. particle\<lparr>position_m := pos, previousPosition := temp, velocity := v\<rparr>)
               (divideScalar (sub pos temp) deltaTime)
      else Some particle)"

fun verletAll :: "real \<Rightarrow> particle_m list \<Rightarrow> particle_m list option" where
  "verletAll deltaTime [] = Some []"
| "verletAll deltaTime (particle # ps) =
     (case verlet deltaTime particle of
        None \<Rightarrow> None
      | Some q \<Rightarrow> map_option ((#) q) (verletAll deltaTime ps))"

definition satisfyVisit :: "nat \<Rightarrow> ClothPhysics \<Rightarrow> ClothPhysics" where
  "satisfyVisit j s =
     (let constraint = constraints_m s ! j;
          a = particles_m s ! p1_m constraint;
          b = particles_m s ! p2_m constraint
      in if \<not> active_c constraint \<or> \<not> active a \<or> \<not> active b then s
         else
           let diff = sub (position_m b) (position_m a);
               currentLength = vlength diff
           in if currentLength > 0
              then
                let tearResistance = min (cutFactor a) (cutFactor b);
                    effectiveTearThreshold = tearThreshold (params s) * tearResistance
                in if currentLength > restLength constraint * effectiveTearThreshold
                   then s\<lparr>constraints_m := (constraints_m s)[j := constraint\<lparr>active_c := False\<rparr>]\<rparr>
                   else
                     let correction = multiplyScalar diff
                           ((1 - restLength constraint / currentLength) * stiffness_m constraint)
                     in if \<not> pinned_m a \<and> \<not> pinned_m b
                        then
                          let ps1 = (particles_m s)[p1_m constraint :=
                                      a\<lparr>position_m := add (position_m a) (multiplyScalar correction 0.5)\<rparr>];
                              b1 = ps1 ! p2_m constraint
                          in s\<lparr>particles_m := ps1[p2_m constraint :=
                                      b1\<lparr>position_m := sub (position_m b1) (multiplyScalar correction 0.5)\<rparr>]\<rparr>
                        else if \<not> pinned_m a
                        then s\<lparr>particles_m := (particles_m s)[p1_m constraint :=
                                      a\<lparr>position_m := add (position_m a) correction\<rparr>]\<rparr>
                        else if \<not> pinned_m b
                        then s\<lparr>particles_m := (particles_m s)[p2_m constraint :=
                                      b\<lparr>position_m := sub (position_m b) correction\<rparr>]\<rparr>
                        else s
              else s)"

definition satisfyConstraints :: "ClothPhysics \<Rightarrow> ClothPhysics" where
  "satisfyConstraints s = fold satisfyVisit [0..<length (constraints_m s)] s"

text \<open>
  \<open>update\<close> reassigns its parameter \<open>deltaTime\<close> before anything else reads it;
  \<open>updateWith\<close> is the rest of the body, run with the reassigned value.  The
  result is \<open>None\<close> when the Verlet loop has divided by zero.
\<close>

definition updateWith :: "(nat \<Rightarrow> real) \<Rightarrow> nat \<Rightarrow> real \<Rightarrow> ClothPhysics \<Rightarrow> (nat \<times> ClothPhysics) option" where
  "updateWith rand k deltaTime s =
     (let s1 = s\<lparr>time := time s + deltaTime\<rparr>;
          s2 = attachToPivots s1;
          r = applyForces rand k (params s2) (time s2) (particles_m s2)
      in map_option (\<lambda>ps. (fst r, (satisfyConstraints ^^ 4) (s2\<lparr>particles_m := ps\<rparr>)))
           (verletAll deltaTime (snd r)))"

definition update :: "(nat \<Rightarrow> real) \<Rightarrow> nat \<Rightarrow> real \<Rightarrow> ClothPhysics \<Rightarrow> (nat \<times> ClothPhysics) option" where
  "update rand k deltaTime s =
     updateWith rand k (if deltaTime > 0.02 then 0.02 else deltaTime) s"

subsection \<open>Point cut\<close>

text \<open>
  \<open>cutOrganic\<close> first draws sixteen random radii for an irregular outline.  The
  outline is only read to compute a local flag \<open>inside\<close> that nothing reads, so
  of this part the model keeps the outline and the sixteen draws.
\<close>

definition cutShape :: "(nat \<Rightarrow> real) \<Rightarrow> nat \<Rightarrow> vec3 \<Rightarrow> real \<Rightarrow> (real \<times> real) list" where
  "cutShape rand k center radius =
     map (\<lambda>i. let angle = (real i / 16) * pi * 2;
                   radiusVariation = radius * (0.7 + rand (k + i) * 0.6)
               in (vx center + cos angle * radiusVariation,
                   vz center + sin angle * radiusVariation)) [0..<16]"

definition planarDistance :: "vec3 \<Rightarrow> particle_m \<Rightarrow> real" where
  "planarDistance center particle =
     (let dx = vx (position_m particle) - vx center;
          dz = vz (position_m particle) - vz center
      in sqrt (dx * dx + dz * dz))"

text \<open>
  The body of the particle loop: the new position in the random sequence, the
  particle, and whether its index is added to \<open>cutParticles\<close>.
\<close>

definition cutOrganicParticle :: "(nat \<Rightarrow> real) \<Rightarrow> nat \<Rightarrow> vec3 \<Rightarrow> real \<Rightarrow> particle_m \<Rightarrow> nat \<times> particle_m \<times> bool" where
  "cutOrganicParticle rand k center radius particle =
     (let distance = planarDistance center particle
      in if distance < radius * 1.5
         then
           if distance < radius
           then (k, particle\<lparr>active := False\<rparr>, True)
           else
             let falloff = 1 - (distance - radius) / (radius * 0.5);
                 q = particle\<lparr>cutFactor := max 0.2 (1 - falloff)\<rparr>
             in if rand k > 0.5
                then
                  let pushDirection = normalize (sub (position_m q) center)
                  in (k + 2,
                      q\<lparr>position_m := add (position_m q)
                                          (multiplyScalar pushDirection (rand (k + 1) * 0.1))\<rparr>,
                      False)
                else (k + 1, q, False)
         else (k, particle, False))"

fun cutOrganicParticles :: "(nat \<Rightarrow> real) \<Rightarrow> nat \<Rightarrow> vec3 \<Rightarrow> real \<Rightarrow> particle_m list \<Rightarrow> nat \<times> particle_m list \<times> nat set" where
  "cutOrganicParticles rand k center radius [] = (k, [], {})"
| "cutOrganicParticles rand k center radius (particle # ps) =
     (let r = cutOrganicParticle rand k center radius particle;
          rest = cutOrganicParticles rand (fst r) center radius ps
      in (fst rest, fst (snd r) # fst (snd rest),
          (if snd (snd r) then insert (index_m particle) (snd (snd rest)) else snd (snd rest))))"

definition cutOrganicConstraint :: "particle_m list \<Rightarrow> constraint_m \<Rightarrow> constraint_m" where
  "cutOrganicConstraint ps constraint =
     (let a = ps ! p1_m constraint; b = ps ! p2_m constraint
      in if \<not> active a \<or> \<not> active b then constraint\<lparr>active_c := False\<rparr>
         else if cutFactor a < 1 \<or> cutFactor b < 1
         then
           let factor = min (cutFactor a) (cutFactor b);
               minFactor = 0.5
           in constraint\<lparr>stiffness_m :=
                 max (minFactor * baseStiffness constraint) (factor * baseStiffness constraint)\<rparr>
         else constraint\<lparr>stiffness_m := baseStiffness constraint\<rparr>)"

definition cutOrganic :: "(nat \<Rightarrow> real) \<Rightarrow> nat \<Rightarrow> vec3 \<Rightarrow> real \<Rightarrow> ClothPhysics \<Rightarrow> nat \<times> ClothPhysics" where
  "cutOrganic rand k center radius s =
     (let shape = cutShape rand k center radius;
          r = cutOrganicParticles rand (k + 16) center radius (particles_m s);
          ps = fst (snd r)
      in (fst r,
          s\<lparr>particles_m := ps,
            cutParticles := cutParticles s \<union> snd (snd r),
            constraints_m := map (cutOrganicConstraint ps) (constraints_m s)\<rparr>))"

subsection \<open>Segment cut\<close>

definition distPointToSeg :: "vec3 \<Rightarrow> vec3 \<Rightarrow> vec3 \<Rightarrow> real" where
  "distPointToSeg start endP point =
     (let v = sub endP start;
          l2 = max (1 / 1000000) (lengthSq v);
          t = clamp (dot (sub point start) v / l2) 0 1;
          proj = addScaledVector start v t
      in distanceTo proj point)"

definition cutSegmentParticle :: "vec3 \<Rightarrow> vec3 \<Rightarrow> real \<Rightarrow> particle_m \<Rightarrow> particle_m" where
  "cutSegmentParticle start endP radius p =
     (let shell = radius * 1.6
      in if \<not> active p then p
         else
           let d = distPointToSeg start endP (position_m p)
           in if d \<le> radius then p\<lparr>active := False\<rparr>
              else if d \<le> shell
              then
                let falloff = 1 - (d - radius) / (shell - radius)
                in p\<lparr>cutFactor := min (cutFactor p) (1 - 0.6 * falloff)\<rparr>
              else p)"

definition cutSegmentConstraint :: "vec3 \<Rightarrow> vec3 \<Rightarrow> real \<Rightarrow> particle_m list \<Rightarrow> constraint_m \<Rightarrow> constraint_m" where
  "cutSegmentConstraint start endP radius ps constraint =
     (if \<not> active_c constraint then constraint
      else
        let a = position_m (ps ! p1_m constraint);
            b = position_m (ps ! p2_m constraint);
            ab = sub b a;
            abLenSq = max (1 / 1000000) (lengthSq ab);
            t1 = clamp (dot (sub start a) ab / abLenSq) 0 1;
            t2 = clamp (dot (sub endP a) ab / abLenSq) 0 1;
            c1 = addScaledVector a ab t1;
            c2 = addScaledVector a ab t2;
            d = min (distPointToSeg start endP c1) (distPointToSeg start endP c2)
        in if d \<le> radius \<or> \<not> active (ps ! p1_m constraint) \<or> \<not> active (ps ! p2_m constraint)
           then constraint\<lparr>active_c := False\<rparr>
           else
             let factor = min (cutFactor (ps ! p1_m constraint)) (cutFactor (ps ! p2_m constraint));
                 minFactor = 0.5
             in constraint\<lparr>stiffness_m :=
                   max (minFactor * baseStiffness constraint) (factor * baseStiffness constraint)\<rparr>)"

definition cutAlongSegment :: "vec3 \<Rightarrow> vec3 \<Rightarrow> real \<Rightarrow> ClothPhysics \<Rightarrow> ClothPhysics" where
  "cutAlongSegment start endP radius s =
     (let segLen = vlength (sub endP start)
      in if segLen < 1 / 1000000 then s
         else
           let ps = map (cutSegmentParticle start endP radius) (particles_m s)
           in s\<lparr>particles_m := ps,
                cutParticles := cutParticles s \<union>
                  index_m ` {p \<in> set (particles_m s).
                     active p \<and> distPointToSeg start endP (position_m p) \<le> radius},
                constraints_m := map (cutSegmentConstraint start endP radius ps) (constraints_m s)\<rparr>)"

section \<open>Quantities the source observes\<close>

text \<open>
  The locals \<open>currentDist\<close> of \<open>Cloth.step\<close>, and \<open>currentLength\<close> and
  \<open>effectiveTearThreshold\<close> of \<open>satisfyConstraints\<close>, for the constraint at index \<open>j\<close>.
\<close>

definition currentDist :: "Cloth \<Rightarrow> nat \<Rightarrow> real" where
  "currentDist s j =
     distanceTo (position (particles s ! p2 (constraints s ! j)))
                (position (particles s ! p1 (constraints s ! j)))"

definition currentLength :: "ClothPhysics \<Rightarrow> nat \<Rightarrow> real" where
  "currentLength s j =
     vlength (sub (position_m (particles_m s ! p2_m (constraints_m s ! j)))
                  (position_m (particles_m s ! p1_m (constraints_m s ! j))))"

definition effectiveTearThreshold :: "ClothPhysics \<Rightarrow> nat \<Rightarrow> real" where
  "effectiveTearThreshold s j =
     tearThreshold (params s) *
       min (cutFactor (particles_m s ! p1_m (constraints_m s ! j)))
           (cutFactor (particles_m s ! p2_m (constraints_m s ! j)))"

text \<open>
  The particle that the body of the pivot loop of \<open>attachToPivots\<close> pins for one
  pivot point: the result of its scan, if the scan has found a particle and
  \<open>minDistance < 0.5\<close>.
\<close>

definition pinTarget :: "vec3 \<Rightarrow> particle_m list \<Rightarrow> nat option" where
  "pinTarget pivotPos ps =
     (case nearestTop pivotPos ps of
        (Some i, Some minDistance) \<Rightarrow> if minDistance < 0.5 then Some i else None
      | _ \<Rightarrow> None)"

section \<open>Example states\<close>

text \<open>A cloth of one segment in each direction: four particles, two of them in the top row.\<close>

definition exampleCloth :: Cloth where
  "exampleCloth = newCloth 1 1 1 1 (- 9.81) 0.02 5 1.75"

definition examplePinned :: Cloth where
  "examplePinned =
     exampleCloth\<lparr>particles := (particles exampleCloth)[0 := pinToCurrent (particles exampleCloth ! 0)]\<rparr>"

text \<open>
  A mesh of one segment in each direction for main.js, its particles alone, and the
  same particles after damage: the first top-row particle cut away and displaced,
  the second moved onto the place where the first one was.
\<close>

definition exampleParticles :: "particle_m list" where
  "exampleParticles = initParticles 1 1 1 1 defaultParams"

definition examplePhysics :: ClothPhysics where
  "examplePhysics = newClothPhysics 1 1 1 1 [vec (- (1 / 2)) (1 / 2) 0]"

text \<open>
  The same mesh after four pivot points have been placed: one near the first
  top-row particle, one far from the cloth, one near the second top-row particle,
  and a second one near the first.
\<close>

definition exampleAnchored :: ClothPhysics where
  "exampleAnchored =
     examplePhysics\<lparr>pivotPoints :=
       [vec (- (1 / 2)) (3 / 5) 0, vec 10 (1 / 2) 0, vec (1 / 2) (1 / 2) (1 / 10),
        vec (- (2 / 5)) (1 / 2) 0]\<rparr>"

definition exampleDamaged :: "particle_m list" where
  "exampleDamaged =
     exampleParticles[0 := (exampleParticles ! 0)\<lparr>active := False, position_m := vec 5 5 5\<rparr>,
                      1 := (exampleParticles ! 1)\<lparr>position_m := vec (- (1 / 2)) (1 / 2) 0\<rparr>]"

text \<open>
  Two particles of cloth.js at distance 2 joined by one constraint of rest
  distance 1, before the start; the same with the constraint broken; and a
  started cloth with gravity \<open>-10\<close>, no damping and no relaxation iterations.
\<close>

definition exampleStretched :: Cloth where
  "exampleStretched =
     \<lparr>width = 2, height = 1, segmentsX = 1, segmentsY = 0, gravity = vec 0 (- 9.81) 0,
      damping = 0.02, iterations = 5, tearFactor = 1.75,
      particles = [newParticle 0 0 0 1, newParticle 2 0 0 1],
      constraints = [newConstraint 0 1 1 1], physicsEnabled = False\<rparr>"

definition exampleTorn :: Cloth where
  "exampleTorn = exampleStretched\<lparr>constraints := [(newConstraint 0 1 1 1)\<lparr>broken := True\<rparr>]\<rparr>"

definition exampleRunning :: Cloth where
  "exampleRunning =
     (newCloth 1 1 1 1 (- 10) 0 0 1.75)
       \<lparr>particles := [pinToCurrent (newParticle (- (1 / 2)) 4 0 1), newParticle (1 / 2) 4 0 1,
                      newParticle (- (1 / 2)) 3 0 1, newParticle (1 / 2) 3 0 1],
        physicsEnabled := True\<rparr>"

text \<open>
  For main.js: a particle on the x axis, and meshes of two such particles, at
  \<open>x = 0\<close> and \<open>x = 2\<close>, joined by one constraint.
\<close>

definition particleAt :: "real \<Rightarrow> nat \<Rightarrow> particle_m" where
  "particleAt a i =
     \<lparr>position_m = vec a 0 0, previousPosition = vec a 0 0, originalPosition = vec a 0 0,
      velocity = vec 0 0 0, force = vec 0 0 0, mass = 0.1, pinned_m = False,
      index_m = i, x_m = i, y_m = 0, active = True, cutFactor = 1\<rparr>"

definition constraintOf :: "real \<Rightarrow> real \<Rightarrow> constraint_m" where
  "constraintOf r st =
     \<lparr>p1_m = 0, p2_m = 1, restLength = r, stiffness_m = st, baseStiffness = st,
      active_c = True\<rparr>"

definition meshOf :: "particle_m list \<Rightarrow> constraint_m list \<Rightarrow> ClothPhysics" where
  "meshOf ps cs =
     \<lparr>width_m = 2, height_m = 1, segmentsX_m = 1, segmentsY_m = 0, pivotPoints = [],
      params = defaultParams, particles_m = ps, constraints_m = cs, cutParticles = {},
      time = 0\<rparr>"

definition exampleWeak :: ClothPhysics where
  "exampleWeak = meshOf [(particleAt 0 0)\<lparr>cutFactor := 1 / 2\<rparr>, particleAt 2 1] [constraintOf 1 1]"

definition exampleOver :: ClothPhysics where
  "exampleOver = meshOf [particleAt 0 0, particleAt 2 1] [constraintOf (1 / 2) 1]"

definition exampleSlack :: ClothPhysics where
  "exampleSlack = meshOf [particleAt 0 0, particleAt 2 1] [constraintOf 1 1]"

text \<open>
  A mesh for the cuts: particles at \<open>x = 2\<close> and \<open>x = 10\<close> joined by one constraint of
  stiffness 1; the same with the constraint already inactive.  \<open>zeroRand\<close> is the
  random sequence that is 0 everywhere: with it \<open>cutOrganic\<close> displaces no particle.
\<close>

definition zeroRand :: "nat \<Rightarrow> real" where
  "zeroRand n = 0"

definition exampleCutMesh :: ClothPhysics where
  "exampleCutMesh = meshOf [particleAt 2 0, particleAt 10 1] [constraintOf 8 1]"

definition exampleSevered :: ClothPhysics where
  "exampleSevered =
     meshOf [particleAt 2 0, particleAt 10 1] [(constraintOf 8 1)\<lparr>active_c := False\<rparr>]"

section \<open>Properties\<close>

subsection \<open>Pinned particles and integration\<close>

lemma applyForces_length: "length (snd (applyForces rand k P t ps)) = length ps"
  by (induction ps arbitrary: k) (simp_all add: Let_def)

lemma applyForces_pinned_same:
  "i < length ps \<Longrightarrow> pinned_m (ps ! i) \<Longrightarrow> snd (applyForces rand k P t ps) ! i = ps ! i"
proof (induction ps arbitrary: k i)
  case Nil
  then show ?case by simp
next
  case (Cons p ps)
  show ?case
  proof (cases i)
    case 0
    with Cons.prems show ?thesis by (simp add: Let_def)
  next
    case (Suc n)
    with Cons.prems have "n < length ps" "pinned_m (ps ! n)" by simp_all
    then have "snd (applyForces rand k' P t ps) ! n = ps ! n" for k'
      by (rule Cons.IH)
    with Suc show ?thesis by (simp add: Let_def)
  qed
qed

text \<open>
  Claim C3.  \<open>Particle.integrate\<close> of cloth.js on a pinned particle puts
  \<open>position\<close> and \<open>previous\<close> at \<open>pinPosition\<close> and zeroes the acceleration,
  whatever the previous position (the implicit velocity), the accumulated
  acceleration, the time step and the damping are; a force added before the call
  makes no difference.  In main.js, where particles have no \<open>integrate\<close> method,
  the force loop and the Verlet loop of \<open>update\<close> leave a pinned particle as it is
  (the Verlet step divides by nothing for it, whatever the time step).
\<close>

theorem pinned_integrate:
  "(pinned p \<longrightarrow>
      position (integrate p dt d) = pinPosition p \<and>
      previous (integrate p dt d) = pinPosition p \<and>
      acceleration (integrate p dt d) = vec 0 0 0 \<and>
      pinned (integrate p dt d) \<and>
      integrate (addForce p f) dt d = integrate p dt d) \<and>
   (pinned_m q \<longrightarrow>
      verlet dt q = Some q \<and>
      (\<forall>rand k P t qs i. i < length qs \<and> qs ! i = q \<longrightarrow>
         snd (applyForces rand k P t qs) ! i = q))"
  by (auto simp: integrate_def addForce_def verlet_def applyForces_pinned_same)

theorem pinned_integrate_witness:
  "pinned ((pinToCurrent (newParticle 1 2 3 1))\<lparr>previous := vec 0 0 0\<rparr>) \<and>
   position (integrate (addForce ((pinToCurrent (newParticle 1 2 3 1))\<lparr>previous := vec 0 0 0\<rparr>)
               (vec 0 (- 10) 0)) 1 0) = vec 1 2 3 \<and>
   pinned_m ((initParticle 1 1 1 1 defaultParams 0 0)\<lparr>pinned_m := True, force := vec 0 (- 1) 0\<rparr>) \<and>
   verlet 1 ((initParticle 1 1 1 1 defaultParams 0 0)\<lparr>pinned_m := True, force := vec 0 (- 1) 0\<rparr>)
     = Some ((initParticle 1 1 1 1 defaultParams 0 0)\<lparr>pinned_m := True, force := vec 0 (- 1) 0\<rparr>)"
  using pinned_integrate [of "(pinToCurrent (newParticle 1 2 3 1))\<lparr>previous := vec 0 0 0\<rparr>" 1 0
      "vec 0 (- 10) 0"
      "(initParticle 1 1 1 1 defaultParams 0 0)\<lparr>pinned_m := True, force := vec 0 (- 1) 0\<rparr>"]
  by (simp add: pinToCurrent_def newParticle_def)

subsection \<open>Pin flags under relaxation\<close>

lemma map_update_same: "f v = f (xs ! i) \<Longrightarrow> map f (xs[i := v]) = map f xs"
  by (cases "i < length xs") (simp_all add: map_update list_update_same_conv list_update_beyond)

lemma map_eq_nth: "map f xs = map f ys \<Longrightarrow> i < length ys \<Longrightarrow> f (xs ! i) = f (ys ! i)"
  by (metis length_map nth_map)

lemma satisfy_length: "length (satisfy c ps) = length ps"
  by (simp add: satisfy_def Let_def)

lemma satisfy_pinned: "map pinned (satisfy c ps) = map pinned ps"
  by (simp add: satisfy_def Let_def map_update_same)

lemma relaxVisit_pinned: "map pinned (particles (relaxVisit j s)) = map pinned (particles s)"
  by (simp add: relaxVisit_def Let_def satisfy_pinned)

lemma relaxVisit_enabled: "physicsEnabled (relaxVisit j s) = physicsEnabled s"
  by (simp add: relaxVisit_def Let_def)

lemma fold_relaxVisit_pinned:
  "map pinned (particles (fold relaxVisit js s)) = map pinned (particles s)"
  by (induction js arbitrary: s) (simp_all add: relaxVisit_pinned)

lemma fold_relaxVisit_enabled:
  "physicsEnabled (fold relaxVisit js s) = physicsEnabled s"
  by (induction js arbitrary: s) (simp_all add: relaxVisit_enabled)

lemma relaxPass_pinned: "map pinned (particles (relaxPass s)) = map pinned (particles s)"
  by (simp add: relaxPass_def fold_relaxVisit_pinned)

lemma relaxPass_enabled: "physicsEnabled (relaxPass s) = physicsEnabled s"
  by (simp add: relaxPass_def fold_relaxVisit_enabled)

lemma sagCol_pinned: "map pinned (sagCol topRow l sp ms yb col ps) = map pinned ps"
  by (simp add: sagCol_def Let_def map_update_same)

lemma fold_sagCol_pinned:
  "map pinned (fold (sagCol topRow l sp ms yb) cols ps) = map pinned ps"
  by (induction cols arbitrary: ps) (simp_all add: sagCol_pinned)

lemma sagSpan_pinned: "map pinned (sagSpan topRow pc dx a ps) = map pinned ps"
  by (simp add: sagSpan_def Let_def fold_sagCol_pinned)

lemma fold_sagSpan_pinned: "map pinned (fold (sagSpan topRow pc dx) as ps) = map pinned ps"
  by (induction as arbitrary: ps) (simp_all add: sagSpan_pinned)

lemma funpow_sagSpan_pinned:
  "map pinned (((fold (sagSpan topRow pc dx) as) ^^ n) ps) = map pinned ps"
  by (induction n) (simp_all add: fold_sagSpan_pinned)

lemma applyPreSag_pinned:
  "map pinned (particles (applyPreSagOnTopRow s n)) = map pinned (particles s)"
  by (simp add: applyPreSagOnTopRow_def Let_def funpow_sagSpan_pinned)

lemma applyPreSag_enabled: "physicsEnabled (applyPreSagOnTopRow s n) = physicsEnabled s"
  by (simp add: applyPreSagOnTopRow_def Let_def)

lemma relaxRound_pinned: "map pinned (particles (relaxRound s)) = map pinned (particles s)"
  by (simp add: relaxRound_def Let_def applyPreSag_pinned relaxPass_pinned)

lemma relaxRound_enabled: "physicsEnabled (relaxRound s) = physicsEnabled s"
  by (simp add: relaxRound_def Let_def applyPreSag_enabled relaxPass_enabled)

lemma funpow_relaxRound_pinned:
  "map pinned (particles ((relaxRound ^^ n) s)) = map pinned (particles s)"
  by (induction n) (simp_all add: relaxRound_pinned)

lemma funpow_relaxRound_enabled:
  "physicsEnabled ((relaxRound ^^ n) s) = physicsEnabled s"
  by (induction n) (simp_all add: relaxRound_enabled)

lemma relaxConstraints_pinned:
  "map pinned (particles (relaxConstraints s)) = map pinned (particles s)"
  by (simp add: relaxConstraints_def Let_def applyPreSag_pinned funpow_relaxRound_pinned)

lemma relaxConstraints_enabled:
  "physicsEnabled (relaxConstraints s) = physicsEnabled s"
  by (simp add: relaxConstraints_def Let_def applyPreSag_enabled funpow_relaxRound_enabled)

lemma topRow_member: "(i \<in> set (topRowIndices s)) = (i \<le> segmentsX s)"
  by (auto simp: topRowIndices_def idx_def)

subsection \<open>The example cloth\<close>

lemma upt2: "[0..<2] = [0, 1]"
  by (simp add: upt_rec)

lemma exampleCloth_particles:
  "particles exampleCloth =
     [newParticle (- 1 / 2) 4 0 1, newParticle (1 / 2) 4 0 1,
      pinToCurrent (newParticle (- 1 / 2) 3 0 1), pinToCurrent (newParticle (1 / 2) 3 0 1)]"
  by (simp add: exampleCloth_def newCloth_def gridParticles_def pinBelowTop_def idx_def upt2 Let_def)

lemma exampleCloth_fields:
  "segmentsX exampleCloth = 1" "segmentsY exampleCloth = 1" "\<not> physicsEnabled exampleCloth"
  by (simp_all add: exampleCloth_def newCloth_def)

lemma exampleCloth_unpinned: "\<not> hasConstraintPoints exampleCloth"
  by (simp add: hasConstraintPoints_def exampleCloth_particles exampleCloth_fields
        topRowIndices_def upt2 idx_def newParticle_def)

lemma examplePinned_pinned: "hasConstraintPoints examplePinned"
  by (simp add: hasConstraintPoints_def examplePinned_def exampleCloth_particles
        exampleCloth_fields topRowIndices_def upt2 idx_def newParticle_def pinToCurrent_def)

subsection \<open>Starting the simulation\<close>

text \<open>
  Claim C8.  \<open>startSimulation\<close> looks for a pinned particle among the top-row
  indices.  If there is none it returns \<open>false\<close> and the cloth is exactly as
  before (no position or pin flag is modified, \<open>physicsEnabled\<close> keeps its value);
  if there is one it returns \<open>true\<close> and \<open>physicsEnabled\<close> is set.
\<close>

theorem startSimulation_precondition:
  "(\<not> hasConstraintPoints s \<longrightarrow> startSimulation s = (False, s)) \<and>
   (hasConstraintPoints s \<longrightarrow>
      fst (startSimulation s) \<and> physicsEnabled (snd (startSimulation s))) \<and>
   hasConstraintPoints s =
     (\<exists>gx \<le> segmentsX s. pinned (particles s ! idx (segmentsX s) gx 0))"
proof -
  have "hasConstraintPoints s = (\<exists>i \<in> set (topRowIndices s). pinned (particles s ! i))"
    by (simp add: hasConstraintPoints_def list_ex_iff)
  also have "\<dots> = (\<exists>gx \<le> segmentsX s. pinned (particles s ! idx (segmentsX s) gx 0))"
    by (auto simp: topRow_member idx_def)
  finally show ?thesis
    by (simp add: startSimulation_def Let_def)
qed

theorem startSimulation_precondition_witness:
  "\<not> hasConstraintPoints exampleCloth \<and>
   startSimulation exampleCloth = (False, exampleCloth) \<and>
   hasConstraintPoints examplePinned \<and>
   fst (startSimulation examplePinned) \<and>
   physicsEnabled (snd (startSimulation examplePinned))"
  using startSimulation_precondition [of exampleCloth]
    startSimulation_precondition [of examplePinned]
    exampleCloth_unpinned examplePinned_pinned
  by simp

subsection \<open>Toggling a pin\<close>

text \<open>
  Claim C9.  \<open>togglePin\<close> returns \<open>false\<close> and leaves the whole cloth as it is
  when the index is outside the particle array, when it is not an index of the
  top row (the top row is the indices \<open>0 .. segmentsX\<close>), and when physics is
  already enabled.  Otherwise, before the start and on a top-row index, the pin
  flag of that particle is inverted, no other pin flag changes, and the value
  returned is the new flag.  Every case returns a boolean.
\<close>

theorem togglePin_noop:
  "((index < 0 \<or> int (length (particles s)) \<le> index \<or> nat index \<notin> set (topRowIndices s)
       \<or> physicsEnabled s) \<longrightarrow>
      togglePin s index = (False, s)) \<and>
   (0 \<le> index \<and> index < int (length (particles s)) \<and> nat index \<in> set (topRowIndices s)
       \<and> \<not> physicsEnabled s \<longrightarrow>
      fst (togglePin s index) = (\<not> pinned (particles s ! nat index)) \<and>
      pinned (particles (snd (togglePin s index)) ! nat index)
        = (\<not> pinned (particles s ! nat index)) \<and>
      (\<forall>j. j < length (particles s) \<and> j \<noteq> nat index \<longrightarrow>
         pinned (particles (snd (togglePin s index)) ! j) = pinned (particles s ! j)) \<and>
      length (particles (snd (togglePin s index))) = length (particles s) \<and>
      \<not> physicsEnabled (snd (togglePin s index))) \<and>
   (nat index \<in> set (topRowIndices s)) = (nat index \<le> segmentsX s)"
proof (intro conjI impI)
  assume "index < 0 \<or> int (length (particles s)) \<le> index \<or> nat index \<notin> set (topRowIndices s)
       \<or> physicsEnabled s"
  then show "togglePin s index = (False, s)"
    by (auto simp: togglePin_def)
next
  show "(nat index \<in> set (topRowIndices s)) = (nat index \<le> segmentsX s)"
    by (rule topRow_member)
next
  assume a: "0 \<le> index \<and> index < int (length (particles s)) \<and> nat index \<in> set (topRowIndices s)
       \<and> \<not> physicsEnabled s"
  define i where "i = nat index"
  define p where "p = particles s ! i"
  define s1 where
    "s1 = s\<lparr>particles := (particles s)[i := (if pinned p then unpin p else pinToCurrent p)]\<rparr>"
  from a have i: "i < length (particles s)" by (simp add: i_def nat_less_iff)
  from a have tp:
    "togglePin s index = (pinned (particles (relaxConstraints s1) ! i), relaxConstraints s1)"
    by (simp add: togglePin_def Let_def s1_def p_def i_def)
  have m: "map pinned (particles (relaxConstraints s1)) = map pinned (particles s1)"
    by (rule relaxConstraints_pinned)
  have l1: "length (particles s1) = length (particles s)" by (simp add: s1_def)
  from m have len: "length (particles (relaxConstraints s1)) = length (particles s)"
    using l1 by (metis length_map)
  have nth: "pinned (particles (relaxConstraints s1) ! j) = pinned (particles s1 ! j)"
    if "j < length (particles s)" for j
    using map_eq_nth [OF m] that l1 by simp
  have pi: "pinned (particles s1 ! i) = (\<not> pinned p)"
    using i by (simp add: s1_def unpin_def pinToCurrent_def)
  have pj: "pinned (particles s1 ! j) = pinned (particles s ! j)" if "j \<noteq> i" for j
    using that by (simp add: s1_def)
  have en: "\<not> physicsEnabled (relaxConstraints s1)"
    using a by (simp add: relaxConstraints_enabled s1_def)
  show "fst (togglePin s index) = (\<not> pinned (particles s ! nat index))"
    using tp nth [OF i] pi by (simp add: p_def i_def)
  show "pinned (particles (snd (togglePin s index)) ! nat index)
        = (\<not> pinned (particles s ! nat index))"
    using tp nth [OF i] pi by (simp add: p_def i_def)
  show "\<forall>j. j < length (particles s) \<and> j \<noteq> nat index \<longrightarrow>
         pinned (particles (snd (togglePin s index)) ! j) = pinned (particles s ! j)"
    using tp nth pj by (simp add: i_def)
  show "length (particles (snd (togglePin s index))) = length (particles s)"
    using tp len by simp
  show "\<not> physicsEnabled (snd (togglePin s index))"
    using tp en by simp
qed

theorem togglePin_noop_witness:
  "togglePin exampleCloth 7 = (False, exampleCloth) \<and>
   togglePin exampleCloth (- 1) = (False, exampleCloth) \<and>
   togglePin exampleCloth 2 = (False, exampleCloth) \<and>
   togglePin (examplePinned\<lparr>physicsEnabled := True\<rparr>) 0
     = (False, examplePinned\<lparr>physicsEnabled := True\<rparr>) \<and>
   fst (togglePin exampleCloth 0) \<and>
   pinned (particles (snd (togglePin exampleCloth 0)) ! 0) \<and>
   \<not> fst (togglePin examplePinned 0)"
  using togglePin_noop [of 7 exampleCloth] togglePin_noop [of "- 1" exampleCloth]
    togglePin_noop [of 2 exampleCloth]
    togglePin_noop [of 0 "examplePinned\<lparr>physicsEnabled := True\<rparr>"]
    togglePin_noop [of 0 exampleCloth] togglePin_noop [of 0 examplePinned]
  by (simp add: exampleCloth_particles exampleCloth_fields examplePinned_def newParticle_def
        pinToCurrent_def)

subsection \<open>Anchor resolution\<close>

lemma nearest_scan:
  "n \<le> length ps \<Longrightarrow>
     (fold (nearestStep pv ps) [0..<n] (None, None) = (None, None) \<and>
        (\<forall>j<n. y_m (ps ! j) \<noteq> 0)) \<or>
     (\<exists>i. fold (nearestStep pv ps) [0..<n] (None, None)
            = (Some i, Some (distanceTo (originalPosition (ps ! i)) pv)) \<and>
          i < n \<and> y_m (ps ! i) = 0 \<and>
          (\<forall>j<n. y_m (ps ! j) = 0 \<longrightarrow>
             distanceTo (originalPosition (ps ! i)) pv \<le> distanceTo (originalPosition (ps ! j)) pv) \<and>
          (\<forall>j<i. y_m (ps ! j) = 0 \<longrightarrow>
             distanceTo (originalPosition (ps ! i)) pv < distanceTo (originalPosition (ps ! j)) pv))"
proof (induction n)
  case 0
  then show ?case by simp
next
  case (Suc n)
  then have IH:
    "(fold (nearestStep pv ps) [0..<n] (None, None) = (None, None) \<and>
        (\<forall>j<n. y_m (ps ! j) \<noteq> 0)) \<or>
     (\<exists>i. fold (nearestStep pv ps) [0..<n] (None, None)
            = (Some i, Some (distanceTo (originalPosition (ps ! i)) pv)) \<and>
          i < n \<and> y_m (ps ! i) = 0 \<and>
          (\<forall>j<n. y_m (ps ! j) = 0 \<longrightarrow>
             distanceTo (originalPosition (ps ! i)) pv \<le> distanceTo (originalPosition (ps ! j)) pv) \<and>
          (\<forall>j<i. y_m (ps ! j) = 0 \<longrightarrow>
             distanceTo (originalPosition (ps ! i)) pv < distanceTo (originalPosition (ps ! j)) pv))"
    by simp
  have step: "fold (nearestStep pv ps) [0..<Suc n] (None, None)
      = nearestStep pv ps n (fold (nearestStep pv ps) [0..<n] (None, None))"
    by simp
  from IH show ?case
  proof
    assume a: "fold (nearestStep pv ps) [0..<n] (None, None) = (None, None) \<and>
        (\<forall>j<n. y_m (ps ! j) \<noteq> 0)"
    show ?thesis
    proof (cases "y_m (ps ! n) = 0")
      case True
      with a have "fold (nearestStep pv ps) [0..<Suc n] (None, None)
          = (Some n, Some (distanceTo (originalPosition (ps ! n)) pv))"
        by (simp add: nearestStep_def Let_def)
      with a True show ?thesis
        by (intro disjI2 exI [of _ n]) (auto simp: less_Suc_eq)
    next
      case False
      with a have "fold (nearestStep pv ps) [0..<Suc n] (None, None) = (None, None)"
        by (simp add: nearestStep_def Let_def)
      with a False show ?thesis
        by (auto simp: less_Suc_eq)
    qed
  next
    assume "\<exists>i. fold (nearestStep pv ps) [0..<n] (None, None)
            = (Some i, Some (distanceTo (originalPosition (ps ! i)) pv)) \<and>
          i < n \<and> y_m (ps ! i) = 0 \<and>
          (\<forall>j<n. y_m (ps ! j) = 0 \<longrightarrow>
             distanceTo (originalPosition (ps ! i)) pv \<le> distanceTo (originalPosition (ps ! j)) pv) \<and>
          (\<forall>j<i. y_m (ps ! j) = 0 \<longrightarrow>
             distanceTo (originalPosition (ps ! i)) pv < distanceTo (originalPosition (ps ! j)) pv)"
    then obtain i where f: "fold (nearestStep pv ps) [0..<n] (None, None)
            = (Some i, Some (distanceTo (originalPosition (ps ! i)) pv))"
      and i: "i < n" "y_m (ps ! i) = 0"
      and le: "\<forall>j<n. y_m (ps ! j) = 0 \<longrightarrow>
             distanceTo (originalPosition (ps ! i)) pv \<le> distanceTo (originalPosition (ps ! j)) pv"
      and lt: "\<forall>j<i. y_m (ps ! j) = 0 \<longrightarrow>
             distanceTo (originalPosition (ps ! i)) pv < distanceTo (originalPosition (ps ! j)) pv"
      by blast
    show ?thesis
    proof (cases "y_m (ps ! n) = 0 \<and>
        distanceTo (originalPosition (ps ! n)) pv < distanceTo (originalPosition (ps ! i)) pv")
      case True
      with f have "fold (nearestStep pv ps) [0..<Suc n] (None, None)
          = (Some n, Some (distanceTo (originalPosition (ps ! n)) pv))"
        by (simp add: nearestStep_def Let_def)
      moreover from True le have "\<forall>j<Suc n. y_m (ps ! j) = 0 \<longrightarrow>
             distanceTo (originalPosition (ps ! n)) pv \<le> distanceTo (originalPosition (ps ! j)) pv"
        by (force simp: less_Suc_eq)
      moreover from True le have "\<forall>j<n. y_m (ps ! j) = 0 \<longrightarrow>
             distanceTo (originalPosition (ps ! n)) pv < distanceTo (originalPosition (ps ! j)) pv"
        by force
      ultimately show ?thesis using True
        by (intro disjI2 exI [of _ n]) simp
    next
      case False
      with f have "fold (nearestStep pv ps) [0..<Suc n] (None, None)
          = (Some i, Some (distanceTo (originalPosition (ps ! i)) pv))"
        by (auto simp: nearestStep_def Let_def)
      moreover from False le have "\<forall>j<Suc n. y_m (ps ! j) = 0 \<longrightarrow>
             distanceTo (originalPosition (ps ! i)) pv \<le> distanceTo (originalPosition (ps ! j)) pv"
        by (force simp: less_Suc_eq)
      ultimately show ?thesis using i lt
        by (intro disjI2 exI [of _ i]) simp
    qed
  qed
qed

lemma nearestTop_none:
  "\<forall>j<length ps. y_m (ps ! j) \<noteq> 0 \<Longrightarrow> nearestTop pv ps = (None, None)"
  using nearest_scan [of "length ps" ps pv] by (auto simp: nearestTop_def)

lemma nearestTop_some:
  "\<exists>j<length ps. y_m (ps ! j) = 0 \<Longrightarrow>
     \<exists>i<length ps. nearestTop pv ps = (Some i, Some (distanceTo (originalPosition (ps ! i)) pv)) \<and>
        y_m (ps ! i) = 0 \<and>
        (\<forall>j<length ps. y_m (ps ! j) = 0 \<longrightarrow>
           distanceTo (originalPosition (ps ! i)) pv \<le> distanceTo (originalPosition (ps ! j)) pv) \<and>
        (\<forall>j<i. y_m (ps ! j) = 0 \<longrightarrow>
           distanceTo (originalPosition (ps ! i)) pv < distanceTo (originalPosition (ps ! j)) pv)"
  using nearest_scan [of "length ps" ps pv] by (auto simp: nearestTop_def)

lemma attachPivot_none:
  "\<forall>j<length ps. y_m (ps ! j) = 0 \<longrightarrow> \<not> distanceTo (originalPosition (ps ! j)) pv < 0.5 \<Longrightarrow>
     attachPivot pv ps = ps"
proof (cases "\<exists>j<length ps. y_m (ps ! j) = 0")
  case True
  assume far: "\<forall>j<length ps. y_m (ps ! j) = 0 \<longrightarrow> \<not> distanceTo (originalPosition (ps ! j)) pv < 0.5"
  from nearestTop_some [OF True, of pv] obtain i where
    "i < length ps" "nearestTop pv ps = (Some i, Some (distanceTo (originalPosition (ps ! i)) pv))"
    "y_m (ps ! i) = 0" by blast
  with far show ?thesis by (simp add: attachPivot_def)
next
  case False
  then have "nearestTop pv ps = (None, None)" by (intro nearestTop_none) auto
  then show ?thesis by (simp add: attachPivot_def)
qed

lemma attachPivot_some:
  assumes "\<exists>j<length ps. y_m (ps ! j) = 0 \<and> distanceTo (originalPosition (ps ! j)) pv < 0.5"
  shows "\<exists>i<length ps. y_m (ps ! i) = 0 \<and> distanceTo (originalPosition (ps ! i)) pv < 0.5 \<and>
        (\<forall>j<length ps. y_m (ps ! j) = 0 \<longrightarrow>
           distanceTo (originalPosition (ps ! i)) pv \<le> distanceTo (originalPosition (ps ! j)) pv) \<and>
        (\<forall>j<i. y_m (ps ! j) = 0 \<longrightarrow>
           distanceTo (originalPosition (ps ! i)) pv < distanceTo (originalPosition (ps ! j)) pv) \<and>
        attachPivot pv ps = ps[i := (ps ! i)\<lparr>pinned_m := True, position_m := pv,
                                           previousPosition := pv\<rparr>]"
proof -
  from assms obtain j where j: "j < length ps" "y_m (ps ! j) = 0"
    "distanceTo (originalPosition (ps ! j)) pv < 0.5" by blast
  then have "\<exists>j<length ps. y_m (ps ! j) = 0" by blast
  from nearestTop_some [OF this, of pv] obtain i where i: "i < length ps"
    "nearestTop pv ps = (Some i, Some (distanceTo (originalPosition (ps ! i)) pv))"
    "y_m (ps ! i) = 0"
    "\<forall>j<length ps. y_m (ps ! j) = 0 \<longrightarrow>
       distanceTo (originalPosition (ps ! i)) pv \<le> distanceTo (originalPosition (ps ! j)) pv"
    "\<forall>j<i. y_m (ps ! j) = 0 \<longrightarrow>
       distanceTo (originalPosition (ps ! i)) pv < distanceTo (originalPosition (ps ! j)) pv"
    by blast
  from i(4) j have near: "distanceTo (originalPosition (ps ! i)) pv < 0.5" by force
  with i(2) have "attachPivot pv ps = ps[i := (ps ! i)\<lparr>pinned_m := True, position_m := pv,
                                           previousPosition := pv\<rparr>]"
    by (simp add: attachPivot_def)
  with i near show ?thesis by blast
qed

lemma attachPivot_cases:
  "attachPivot pv ps = ps \<or>
   (\<exists>i<length ps. y_m (ps ! i) = 0 \<and>
      attachPivot pv ps = ps[i := (ps ! i)\<lparr>pinned_m := True, position_m := pv,
                                         previousPosition := pv\<rparr>])"
proof (cases "\<exists>j<length ps. y_m (ps ! j) = 0 \<and> distanceTo (originalPosition (ps ! j)) pv < 0.5")
  case True
  from attachPivot_some [OF True] show ?thesis by blast
next
  case False
  then have "attachPivot pv ps = ps" by (intro attachPivot_none) blast
  then show ?thesis by simp
qed

lemma attachPivot_length: "length (attachPivot pv ps) = length ps"
  using attachPivot_cases [of pv ps] by auto

lemma attachPivot_y: "map y_m (attachPivot pv ps) = map y_m ps"
  using attachPivot_cases [of pv ps] by (auto simp: map_update_same)

lemma fold_attachPivot_length: "length (fold attachPivot pvs ps) = length ps"
  by (induction pvs arbitrary: ps) (simp_all add: attachPivot_length)

lemma fold_attachPivot_y: "map y_m (fold attachPivot pvs ps) = map y_m ps"
  by (induction pvs arbitrary: ps) (simp_all add: attachPivot_y)

lemma attachPivot_top_only:
  assumes "\<forall>i<length ps. pinned_m (ps ! i) \<longrightarrow> y_m (ps ! i) = 0"
  shows "\<forall>i<length (attachPivot pv ps). pinned_m (attachPivot pv ps ! i) \<longrightarrow>
           y_m (attachPivot pv ps ! i) = 0"
  using attachPivot_cases [of pv ps] assms by (auto simp: nth_list_update split: if_splits)

lemma fold_attachPivot_top_only:
  "\<forall>i<length ps. pinned_m (ps ! i) \<longrightarrow> y_m (ps ! i) = 0 \<Longrightarrow>
   \<forall>i<length (fold attachPivot pvs ps). pinned_m (fold attachPivot pvs ps ! i) \<longrightarrow>
           y_m (fold attachPivot pvs ps ! i) = 0"
proof (induction pvs arbitrary: ps)
  case Nil
  then show ?case by simp
next
  case (Cons pv pvs)
  from attachPivot_top_only [OF Cons.prems, of pv] show ?case
    by (simp add: Cons.IH)
qed

lemma filter_update_le: "length (filter P (xs[i := v])) \<le> Suc (length (filter P xs))"
proof (induction xs arbitrary: i)
  case Nil
  then show ?case by simp
next
  case (Cons x xs)
  show ?case
  proof (cases i)
    case 0
    then show ?thesis by simp
  next
    case (Suc n)
    with Cons.IH [of n] show ?thesis by simp
  qed
qed

lemma attachPivot_count:
  "length (filter pinned_m (attachPivot pv ps)) \<le> Suc (length (filter pinned_m ps))"
  using attachPivot_cases [of pv ps] filter_update_le [of pinned_m ps] by auto

lemma fold_attachPivot_count:
  "length (filter pinned_m (fold attachPivot pvs ps)) \<le> length pvs + length (filter pinned_m ps)"
proof (induction pvs arbitrary: ps)
  case Nil
  then show ?case by simp
next
  case (Cons pv pvs)
  have "length (filter pinned_m (fold attachPivot pvs (attachPivot pv ps)))
      \<le> length pvs + length (filter pinned_m (attachPivot pv ps))"
    by (rule Cons.IH)
  with attachPivot_count [of pv ps] show ?case by simp
qed

lemma clearPins_none: "filter pinned_m (clearPins ps) = []"
  by (induction ps) (simp_all add: clearPins_def)

lemma clearPins_forget: "clearPins (map (\<lambda>p. p\<lparr>pinned_m := f p\<rparr>) ps) = clearPins ps"
  by (simp add: clearPins_def)

lemma nearestTop_fields:
  assumes "length qs = length ps" "map y_m qs = map y_m ps"
    "map originalPosition qs = map originalPosition ps"
  shows "nearestTop pv qs = nearestTop pv ps"
proof -
  have "fold (nearestStep pv qs) [0..<length ps] (None, None)
      = fold (nearestStep pv ps) [0..<length ps] (None, None)"
  proof (rule fold_cong)
    fix i assume "i \<in> set [0..<length ps]"
    then have i: "i < length ps" by simp
    from map_eq_nth [OF assms(2) i] map_eq_nth [OF assms(3) i]
    show "nearestStep pv qs i = nearestStep pv ps i"
      by (simp add: nearestStep_def Let_def fun_eq_iff)
  qed simp_all
  with assms(1) show ?thesis by (simp add: nearestTop_def)
qed

lemma attachPivot_original: "map originalPosition (attachPivot pv ps) = map originalPosition ps"
  using attachPivot_cases [of pv ps] by (auto simp: map_update_same)

lemma fold_attachPivot_original:
  "map originalPosition (fold attachPivot pvs ps) = map originalPosition ps"
  by (induction pvs arbitrary: ps) (simp_all add: attachPivot_original)

lemma pinTarget_fold:
  "pinTarget pv (fold attachPivot pvs (clearPins ps)) = pinTarget pv ps"
proof -
  have "nearestTop pv (fold attachPivot pvs (clearPins ps)) = nearestTop pv ps"
    by (rule nearestTop_fields)
       (simp_all add: fold_attachPivot_length fold_attachPivot_y fold_attachPivot_original
          clearPins_def comp_def)
  then show ?thesis by (simp add: pinTarget_def)
qed

lemma attachPivot_target:
  "attachPivot pv ps =
     (case pinTarget pv ps of
        None \<Rightarrow> ps
      | Some i \<Rightarrow> ps[i := (ps ! i)\<lparr>pinned_m := True, position_m := pv, previousPosition := pv\<rparr>])"
  by (simp add: attachPivot_def pinTarget_def split: prod.splits option.splits)

lemma pinTarget_iff:
  "(pinTarget pv ps = Some i) =
     (i < length ps \<and> y_m (ps ! i) = 0 \<and> distanceTo (originalPosition (ps ! i)) pv < 0.5 \<and>
      (\<forall>j<length ps. y_m (ps ! j) = 0 \<longrightarrow>
         distanceTo (originalPosition (ps ! i)) pv \<le> distanceTo (originalPosition (ps ! j)) pv) \<and>
      (\<forall>j<i. y_m (ps ! j) = 0 \<longrightarrow>
         distanceTo (originalPosition (ps ! i)) pv < distanceTo (originalPosition (ps ! j)) pv))"
proof (cases "\<exists>j<length ps. y_m (ps ! j) = 0")
  case False
  then have "nearestTop pv ps = (None, None)" by (intro nearestTop_none) auto
  with False show ?thesis by (auto simp: pinTarget_def)
next
  case True
  from nearestTop_some [OF True, of pv] obtain k where k: "k < length ps"
    "nearestTop pv ps = (Some k, Some (distanceTo (originalPosition (ps ! k)) pv))"
    "y_m (ps ! k) = 0"
    "\<forall>j<length ps. y_m (ps ! j) = 0 \<longrightarrow>
       distanceTo (originalPosition (ps ! k)) pv \<le> distanceTo (originalPosition (ps ! j)) pv"
    "\<forall>j<k. y_m (ps ! j) = 0 \<longrightarrow>
       distanceTo (originalPosition (ps ! k)) pv < distanceTo (originalPosition (ps ! j)) pv"
    by blast
  have t: "pinTarget pv ps
      = (if distanceTo (originalPosition (ps ! k)) pv < 0.5 then Some k else None)"
    by (simp add: pinTarget_def k(2))
  show ?thesis
  proof
    assume "pinTarget pv ps = Some i"
    with t have "i = k" "distanceTo (originalPosition (ps ! k)) pv < 0.5"
      by (simp_all split: if_splits)
    with k show "i < length ps \<and> y_m (ps ! i) = 0 \<and> distanceTo (originalPosition (ps ! i)) pv < 0.5 \<and>
      (\<forall>j<length ps. y_m (ps ! j) = 0 \<longrightarrow>
         distanceTo (originalPosition (ps ! i)) pv \<le> distanceTo (originalPosition (ps ! j)) pv) \<and>
      (\<forall>j<i. y_m (ps ! j) = 0 \<longrightarrow>
         distanceTo (originalPosition (ps ! i)) pv < distanceTo (originalPosition (ps ! j)) pv)"
      by simp
  next
    assume a: "i < length ps \<and> y_m (ps ! i) = 0 \<and> distanceTo (originalPosition (ps ! i)) pv < 0.5 \<and>
      (\<forall>j<length ps. y_m (ps ! j) = 0 \<longrightarrow>
         distanceTo (originalPosition (ps ! i)) pv \<le> distanceTo (originalPosition (ps ! j)) pv) \<and>
      (\<forall>j<i. y_m (ps ! j) = 0 \<longrightarrow>
         distanceTo (originalPosition (ps ! i)) pv < distanceTo (originalPosition (ps ! j)) pv)"
    have ik: "distanceTo (originalPosition (ps ! i)) pv \<le> distanceTo (originalPosition (ps ! k)) pv"
      using a k(1,3) by blast
    have ki: "distanceTo (originalPosition (ps ! k)) pv \<le> distanceTo (originalPosition (ps ! i)) pv"
      using a k(4) by blast
    have "\<not> k < i"
    proof
      assume "k < i"
      with a k(3) have "distanceTo (originalPosition (ps ! i)) pv
          < distanceTo (originalPosition (ps ! k)) pv" by blast
      with ki show False by simp
    qed
    moreover have "\<not> i < k"
    proof
      assume "i < k"
      with a k(5) have "distanceTo (originalPosition (ps ! k)) pv
          < distanceTo (originalPosition (ps ! i)) pv" by blast
      with ik show False by simp
    qed
    ultimately have "i = k" by simp
    with a t show "pinTarget pv ps = Some i" by simp
  qed
qed

lemma pinTarget_none_iff:
  "(pinTarget pv ps = None) =
     (\<forall>j<length ps. y_m (ps ! j) = 0 \<longrightarrow> \<not> distanceTo (originalPosition (ps ! j)) pv < 0.5)"
proof
  assume n: "pinTarget pv ps = None"
  show "\<forall>j<length ps. y_m (ps ! j) = 0 \<longrightarrow> \<not> distanceTo (originalPosition (ps ! j)) pv < 0.5"
  proof (intro allI impI notI)
    fix j assume j: "j < length ps" "y_m (ps ! j) = 0"
      "distanceTo (originalPosition (ps ! j)) pv < 0.5"
    then have "\<exists>j<length ps. y_m (ps ! j) = 0" by blast
    from nearestTop_some [OF this, of pv] obtain k where k:
      "nearestTop pv ps = (Some k, Some (distanceTo (originalPosition (ps ! k)) pv))"
      "\<forall>j<length ps. y_m (ps ! j) = 0 \<longrightarrow>
         distanceTo (originalPosition (ps ! k)) pv \<le> distanceTo (originalPosition (ps ! j)) pv"
      by blast
    from k(2) j have "distanceTo (originalPosition (ps ! k)) pv < 0.5" by force
    with k(1) n show False by (simp add: pinTarget_def)
  qed
next
  assume "\<forall>j<length ps. y_m (ps ! j) = 0 \<longrightarrow> \<not> distanceTo (originalPosition (ps ! j)) pv < 0.5"
  then have "\<And>i. pinTarget pv ps \<noteq> Some i" unfolding pinTarget_iff by blast
  then show "pinTarget pv ps = None" by (cases "pinTarget pv ps") auto
qed

lemma fold_attachPivot_nth:
  assumes j: "j < length ps"
  shows "fold attachPivot pvs (clearPins ps) ! j =
        (let hits = filter (\<lambda>pivotPos. pinTarget pivotPos ps = Some j) pvs
         in if hits = [] then (ps ! j)\<lparr>pinned_m := False\<rparr>
            else (ps ! j)\<lparr>pinned_m := True, position_m := last hits,
                            previousPosition := last hits\<rparr>)"
proof (induction pvs rule: rev_induct)
  case Nil
  with j show ?case by (simp add: clearPins_def)
next
  case (snoc pv pvs)
  let ?F = "fold attachPivot pvs (clearPins ps)"
  have len: "j < length ?F" using j by (simp add: fold_attachPivot_length clearPins_def)
  have step: "fold attachPivot (pvs @ [pv]) (clearPins ps) = attachPivot pv ?F" by simp
  show ?case
  proof (cases "pinTarget pv ps")
    case None
    then have "attachPivot pv ?F = ?F"
      by (simp add: attachPivot_target pinTarget_fold)
    with None snoc.IH show ?thesis by (simp add: Let_def)
  next
    case (Some i)
    then have upd: "attachPivot pv ?F
        = ?F[i := (?F ! i)\<lparr>pinned_m := True, position_m := pv, previousPosition := pv\<rparr>]"
      by (simp add: attachPivot_target pinTarget_fold)
    show ?thesis
    proof (cases "i = j")
      case True
      with Some snoc.IH len show ?thesis
        unfolding step upd by (simp add: Let_def)
    next
      case False
      with Some snoc.IH show ?thesis
        unfolding step upd by (simp add: Let_def)
    qed
  qed
qed

text \<open>
  Claim C7.  \<open>attachToPivots\<close> first clears every pin flag, so its result does not
  depend on the flags before; then it visits the pivot points in their order.  A
  pivot point resolves to the first top-row particle (\<open>y = 0\<close>) whose original
  position is nearest to it, provided that distance is below 0.5; otherwise it
  resolves to no particle and its visit changes nothing.  After the run a particle
  is pinned exactly when some pivot point has resolved to it, and its \<open>position\<close>
  and \<open>previousPosition\<close> are then the last pivot point that has; every other
  particle is unpinned and otherwise as it was.  So with no pivot points no
  particle is pinned, a particle pinned afterwards is in the top row, and there
  are at most as many pinned particles as pivot points.  For one visit: if no
  top-row particle is closer than 0.5 nothing changes; if one is, exactly the
  particle nearest to the pivot among the top row is changed: it is pinned and its
  \<open>position\<close> and \<open>previousPosition\<close> are set to the pivot point.
\<close>

theorem attachToPivots_contract:
  "attachToPivots (s\<lparr>particles_m := map (\<lambda>p. p\<lparr>pinned_m := f p\<rparr>) (particles_m s)\<rparr>)
     = attachToPivots s \<and>
   (pivotPoints s = [] \<longrightarrow> (\<forall>p \<in> set (particles_m (attachToPivots s)). \<not> pinned_m p)) \<and>
   (\<forall>i<length (particles_m s).
      pinned_m (particles_m (attachToPivots s) ! i) \<longrightarrow> y_m (particles_m s ! i) = 0) \<and>
   length (filter pinned_m (particles_m (attachToPivots s))) \<le> length (pivotPoints s) \<and>
   ((\<forall>j<length ps. y_m (ps ! j) = 0 \<longrightarrow> \<not> distanceTo (originalPosition (ps ! j)) pv < 0.5) \<longrightarrow>
      attachPivot pv ps = ps) \<and>
   ((\<exists>j<length ps. y_m (ps ! j) = 0 \<and> distanceTo (originalPosition (ps ! j)) pv < 0.5) \<longrightarrow>
      (\<exists>i<length ps. y_m (ps ! i) = 0 \<and> distanceTo (originalPosition (ps ! i)) pv < 0.5 \<and>
        (\<forall>j<length ps. y_m (ps ! j) = 0 \<longrightarrow>
           distanceTo (originalPosition (ps ! i)) pv \<le> distanceTo (originalPosition (ps ! j)) pv) \<and>
        attachPivot pv ps = ps[i := (ps ! i)\<lparr>pinned_m := True, position_m := pv,
                                           previousPosition := pv\<rparr>])) \<and>
   attachToPivots s = s\<lparr>particles_m := particles_m (attachToPivots s)\<rparr> \<and>
   length (particles_m (attachToPivots s)) = length (particles_m s) \<and>
   (n < length (particles_m s) \<longrightarrow>
      particles_m (attachToPivots s) ! n =
        (let hits = filter (\<lambda>pivotPos. pinTarget pivotPos (particles_m s) = Some n) (pivotPoints s)
         in if hits = [] then (particles_m s ! n)\<lparr>pinned_m := False\<rparr>
            else (particles_m s ! n)\<lparr>pinned_m := True, position_m := last hits,
                                      previousPosition := last hits\<rparr>)) \<and>
   (n < length (particles_m s) \<longrightarrow>
      pinned_m (particles_m (attachToPivots s) ! n)
        = (\<exists>pivotPos \<in> set (pivotPoints s). pinTarget pivotPos (particles_m s) = Some n)) \<and>
   ((pinTarget pv ps = Some i) =
      (i < length ps \<and> y_m (ps ! i) = 0 \<and> distanceTo (originalPosition (ps ! i)) pv < 0.5 \<and>
       (\<forall>j<length ps. y_m (ps ! j) = 0 \<longrightarrow>
          distanceTo (originalPosition (ps ! i)) pv \<le> distanceTo (originalPosition (ps ! j)) pv) \<and>
       (\<forall>j<i. y_m (ps ! j) = 0 \<longrightarrow>
          distanceTo (originalPosition (ps ! i)) pv < distanceTo (originalPosition (ps ! j)) pv))) \<and>
   ((pinTarget pv ps = None) =
      (\<forall>j<length ps. y_m (ps ! j) = 0 \<longrightarrow> \<not> distanceTo (originalPosition (ps ! j)) pv < 0.5)) \<and>
   attachPivot pv ps =
     (case pinTarget pv ps of
        None \<Rightarrow> ps
      | Some m \<Rightarrow> ps[m := (ps ! m)\<lparr>pinned_m := True, position_m := pv, previousPosition := pv\<rparr>])"
proof (intro conjI impI)
  show "attachToPivots (s\<lparr>particles_m := map (\<lambda>p. p\<lparr>pinned_m := f p\<rparr>) (particles_m s)\<rparr>)
     = attachToPivots s"
    by (simp add: attachToPivots_def clearPins_forget)
next
  assume "pivotPoints s = []"
  then show "\<forall>p \<in> set (particles_m (attachToPivots s)). \<not> pinned_m p"
    by (simp add: attachToPivots_def clearPins_def)
next
  let ?ps = "clearPins (particles_m s)"
  have init: "\<forall>i<length ?ps. pinned_m (?ps ! i) \<longrightarrow> y_m (?ps ! i) = 0"
    by (simp add: clearPins_def)
  have y: "map y_m (fold attachPivot (pivotPoints s) ?ps) = map y_m (particles_m s)"
    by (simp add: fold_attachPivot_y clearPins_def comp_def)
  have len: "length (fold attachPivot (pivotPoints s) ?ps) = length (particles_m s)"
    by (simp add: fold_attachPivot_length clearPins_def)
  show "\<forall>i<length (particles_m s).
      pinned_m (particles_m (attachToPivots s) ! i) \<longrightarrow> y_m (particles_m s ! i) = 0"
  proof (intro allI impI)
    fix i assume i: "i < length (particles_m s)"
      and p: "pinned_m (particles_m (attachToPivots s) ! i)"
    from fold_attachPivot_top_only [OF init, of "pivotPoints s"] i p len
    have "y_m (fold attachPivot (pivotPoints s) ?ps ! i) = 0"
      by (simp add: attachToPivots_def)
    moreover from map_eq_nth [OF y i]
    have "y_m (fold attachPivot (pivotPoints s) ?ps ! i) = y_m (particles_m s ! i)" .
    ultimately show "y_m (particles_m s ! i) = 0" by simp
  qed
next
  show "length (filter pinned_m (particles_m (attachToPivots s))) \<le> length (pivotPoints s)"
    using fold_attachPivot_count [of "pivotPoints s" "clearPins (particles_m s)"]
    by (simp add: attachToPivots_def clearPins_none)
next
  assume "\<forall>j<length ps. y_m (ps ! j) = 0 \<longrightarrow> \<not> distanceTo (originalPosition (ps ! j)) pv < 0.5"
  then show "attachPivot pv ps = ps" by (rule attachPivot_none)
next
  assume "\<exists>j<length ps. y_m (ps ! j) = 0 \<and> distanceTo (originalPosition (ps ! j)) pv < 0.5"
  from attachPivot_some [OF this]
  show "\<exists>i<length ps. y_m (ps ! i) = 0 \<and> distanceTo (originalPosition (ps ! i)) pv < 0.5 \<and>
        (\<forall>j<length ps. y_m (ps ! j) = 0 \<longrightarrow>
           distanceTo (originalPosition (ps ! i)) pv \<le> distanceTo (originalPosition (ps ! j)) pv) \<and>
        attachPivot pv ps = ps[i := (ps ! i)\<lparr>pinned_m := True, position_m := pv,
                                           previousPosition := pv\<rparr>]"
    by blast
next
  show "attachToPivots s = s\<lparr>particles_m := particles_m (attachToPivots s)\<rparr>"
    by (simp add: attachToPivots_def)
next
  show "length (particles_m (attachToPivots s)) = length (particles_m s)"
    by (simp add: attachToPivots_def fold_attachPivot_length clearPins_def)
next
  assume "n < length (particles_m s)"
  then show "particles_m (attachToPivots s) ! n =
        (let hits = filter (\<lambda>pivotPos. pinTarget pivotPos (particles_m s) = Some n) (pivotPoints s)
         in if hits = [] then (particles_m s ! n)\<lparr>pinned_m := False\<rparr>
            else (particles_m s ! n)\<lparr>pinned_m := True, position_m := last hits,
                                      previousPosition := last hits\<rparr>)"
    by (simp add: attachToPivots_def fold_attachPivot_nth)
next
  assume "n < length (particles_m s)"
  then show "pinned_m (particles_m (attachToPivots s) ! n)
        = (\<exists>pivotPos \<in> set (pivotPoints s). pinTarget pivotPos (particles_m s) = Some n)"
    by (simp add: attachToPivots_def fold_attachPivot_nth Let_def filter_empty_conv)
next
  show "(pinTarget pv ps = Some i) =
      (i < length ps \<and> y_m (ps ! i) = 0 \<and> distanceTo (originalPosition (ps ! i)) pv < 0.5 \<and>
       (\<forall>j<length ps. y_m (ps ! j) = 0 \<longrightarrow>
          distanceTo (originalPosition (ps ! i)) pv \<le> distanceTo (originalPosition (ps ! j)) pv) \<and>
       (\<forall>j<i. y_m (ps ! j) = 0 \<longrightarrow>
          distanceTo (originalPosition (ps ! i)) pv < distanceTo (originalPosition (ps ! j)) pv))"
    by (rule pinTarget_iff)
next
  show "(pinTarget pv ps = None) =
      (\<forall>j<length ps. y_m (ps ! j) = 0 \<longrightarrow> \<not> distanceTo (originalPosition (ps ! j)) pv < 0.5)"
    by (rule pinTarget_none_iff)
next
  show "attachPivot pv ps =
     (case pinTarget pv ps of
        None \<Rightarrow> ps
      | Some m \<Rightarrow> ps[m := (ps ! m)\<lparr>pinned_m := True, position_m := pv, previousPosition := pv\<rparr>])"
    by (rule attachPivot_target)
qed

lemma upt4: "[0..<4] = [0, 1, 2, 3]"
  by (simp add: upt_rec)

lemma exampleParticles_list:
  "exampleParticles =
     [initParticle 1 1 1 1 defaultParams 0 0, initParticle 1 1 1 1 defaultParams 1 0,
      initParticle 1 1 1 1 defaultParams 0 1, initParticle 1 1 1 1 defaultParams 1 1]"
  by (simp add: exampleParticles_def initParticles_def upt2)

lemma sqrt_less_half: "(sqrt x < 1 / 2) = (x < 1 / 4)"
proof -
  have e: "sqrt (1 / 4) = 1 / 2"
    by (rule real_sqrt_unique) (simp_all add: power2_eq_square)
  have "(sqrt x < sqrt (1 / 4)) = (x < 1 / 4)" by (rule real_sqrt_less_iff)
  then show ?thesis unfolding e .
qed

lemma exampleParticles_fold: "initParticles 1 1 (Suc 0) (Suc 0) defaultParams = exampleParticles"
  by (simp add: exampleParticles_def)

lemma nearestTop_example:
  "nearestTop (vec (- (1 / 2)) (1 / 2) 0) (clearPins exampleParticles) = (Some 0, Some 0)"
  by (simp add: nearestTop_def exampleParticles_list upt4 nearestStep_def clearPins_def
        initParticle_def Let_def distanceTo_def lengthSq_def sub_def vec_def Let_def)

lemma examplePhysics_particles:
  "particles_m examplePhysics =
     (clearPins exampleParticles)[0 := (clearPins exampleParticles ! 0)
        \<lparr>pinned_m := True, position_m := vec (- (1 / 2)) (1 / 2) 0,
          previousPosition := vec (- (1 / 2)) (1 / 2) 0\<rparr>]"
  by (simp add: examplePhysics_def newClothPhysics_def init_def createConstraints_def
        attachToPivots_def attachPivot_def nearestTop_example exampleParticles_fold)

lemma examplePhysics_pivots: "pivotPoints examplePhysics = [vec (- (1 / 2)) (1 / 2) 0]"
  by (simp add: examplePhysics_def newClothPhysics_def init_def createConstraints_def
        attachToPivots_def)

lemma clearPins_examplePhysics: "clearPins (particles_m examplePhysics) = clearPins exampleParticles"
  by (simp add: examplePhysics_particles exampleParticles_list clearPins_def initParticle_def Let_def)

lemma attach_examplePhysics:
  "particles_m (attachToPivots examplePhysics) = particles_m examplePhysics"
proof -
  have "particles_m (attachToPivots examplePhysics)
      = fold attachPivot [vec (- (1 / 2)) (1 / 2) 0] (clearPins exampleParticles)"
    by (simp add: attachToPivots_def examplePhysics_pivots clearPins_examplePhysics)
  then show ?thesis
    by (simp add: attachPivot_def nearestTop_example examplePhysics_particles)
qed

lemma lt4: "(j::nat) < 4 \<Longrightarrow> j = 0 \<or> j = 1 \<or> j = 2 \<or> j = 3"
  by arith

lemma distanceTo_ge_x: "\<bar>vx a - vx b\<bar> \<le> distanceTo a b"
proof -
  have "(vx a - vx b) * (vx a - vx b) \<le> lengthSq (sub a b)"
    by (simp add: lengthSq_def sub_def vec_def)
  then have "sqrt ((vx a - vx b) * (vx a - vx b)) \<le> sqrt (lengthSq (sub a b))"
    by (rule real_sqrt_le_mono)
  then show ?thesis by (simp add: distanceTo_def)
qed

lemma example_far:
  "\<forall>j<length exampleParticles. y_m (exampleParticles ! j) = 0 \<longrightarrow>
     \<not> distanceTo (originalPosition (exampleParticles ! j)) (vec 10 (1 / 2) 0) < 0.5"
proof (intro allI impI)
  fix j assume "j < length exampleParticles" and y: "y_m (exampleParticles ! j) = 0"
  then have "j < 4" by (simp add: exampleParticles_list)
  then have "j = 0 \<or> j = 1 \<or> j = 2 \<or> j = 3" by (rule lt4)
  with y have "j = 0 \<or> j = 1"
    by (auto simp: exampleParticles_list initParticle_def Let_def)
  then have "5 \<le> \<bar>vx (originalPosition (exampleParticles ! j)) - vx (vec 10 (1 / 2) 0)\<bar>"
    by (auto simp: exampleParticles_list initParticle_def Let_def vec_def)
  with distanceTo_ge_x [of "originalPosition (exampleParticles ! j)" "vec 10 (1 / 2) 0"]
  show "\<not> distanceTo (originalPosition (exampleParticles ! j)) (vec 10 (1 / 2) 0) < 0.5"
    by simp
qed

lemma example_near:
  "\<exists>j<length exampleParticles. y_m (exampleParticles ! j) = 0 \<and>
     distanceTo (originalPosition (exampleParticles ! j)) (vec (- (1 / 2)) (1 / 2) 0) < 0.5"
  by (rule exI [of _ 0])
     (simp add: exampleParticles_list initParticle_def Let_def distanceTo_def lengthSq_def sub_def vec_def)

lemma examplePhysics_obs:
  "time examplePhysics = 0"
  "\<forall>p \<in> set (particles_m examplePhysics). mass p \<noteq> 0"
  "\<not> pinned_m (particles_m examplePhysics ! Suc 0)" "active (particles_m examplePhysics ! Suc 0)"
  "length (particles_m examplePhysics) = 4"
  by (simp_all add: examplePhysics_particles exampleParticles_list clearPins_def initParticle_def
        defaultParams_def Let_def)
     (simp add: examplePhysics_def newClothPhysics_def init_def createConstraints_def
        attachToPivots_def)

lemma list4: "length xs = 4 \<Longrightarrow> xs = [xs ! 0, xs ! 1, xs ! 2, xs ! 3]"
  by (auto simp: eval_nat_numeral length_Suc_conv)

lemma exampleAnchored_parts:
  "particles_m exampleAnchored = particles_m examplePhysics"
  "pivotPoints exampleAnchored =
     [vec (- (1 / 2)) (3 / 5) 0, vec 10 (1 / 2) 0, vec (1 / 2) (1 / 2) (1 / 10),
      vec (- (2 / 5)) (1 / 2) 0]"
  by (simp_all add: exampleAnchored_def)

lemma pinTarget_examplePhysics:
  "pinTarget pv (particles_m examplePhysics) = pinTarget pv exampleParticles"
proof -
  have "nearestTop pv (particles_m examplePhysics) = nearestTop pv exampleParticles"
    by (rule nearestTop_fields)
       (simp_all add: examplePhysics_particles exampleParticles_list clearPins_def)
  then show ?thesis by (simp add: pinTarget_def)
qed

lemma sqrt_less_half2: "(sqrt x * 2 < 1) = (x < 1 / 4)"
  using sqrt_less_half [of x] by simp

lemma pinTarget_examples:
  "pinTarget (vec (- (1 / 2)) (3 / 5) 0) exampleParticles = Some 0"
  "pinTarget (vec 10 (1 / 2) 0) exampleParticles = None"
  "pinTarget (vec (1 / 2) (1 / 2) (1 / 10)) exampleParticles = Some 1"
  "pinTarget (vec (- (2 / 5)) (1 / 2) 0) exampleParticles = Some 0"
  by (simp_all add: pinTarget_def nearestTop_def exampleParticles_list upt4 nearestStep_def
        initParticle_def Let_def distanceTo_def lengthSq_def sub_def vec_def sqrt_less_half2)

lemma exampleAnchored_hits:
  "filter (\<lambda>pivotPos. pinTarget pivotPos (particles_m exampleAnchored) = Some 0)
     (pivotPoints exampleAnchored)
   = [vec (- (1 / 2)) (3 / 5) 0, vec (- (2 / 5)) (1 / 2) 0]"
  "filter (\<lambda>pivotPos. pinTarget pivotPos (particles_m exampleAnchored) = Some (Suc 0))
     (pivotPoints exampleAnchored)
   = [vec (1 / 2) (1 / 2) (1 / 10)]"
  "filter (\<lambda>pivotPos. pinTarget pivotPos (particles_m exampleAnchored) = Some 2)
     (pivotPoints exampleAnchored) = []"
  "filter (\<lambda>pivotPos. pinTarget pivotPos (particles_m exampleAnchored) = Some 3)
     (pivotPoints exampleAnchored) = []"
  by (simp_all add: exampleAnchored_parts pinTarget_examplePhysics pinTarget_examples)

lemma exampleAnchored_before:
  "particles_m exampleAnchored ! 0 = (exampleParticles ! 0)\<lparr>pinned_m := True\<rparr>"
  "particles_m exampleAnchored ! Suc 0 = exampleParticles ! Suc 0"
  "particles_m exampleAnchored ! 2 = exampleParticles ! 2"
  "particles_m exampleAnchored ! 3 = exampleParticles ! 3"
  "\<not> pinned_m (exampleParticles ! 2)" "\<not> pinned_m (exampleParticles ! 3)"
  "length (particles_m exampleAnchored) = 4"
  by (simp_all add: exampleAnchored_parts examplePhysics_particles exampleParticles_list
        clearPins_def initParticle_def Let_def)

theorem attachToPivots_contract_witness:
  "filter pinned_m (particles_m (attachToPivots (examplePhysics\<lparr>pivotPoints := []\<rparr>))) = [] \<and>
   pinned_m (particles_m (attachToPivots examplePhysics) ! 0) \<and>
   y_m (particles_m examplePhysics ! 0) = 0 \<and>
   attachPivot (vec 10 (1 / 2) 0) exampleParticles = exampleParticles \<and>
   (\<exists>i<length exampleParticles. y_m (exampleParticles ! i) = 0 \<and>
      distanceTo (originalPosition (exampleParticles ! i)) (vec (- (1 / 2)) (1 / 2) 0) < 0.5 \<and>
      attachPivot (vec (- (1 / 2)) (1 / 2) 0) exampleParticles
        = exampleParticles[i := (exampleParticles ! i)
            \<lparr>pinned_m := True, position_m := vec (- (1 / 2)) (1 / 2) 0,
              previousPosition := vec (- (1 / 2)) (1 / 2) 0\<rparr>]) \<and>
   pivotPoints exampleAnchored =
     [vec (- (1 / 2)) (3 / 5) 0, vec 10 (1 / 2) 0, vec (1 / 2) (1 / 2) (1 / 10),
      vec (- (2 / 5)) (1 / 2) 0] \<and>
   pinTarget (vec (- (1 / 2)) (3 / 5) 0) (particles_m exampleAnchored) = Some 0 \<and>
   pinTarget (vec 10 (1 / 2) 0) (particles_m exampleAnchored) = None \<and>
   pinTarget (vec (1 / 2) (1 / 2) (1 / 10)) (particles_m exampleAnchored) = Some 1 \<and>
   pinTarget (vec (- (2 / 5)) (1 / 2) 0) (particles_m exampleAnchored) = Some 0 \<and>
   particles_m (attachToPivots exampleAnchored) =
     [(exampleParticles ! 0)\<lparr>pinned_m := True, position_m := vec (- (2 / 5)) (1 / 2) 0,
                               previousPosition := vec (- (2 / 5)) (1 / 2) 0\<rparr>,
      (exampleParticles ! 1)\<lparr>pinned_m := True, position_m := vec (1 / 2) (1 / 2) (1 / 10),
                               previousPosition := vec (1 / 2) (1 / 2) (1 / 10)\<rparr>,
      exampleParticles ! 2, exampleParticles ! 3]"
proof -
  note e = attachToPivots_contract [where s = "examplePhysics\<lparr>pivotPoints := []\<rparr>"
      and ps = exampleParticles and pv = "vec 10 (1 / 2) 0"]
  note p = attachToPivots_contract [where s = examplePhysics
      and ps = exampleParticles and pv = "vec (- (1 / 2)) (1 / 2) 0"]
  from e [THEN conjunct2, THEN conjunct1]
  have a: "filter pinned_m (particles_m (attachToPivots (examplePhysics\<lparr>pivotPoints := []\<rparr>))) = []"
    by (simp add: filter_empty_conv)
  have p0: "pinned_m (particles_m (attachToPivots examplePhysics) ! 0)"
    by (simp add: attach_examplePhysics examplePhysics_particles exampleParticles_list
          clearPins_def)
  have l0: "0 < length (particles_m examplePhysics)"
    by (simp add: examplePhysics_particles exampleParticles_list clearPins_def)
  from p [THEN conjunct2, THEN conjunct2, THEN conjunct1] l0 p0
  have b: "y_m (particles_m examplePhysics ! 0) = 0" by blast
  from e [THEN conjunct2, THEN conjunct2, THEN conjunct2, THEN conjunct2, THEN conjunct1]
    example_far
  have c: "attachPivot (vec 10 (1 / 2) 0) exampleParticles = exampleParticles" by blast
  from p [THEN conjunct2, THEN conjunct2, THEN conjunct2, THEN conjunct2, THEN conjunct2,
      THEN conjunct1] example_near
  have d: "\<exists>i<length exampleParticles. y_m (exampleParticles ! i) = 0 \<and>
      distanceTo (originalPosition (exampleParticles ! i)) (vec (- (1 / 2)) (1 / 2) 0) < 0.5 \<and>
      attachPivot (vec (- (1 / 2)) (1 / 2) 0) exampleParticles
        = exampleParticles[i := (exampleParticles ! i)
            \<lparr>pinned_m := True, position_m := vec (- (1 / 2)) (1 / 2) 0,
              previousPosition := vec (- (1 / 2)) (1 / 2) 0\<rparr>]"
    by blast
  note q = exampleAnchored_before
  note t8 = attachToPivots_contract [where s = exampleAnchored, THEN conjunct2, THEN conjunct2,
      THEN conjunct2, THEN conjunct2, THEN conjunct2, THEN conjunct2, THEN conjunct2,
      THEN conjunct1]
  have t9: "n < length (particles_m exampleAnchored) \<longrightarrow>
      particles_m (attachToPivots exampleAnchored) ! n =
        (let hits = filter (\<lambda>pivotPos. pinTarget pivotPos (particles_m exampleAnchored) = Some n)
                      (pivotPoints exampleAnchored)
         in if hits = [] then (particles_m exampleAnchored ! n)\<lparr>pinned_m := False\<rparr>
            else (particles_m exampleAnchored ! n)\<lparr>pinned_m := True, position_m := last hits,
                                      previousPosition := last hits\<rparr>)" for n
    by (rule attachToPivots_contract [where s = exampleAnchored and n = n, THEN conjunct2,
      THEN conjunct2, THEN conjunct2, THEN conjunct2, THEN conjunct2, THEN conjunct2,
      THEN conjunct2, THEN conjunct2, THEN conjunct1])
  have len: "length (particles_m (attachToPivots exampleAnchored)) = 4"
    using t8 q(7) by simp
  have n0: "particles_m (attachToPivots exampleAnchored) ! 0
      = (exampleParticles ! 0)\<lparr>pinned_m := True, position_m := vec (- (2 / 5)) (1 / 2) 0,
                               previousPosition := vec (- (2 / 5)) (1 / 2) 0\<rparr>"
    using t9 [of 0] q(7) unfolding exampleAnchored_hits q(1) by (simp add: Let_def)
  have n1: "particles_m (attachToPivots exampleAnchored) ! 1
      = (exampleParticles ! 1)\<lparr>pinned_m := True, position_m := vec (1 / 2) (1 / 2) (1 / 10),
                               previousPosition := vec (1 / 2) (1 / 2) (1 / 10)\<rparr>"
    using t9 [of "Suc 0"] q(7) unfolding exampleAnchored_hits q(2) by (simp add: Let_def)
  have n2: "particles_m (attachToPivots exampleAnchored) ! 2 = exampleParticles ! 2"
    using t9 [of 2] q(5,7) unfolding exampleAnchored_hits q(3) by (simp add: Let_def)
  have n3: "particles_m (attachToPivots exampleAnchored) ! 3 = exampleParticles ! 3"
    using t9 [of 3] q(6,7) unfolding exampleAnchored_hits q(4) by (simp add: Let_def)
  have all: "particles_m (attachToPivots exampleAnchored) =
     [(exampleParticles ! 0)\<lparr>pinned_m := True, position_m := vec (- (2 / 5)) (1 / 2) 0,
                               previousPosition := vec (- (2 / 5)) (1 / 2) 0\<rparr>,
      (exampleParticles ! 1)\<lparr>pinned_m := True, position_m := vec (1 / 2) (1 / 2) (1 / 10),
                               previousPosition := vec (1 / 2) (1 / 2) (1 / 10)\<rparr>,
      exampleParticles ! 2, exampleParticles ! 3]"
    using list4 [OF len] unfolding n0 n1 n2 n3 .
  have tg: "pinTarget (vec (- (1 / 2)) (3 / 5) 0) (particles_m exampleAnchored) = Some 0"
    "pinTarget (vec 10 (1 / 2) 0) (particles_m exampleAnchored) = None"
    "pinTarget (vec (1 / 2) (1 / 2) (1 / 10)) (particles_m exampleAnchored) = Some 1"
    "pinTarget (vec (- (2 / 5)) (1 / 2) 0) (particles_m exampleAnchored) = Some 0"
    by (simp_all add: exampleAnchored_parts pinTarget_examplePhysics pinTarget_examples)
  from a p0 b c d exampleAnchored_parts(2) tg all show ?thesis by blast
qed

subsection \<open>What the anchor scan reads\<close>

lemma nearestStep_cong:
  "i < length ps \<Longrightarrow>
   nearestStep pv (map (\<lambda>p. p\<lparr>position_m := f p, active := h p\<rparr>) ps) i acc
     = nearestStep pv ps i acc"
  by (simp add: nearestStep_def Let_def)

lemma nearestTop_ignores:
  "nearestTop pv (map (\<lambda>p. p\<lparr>position_m := f p, active := h p\<rparr>) ps) = nearestTop pv ps"
proof -
  have "fold (nearestStep pv (map (\<lambda>p. p\<lparr>position_m := f p, active := h p\<rparr>) ps))
          [0..<length ps] (None, None)
      = fold (nearestStep pv ps) [0..<length ps] (None, None)"
    by (rule fold_cong) (auto simp: nearestStep_cong)
  then show ?thesis by (simp add: nearestTop_def)
qed

lemma attachPivot_pins_same:
  "map pinned_m (attachPivot pv (map (\<lambda>p. p\<lparr>position_m := f p, active := h p\<rparr>) ps))
     = map pinned_m (attachPivot pv ps)"
  by (simp add: attachPivot_def nearestTop_ignores map_update comp_def
        split: prod.splits option.splits)

lemma attachPivot_strict_nearest:
  assumes i: "i < length ps" "y_m (ps ! i) = 0"
    and near: "distanceTo (originalPosition (ps ! i)) pv < 0.5"
    and strict: "\<forall>j<length ps. j \<noteq> i \<and> y_m (ps ! j) = 0 \<longrightarrow>
       distanceTo (originalPosition (ps ! i)) pv < distanceTo (originalPosition (ps ! j)) pv"
  shows "attachPivot pv ps = ps[i := (ps ! i)\<lparr>pinned_m := True, position_m := pv,
                                           previousPosition := pv\<rparr>]"
proof -
  from i near have "\<exists>j<length ps. y_m (ps ! j) = 0 \<and> distanceTo (originalPosition (ps ! j)) pv < 0.5"
    by blast
  from attachPivot_some [OF this] obtain k where k: "k < length ps" "y_m (ps ! k) = 0"
    "\<forall>j<length ps. y_m (ps ! j) = 0 \<longrightarrow>
       distanceTo (originalPosition (ps ! k)) pv \<le> distanceTo (originalPosition (ps ! j)) pv"
    "attachPivot pv ps = ps[k := (ps ! k)\<lparr>pinned_m := True, position_m := pv,
                                           previousPosition := pv\<rparr>]"
    by blast
  have "k = i"
  proof (rule ccontr)
    assume "k \<noteq> i"
    with strict k have "distanceTo (originalPosition (ps ! i)) pv
        < distanceTo (originalPosition (ps ! k)) pv" by blast
    moreover from k(3) i have "distanceTo (originalPosition (ps ! k)) pv
        \<le> distanceTo (originalPosition (ps ! i)) pv" by blast
    ultimately show False by simp
  qed
  with k(4) show ?thesis by simp
qed

text \<open>
  Claim C10.  The scan for the nearest top-row particle reads \<open>originalPosition\<close>
  and \<open>y\<close> only: replacing every current position and every \<open>active\<close> flag by
  anything else selects the same particle and pins the same particles.  In
  particular an inactive top-row particle whose original position is strictly the
  nearest and within 0.5 of the pivot is pinned and moved to the pivot.
\<close>

theorem anchor_uses_original_position:
  "nearestTop pv (map (\<lambda>p. p\<lparr>position_m := f p, active := h p\<rparr>) ps) = nearestTop pv ps \<and>
   map pinned_m (attachPivot pv (map (\<lambda>p. p\<lparr>position_m := f p, active := h p\<rparr>) ps))
     = map pinned_m (attachPivot pv ps) \<and>
   (i < length ps \<and> y_m (ps ! i) = 0 \<and> \<not> active (ps ! i) \<and>
    distanceTo (originalPosition (ps ! i)) pv < 0.5 \<and>
    (\<forall>j<length ps. j \<noteq> i \<and> y_m (ps ! j) = 0 \<longrightarrow>
       distanceTo (originalPosition (ps ! i)) pv < distanceTo (originalPosition (ps ! j)) pv) \<longrightarrow>
    attachPivot pv ps = ps[i := (ps ! i)\<lparr>pinned_m := True, position_m := pv,
                                          previousPosition := pv\<rparr>])"
  using attachPivot_strict_nearest [of i ps pv]
  by (simp add: nearestTop_ignores attachPivot_pins_same)

lemma exampleDamaged_list:
  "exampleDamaged =
     [(initParticle 1 1 1 1 defaultParams 0 0)\<lparr>active := False, position_m := vec 5 5 5\<rparr>,
      (initParticle 1 1 1 1 defaultParams 1 0)\<lparr>position_m := vec (- (1 / 2)) (1 / 2) 0\<rparr>,
      initParticle 1 1 1 1 defaultParams 0 1, initParticle 1 1 1 1 defaultParams 1 1]"
  by (simp add: exampleDamaged_def exampleParticles_list)

lemma exampleDamaged_strict:
  "\<forall>j<length exampleDamaged. j \<noteq> 0 \<and> y_m (exampleDamaged ! j) = 0 \<longrightarrow>
     distanceTo (originalPosition (exampleDamaged ! 0)) (vec (- (1 / 2)) (1 / 2) 0)
       < distanceTo (originalPosition (exampleDamaged ! j)) (vec (- (1 / 2)) (1 / 2) 0)"
proof (intro allI impI)
  fix j assume "j < length exampleDamaged" and y: "j \<noteq> 0 \<and> y_m (exampleDamaged ! j) = 0"
  then have "j < 4" by (simp add: exampleDamaged_list)
  then have "j = 0 \<or> j = 1 \<or> j = 2 \<or> j = 3" by (rule lt4)
  with y have "j = 1"
    by (auto simp: exampleDamaged_list initParticle_def Let_def)
  then show "distanceTo (originalPosition (exampleDamaged ! 0)) (vec (- (1 / 2)) (1 / 2) 0)
       < distanceTo (originalPosition (exampleDamaged ! j)) (vec (- (1 / 2)) (1 / 2) 0)"
    by (simp add: exampleDamaged_list initParticle_def Let_def distanceTo_def lengthSq_def
          sub_def vec_def)
qed

theorem anchor_uses_original_position_witness:
  "\<not> active (exampleDamaged ! 0) \<and>
   position_m (exampleDamaged ! 0) = vec 5 5 5 \<and>
   position_m (exampleDamaged ! 1) = vec (- (1 / 2)) (1 / 2) 0 \<and>
   attachPivot (vec (- (1 / 2)) (1 / 2) 0) exampleDamaged
     = exampleDamaged[0 := (exampleDamaged ! 0)
         \<lparr>pinned_m := True, position_m := vec (- (1 / 2)) (1 / 2) 0,
           previousPosition := vec (- (1 / 2)) (1 / 2) 0\<rparr>]"
proof -
  have "0 < length exampleDamaged" "y_m (exampleDamaged ! 0) = 0" "\<not> active (exampleDamaged ! 0)"
    "distanceTo (originalPosition (exampleDamaged ! 0)) (vec (- (1 / 2)) (1 / 2) 0) < 0.5"
    "position_m (exampleDamaged ! 0) = vec 5 5 5"
    "position_m (exampleDamaged ! 1) = vec (- (1 / 2)) (1 / 2) 0"
    by (simp_all add: exampleDamaged_list initParticle_def Let_def distanceTo_def lengthSq_def
          sub_def vec_def)
  with anchor_uses_original_position [where i = 0 and ps = exampleDamaged
      and pv = "vec (- (1 / 2)) (1 / 2) 0"] exampleDamaged_strict
  show ?thesis by simp
qed

subsection \<open>When the update loop returns\<close>

text \<open>
  \<open>update\<close> returns a state when the time step it uses and the masses are not
  zero.  With a time step of zero it returns none as soon as one particle is free
  and active.
\<close>

lemma verlet_defined:
  "deltaTime \<noteq> 0 \<Longrightarrow> mass particle \<noteq> 0 \<Longrightarrow> \<exists>q. verlet deltaTime particle = Some q"
  by (simp add: verlet_def divideScalar_def Let_def)

lemma verletAll_defined:
  "deltaTime \<noteq> 0 \<Longrightarrow> \<forall>p \<in> set ps. mass p \<noteq> 0 \<Longrightarrow> \<exists>qs. verletAll deltaTime ps = Some qs"
proof (induction ps)
  case Nil
  then show ?case by simp
next
  case (Cons p ps)
  from Cons.prems verlet_defined [of deltaTime p] obtain q where "verlet deltaTime p = Some q"
    by auto
  moreover from Cons obtain qs where "verletAll deltaTime ps = Some qs" by auto
  ultimately show ?case by simp
qed

lemma verletAll_none:
  "\<exists>p \<in> set ps. verlet deltaTime p = None \<Longrightarrow> verletAll deltaTime ps = None"
  by (induction ps) (auto split: option.splits)

lemma verlet_zero: "\<not> pinned_m p \<Longrightarrow> active p \<Longrightarrow> verlet 0 p = None"
  by (simp add: verlet_def divideScalar_def Let_def)

lemma applyForces_mass: "map mass (snd (applyForces rand k P t ps)) = map mass ps"
  by (induction ps arbitrary: k) (simp_all add: Let_def applyForce_def)

lemma applyForces_flags:
  "map (\<lambda>p. (pinned_m p, active p)) (snd (applyForces rand k P t ps))
     = map (\<lambda>p. (pinned_m p, active p)) ps"
  by (induction ps arbitrary: k) (simp_all add: Let_def applyForce_def)

lemma attachPivot_mass: "map mass (attachPivot pv ps) = map mass ps"
  using attachPivot_cases [of pv ps] by (auto simp: map_update_same)

lemma fold_attachPivot_mass: "map mass (fold attachPivot pvs ps) = map mass ps"
  by (induction pvs arbitrary: ps) (simp_all add: attachPivot_mass)

lemma attachToPivots_mass: "map mass (particles_m (attachToPivots s)) = map mass (particles_m s)"
  by (simp add: attachToPivots_def fold_attachPivot_mass clearPins_def comp_def)

lemma mass_set: "(\<forall>p \<in> set ps. mass p \<noteq> 0) = (0 \<notin> set (map mass ps))"
  by auto

lemma attachToPivots_time: "particles_m (attachToPivots (s\<lparr>time := t\<rparr>)) = particles_m (attachToPivots s)"
  by (simp add: attachToPivots_def)

lemma updateWith_defined:
  assumes "deltaTime \<noteq> 0" and m: "\<forall>p \<in> set (particles_m s). mass p \<noteq> 0"
  shows "\<exists>r. updateWith rand k deltaTime s = Some r"
proof -
  let ?s2 = "attachToPivots (s\<lparr>time := time s + deltaTime\<rparr>)"
  let ?r = "applyForces rand k (params ?s2) (time ?s2) (particles_m ?s2)"
  have "map mass (snd ?r) = map mass (particles_m s)"
    by (simp add: applyForces_mass attachToPivots_time attachToPivots_mass)
  with m have "\<forall>p \<in> set (snd ?r). mass p \<noteq> 0"
    unfolding mass_set by simp
  from verletAll_defined [OF assms(1) this] obtain qs where "verletAll deltaTime (snd ?r) = Some qs" ..
  then show ?thesis by (simp add: updateWith_def Let_def)
qed

lemma updateWith_zero:
  assumes "\<exists>p \<in> set (particles_m (attachToPivots s)). \<not> pinned_m p \<and> active p"
  shows "updateWith rand k 0 s = None"
proof -
  let ?s2 = "attachToPivots (s\<lparr>time := time s + 0\<rparr>)"
  let ?r = "applyForces rand k (params ?s2) (time ?s2) (particles_m ?s2)"
  have "set (map (\<lambda>p. (pinned_m p, active p)) (snd ?r))
      = set (map (\<lambda>p. (pinned_m p, active p)) (particles_m (attachToPivots s)))"
    by (simp only: applyForces_flags attachToPivots_time)
  with assms have "(False, True) \<in> set (map (\<lambda>p. (pinned_m p, active p)) (snd ?r))"
    by force
  then obtain p where "p \<in> set (snd ?r)" "\<not> pinned_m p" "active p" by auto
  then have "\<exists>p \<in> set (snd ?r). verlet 0 p = None" by (blast intro: verlet_zero)
  then have "verletAll 0 (snd ?r) = None" by (rule verletAll_none)
  then show ?thesis by (simp add: updateWith_def Let_def)
qed

subsection \<open>Tearing\<close>

lemma satisfy_broken: "broken c \<Longrightarrow> satisfy c ps = ps"
  by (simp add: satisfy_def)

lemma stepVisit_broken: "broken (constraints s ! j) \<Longrightarrow> stepVisit j s = s"
  by (simp add: stepVisit_def)

lemma relaxVisit_broken: "broken (constraints s ! j) \<Longrightarrow> relaxVisit j s = s"
  by (simp add: relaxVisit_def)

lemma stepVisit_tear:
  "\<not> broken (constraints s ! j) \<Longrightarrow>
   distanceTo (position (particles s ! p2 (constraints s ! j)))
              (position (particles s ! p1 (constraints s ! j)))
     > restDistance (constraints s ! j) * tearFactor s \<Longrightarrow>
   stepVisit j s = s\<lparr>constraints := (constraints s)[j := (constraints s ! j)\<lparr>broken := True\<rparr>]\<rparr>"
  by (simp add: stepVisit_def Let_def)

lemma stepVisit_keep:
  "\<not> broken (constraints s ! j) \<Longrightarrow>
   \<not> distanceTo (position (particles s ! p2 (constraints s ! j)))
              (position (particles s ! p1 (constraints s ! j)))
     > restDistance (constraints s ! j) * tearFactor s \<Longrightarrow>
   stepVisit j s = s\<lparr>particles := satisfy (constraints s ! j) (particles s)\<rparr>"
  by (simp add: stepVisit_def Let_def)

lemma stepVisit_length: "length (constraints (stepVisit j s)) = length (constraints s)"
  by (simp add: stepVisit_def Let_def)

lemma stepVisit_mono:
  "broken (constraints s ! i) \<Longrightarrow> broken (constraints (stepVisit j s) ! i)"
  by (cases "j < length (constraints s)")
     (auto simp: stepVisit_def Let_def nth_list_update list_update_beyond)

lemma stepVisit_sole:
  "i < length (constraints s) \<Longrightarrow> \<not> broken (constraints s ! i) \<Longrightarrow>
   broken (constraints (stepVisit j s) ! i) \<Longrightarrow>
   i = j \<and> distanceTo (position (particles s ! p2 (constraints s ! i)))
              (position (particles s ! p1 (constraints s ! i)))
     > restDistance (constraints s ! i) * tearFactor s"
  by (cases "i = j") (auto simp: stepVisit_def Let_def split: if_splits)

lemma fold_stepVisit_mono:
  "broken (constraints s ! i) \<Longrightarrow> broken (constraints (fold stepVisit js s) ! i)"
  by (induction js arbitrary: s) (simp_all add: stepVisit_mono)

lemma stepPass_mono:
  "broken (constraints s ! i) \<Longrightarrow> broken (constraints (stepPass k s) ! i)"
  by (simp add: stepPass_def Let_def fold_stepVisit_mono)

lemma fold_stepPass_mono:
  "broken (constraints s ! i) \<Longrightarrow> broken (constraints (fold stepPass ks s) ! i)"
  by (induction ks arbitrary: s) (simp_all add: stepPass_mono)

lemma step_mono:
  "broken (constraints s ! i) \<Longrightarrow> broken (constraints (step s dt) ! i)"
  by (simp add: step_def Let_def fold_stepPass_mono)

lemma relaxVisit_constraints: "constraints (relaxVisit j s) = constraints s"
  by (simp add: relaxVisit_def Let_def)

lemma fold_relaxVisit_constraints: "constraints (fold relaxVisit js s) = constraints s"
  by (induction js arbitrary: s) (simp_all add: relaxVisit_constraints)

lemma relaxPass_constraints: "constraints (relaxPass s) = constraints s"
  by (simp add: relaxPass_def fold_relaxVisit_constraints)

lemma funpow_relaxPass_constraints: "constraints ((relaxPass ^^ n) s) = constraints s"
  by (induction n) (simp_all add: relaxPass_constraints)

lemma applyPreSag_constraints: "constraints (applyPreSagOnTopRow s n) = constraints s"
  by (simp add: applyPreSagOnTopRow_def Let_def)

lemma relaxRound_constraints: "constraints (relaxRound s) = constraints s"
  by (simp add: relaxRound_def Let_def applyPreSag_constraints relaxPass_constraints)

lemma funpow_relaxRound_constraints: "constraints ((relaxRound ^^ n) s) = constraints s"
  by (induction n) (simp_all add: relaxRound_constraints)

lemma relaxConstraints_constraints: "constraints (relaxConstraints s) = constraints s"
  by (simp add: relaxConstraints_def Let_def applyPreSag_constraints funpow_relaxRound_constraints)

lemma togglePin_constraints: "constraints (snd (togglePin s index)) = constraints s"
  by (simp add: togglePin_def Let_def relaxConstraints_constraints)

lemma startSimulation_constraints: "constraints (snd (startSimulation s)) = constraints s"
  by (simp add: startSimulation_def Let_def applyPreSag_constraints funpow_relaxPass_constraints)

lemma breakConstraints_mono:
  "i < length (constraints s) \<Longrightarrow> broken (constraints s ! i) \<Longrightarrow>
   broken (constraints (snd (breakConstraints s pred)) ! i)"
  by (simp add: breakConstraints_def)


lemma satisfyVisit_inactive: "\<not> active_c (constraints_m s ! j) \<Longrightarrow> satisfyVisit j s = s"
  by (simp add: satisfyVisit_def Let_def)

lemma satisfyVisit_tear:
  "active_c (constraints_m s ! j) \<Longrightarrow>
   active (particles_m s ! p1_m (constraints_m s ! j)) \<Longrightarrow>
   active (particles_m s ! p2_m (constraints_m s ! j)) \<Longrightarrow>
   0 < vlength (sub (position_m (particles_m s ! p2_m (constraints_m s ! j)))
                    (position_m (particles_m s ! p1_m (constraints_m s ! j)))) \<Longrightarrow>
   restLength (constraints_m s ! j) *
     (tearThreshold (params s) *
        min (cutFactor (particles_m s ! p1_m (constraints_m s ! j)))
            (cutFactor (particles_m s ! p2_m (constraints_m s ! j))))
     < vlength (sub (position_m (particles_m s ! p2_m (constraints_m s ! j)))
                    (position_m (particles_m s ! p1_m (constraints_m s ! j)))) \<Longrightarrow>
   satisfyVisit j s
     = s\<lparr>constraints_m := (constraints_m s)[j := (constraints_m s ! j)\<lparr>active_c := False\<rparr>]\<rparr>"
  by (simp add: satisfyVisit_def Let_def)

lemma satisfyVisit_length: "length (constraints_m (satisfyVisit j s)) = length (constraints_m s)"
  by (simp add: satisfyVisit_def Let_def)

lemma satisfyVisit_mono:
  "\<not> active_c (constraints_m s ! i) \<Longrightarrow> \<not> active_c (constraints_m (satisfyVisit j s) ! i)"
  by (cases "j < length (constraints_m s)")
     (auto simp: satisfyVisit_def Let_def nth_list_update list_update_beyond)

lemma satisfyVisit_sole:
  "i < length (constraints_m s) \<Longrightarrow> active_c (constraints_m s ! i) \<Longrightarrow>
   \<not> active_c (constraints_m (satisfyVisit j s) ! i) \<Longrightarrow>
   i = j \<and>
   restLength (constraints_m s ! i) *
     (tearThreshold (params s) *
        min (cutFactor (particles_m s ! p1_m (constraints_m s ! i)))
            (cutFactor (particles_m s ! p2_m (constraints_m s ! i))))
     < vlength (sub (position_m (particles_m s ! p2_m (constraints_m s ! i)))
                    (position_m (particles_m s ! p1_m (constraints_m s ! i))))"
  by (cases "i = j") (auto simp: satisfyVisit_def Let_def split: if_splits)

lemma fold_satisfyVisit_mono:
  "\<not> active_c (constraints_m s ! i) \<Longrightarrow> \<not> active_c (constraints_m (fold satisfyVisit js s) ! i)"
  by (induction js arbitrary: s) (simp_all add: satisfyVisit_mono)

lemma satisfyConstraints_mono:
  "\<not> active_c (constraints_m s ! i) \<Longrightarrow> \<not> active_c (constraints_m (satisfyConstraints s) ! i)"
  by (simp add: satisfyConstraints_def fold_satisfyVisit_mono)

lemma funpow_satisfyConstraints_mono:
  "\<not> active_c (constraints_m s ! i) \<Longrightarrow>
   \<not> active_c (constraints_m ((satisfyConstraints ^^ n) s) ! i)"
  by (induction n) (simp_all add: satisfyConstraints_mono)

lemma update_mono:
  "\<not> active_c (constraints_m s ! i) \<Longrightarrow> update rand k dt s = Some r \<Longrightarrow>
   \<not> active_c (constraints_m (snd r) ! i)"
  by (auto simp: update_def updateWith_def Let_def attachToPivots_def
        funpow_satisfyConstraints_mono)

lemma cutOrganicConstraint_mono: "active_c (cutOrganicConstraint ps c) \<Longrightarrow> active_c c"
  by (simp add: cutOrganicConstraint_def Let_def split: if_splits)

lemma cutOrganic_mono:
  "i < length (constraints_m s) \<Longrightarrow> \<not> active_c (constraints_m s ! i) \<Longrightarrow>
   \<not> active_c (constraints_m (snd (cutOrganic rand k center radius s)) ! i)"
  using cutOrganicConstraint_mono by (auto simp: cutOrganic_def Let_def)

lemma cutSegmentConstraint_mono: "active_c (cutSegmentConstraint a b r ps c) \<Longrightarrow> active_c c"
  by (simp add: cutSegmentConstraint_def Let_def split: if_splits)

lemma cutAlongSegment_mono:
  "i < length (constraints_m s) \<Longrightarrow> \<not> active_c (constraints_m s ! i) \<Longrightarrow>
   \<not> active_c (constraints_m (cutAlongSegment a b r s) ! i)"
  using cutSegmentConstraint_mono by (auto simp: cutAlongSegment_def Let_def)

lemma vlength_nonneg: "0 \<le> vlength v"
  by (simp add: vlength_def lengthSq_def)

lemma effective_threshold_le:
  assumes "0 \<le> r" "0 \<le> t" "m \<le> 1"
  shows "r * (t * m) \<le> r * (t::real)"
proof -
  from assms have "0 \<le> r * t" by simp
  with assms(3) have "(r * t) * m \<le> (r * t) * 1" by (intro mult_left_mono) simp_all
  then show ?thesis by (simp add: mult.assoc)
qed


text \<open>
  Claim C2, as the code has it.  In a relaxation pass of \<open>Cloth.step\<close> an unbroken
  constraint whose endpoint distance exceeds \<open>restDistance * tearFactor\<close> is marked
  broken and its endpoints are left alone.  A broken constraint stays broken under
  \<open>step\<close>, \<open>togglePin\<close>, \<open>startSimulation\<close> and \<open>breakConstraints\<close>, and neither a
  visit of a pass nor \<open>satisfy\<close> moves anything on its behalf.  Within a pass of
  \<open>step\<close> a constraint becomes broken only at its own visit and only by exceeding
  the threshold.  The passes that run before the start (\<open>relaxConstraints\<close>,
  \<open>startSimulation\<close>) make no tear check: they never change a constraint.

  In \<open>satisfyConstraints\<close> of main.js the threshold is
  \<open>restLength * tearThreshold * min(cutFactor p1, cutFactor p2)\<close>: an active
  constraint with active endpoints and a positive length above it is deactivated
  and its endpoints are left alone; this includes every length above
  \<open>restLength * tearThreshold\<close> when the damage factors are at most 1.  An inactive
  constraint is skipped, and stays inactive under \<open>satisfyConstraints\<close>, under
  every \<open>update\<close> that returns a state (one that has divided by no zero) and under
  both cuts.  A visit deactivates a constraint only by exceeding the scaled
  threshold.
\<close>

theorem tearing_contract:
  "(\<not> broken (constraints s ! j) \<and>
      restDistance (constraints s ! j) * tearFactor s < currentDist s j \<longrightarrow>
      stepVisit j s
        = s\<lparr>constraints := (constraints s)[j := (constraints s ! j)\<lparr>broken := True\<rparr>]\<rparr>) \<and>
   (broken (constraints s ! j) \<longrightarrow>
      stepVisit j s = s \<and> relaxVisit j s = s \<and> satisfy (constraints s ! j) ps = ps \<and>
      broken (constraints (step s dt) ! j) \<and>
      broken (constraints (snd (togglePin s index)) ! j) \<and>
      broken (constraints (snd (startSimulation s)) ! j) \<and>
      (j < length (constraints s) \<longrightarrow>
         broken (constraints (snd (breakConstraints s predicate)) ! j))) \<and>
   (i < length (constraints s) \<and> \<not> broken (constraints s ! i) \<and>
      broken (constraints (stepVisit j s) ! i) \<longrightarrow>
      i = j \<and> restDistance (constraints s ! i) * tearFactor s < currentDist s i) \<and>
   constraints (relaxVisit j s) = constraints s \<and>
   (active_c (constraints_m m ! j) \<and>
      active (particles_m m ! p1_m (constraints_m m ! j)) \<and>
      active (particles_m m ! p2_m (constraints_m m ! j)) \<and>
      0 < currentLength m j \<and>
      restLength (constraints_m m ! j) * effectiveTearThreshold m j < currentLength m j \<longrightarrow>
      satisfyVisit j m
        = m\<lparr>constraints_m := (constraints_m m)[j := (constraints_m m ! j)\<lparr>active_c := False\<rparr>]\<rparr>) \<and>
   (active_c (constraints_m m ! j) \<and>
      active (particles_m m ! p1_m (constraints_m m ! j)) \<and>
      active (particles_m m ! p2_m (constraints_m m ! j)) \<and>
      0 \<le> restLength (constraints_m m ! j) \<and> 0 \<le> tearThreshold (params m) \<and>
      min (cutFactor (particles_m m ! p1_m (constraints_m m ! j)))
          (cutFactor (particles_m m ! p2_m (constraints_m m ! j))) \<le> 1 \<and>
      restLength (constraints_m m ! j) * tearThreshold (params m) < currentLength m j \<longrightarrow>
      satisfyVisit j m
        = m\<lparr>constraints_m := (constraints_m m)[j := (constraints_m m ! j)\<lparr>active_c := False\<rparr>]\<rparr>) \<and>
   (\<not> active_c (constraints_m m ! j) \<longrightarrow>
      satisfyVisit j m = m \<and>
      \<not> active_c (constraints_m (satisfyConstraints m) ! j) \<and>
      (\<forall>r. update rand k dt m = Some r \<longrightarrow> \<not> active_c (constraints_m (snd r) ! j)) \<and>
      (j < length (constraints_m m) \<longrightarrow>
         \<not> active_c (constraints_m (snd (cutOrganic rand k center radius m)) ! j) \<and>
         \<not> active_c (constraints_m (cutAlongSegment start endP radius m) ! j))) \<and>
   (i < length (constraints_m m) \<and> active_c (constraints_m m ! i) \<and>
      \<not> active_c (constraints_m (satisfyVisit j m) ! i) \<longrightarrow>
      i = j \<and>
      restLength (constraints_m m ! i) * effectiveTearThreshold m i < currentLength m i)"
proof (intro conjI impI)
  assume "\<not> broken (constraints s ! j) \<and>
      restDistance (constraints s ! j) * tearFactor s < currentDist s j"
  then show "stepVisit j s
        = s\<lparr>constraints := (constraints s)[j := (constraints s ! j)\<lparr>broken := True\<rparr>]\<rparr>"
    by (simp add: stepVisit_tear currentDist_def)
next
  assume b: "broken (constraints s ! j)"
  show "stepVisit j s = s" using b by (rule stepVisit_broken)
  show "relaxVisit j s = s" using b by (rule relaxVisit_broken)
  show "satisfy (constraints s ! j) ps = ps" using b by (rule satisfy_broken)
  show "broken (constraints (step s dt) ! j)" using b by (rule step_mono)
  show "broken (constraints (snd (togglePin s index)) ! j)"
    using b by (simp add: togglePin_constraints)
  show "broken (constraints (snd (startSimulation s)) ! j)"
    using b by (simp add: startSimulation_constraints)
  show "broken (constraints (snd (breakConstraints s predicate)) ! j)"
    if "j < length (constraints s)"
    using that b by (rule breakConstraints_mono)
next
  assume a: "i < length (constraints s) \<and> \<not> broken (constraints s ! i) \<and>
      broken (constraints (stepVisit j s) ! i)"
  with stepVisit_sole [of i s j]
  show "i = j" and "restDistance (constraints s ! i) * tearFactor s < currentDist s i"
    by (auto simp: currentDist_def)
next
  show "constraints (relaxVisit j s) = constraints s" by (rule relaxVisit_constraints)
next
  assume "active_c (constraints_m m ! j) \<and>
      active (particles_m m ! p1_m (constraints_m m ! j)) \<and>
      active (particles_m m ! p2_m (constraints_m m ! j)) \<and>
      0 < currentLength m j \<and>
      restLength (constraints_m m ! j) * effectiveTearThreshold m j < currentLength m j"
  then show "satisfyVisit j m
        = m\<lparr>constraints_m := (constraints_m m)[j := (constraints_m m ! j)\<lparr>active_c := False\<rparr>]\<rparr>"
    by (simp add: satisfyVisit_tear currentLength_def effectiveTearThreshold_def)
next
  assume a: "active_c (constraints_m m ! j) \<and>
      active (particles_m m ! p1_m (constraints_m m ! j)) \<and>
      active (particles_m m ! p2_m (constraints_m m ! j)) \<and>
      0 \<le> restLength (constraints_m m ! j) \<and> 0 \<le> tearThreshold (params m) \<and>
      min (cutFactor (particles_m m ! p1_m (constraints_m m ! j)))
          (cutFactor (particles_m m ! p2_m (constraints_m m ! j))) \<le> 1 \<and>
      restLength (constraints_m m ! j) * tearThreshold (params m) < currentLength m j"
  then have le: "restLength (constraints_m m ! j) * effectiveTearThreshold m j
      \<le> restLength (constraints_m m ! j) * tearThreshold (params m)"
    unfolding effectiveTearThreshold_def by (intro effective_threshold_le) simp_all
  from a have "0 \<le> restLength (constraints_m m ! j) * tearThreshold (params m)" by simp
  with a have pos: "0 < currentLength m j" by linarith
  from a le have "restLength (constraints_m m ! j) * effectiveTearThreshold m j
      < currentLength m j" by linarith
  with a pos show "satisfyVisit j m
        = m\<lparr>constraints_m := (constraints_m m)[j := (constraints_m m ! j)\<lparr>active_c := False\<rparr>]\<rparr>"
    by (simp add: satisfyVisit_tear currentLength_def effectiveTearThreshold_def)
next
  assume b: "\<not> active_c (constraints_m m ! j)"
  show "satisfyVisit j m = m" using b by (rule satisfyVisit_inactive)
  show "\<not> active_c (constraints_m (satisfyConstraints m) ! j)"
    using b by (rule satisfyConstraints_mono)
  show "\<forall>r. update rand k dt m = Some r \<longrightarrow> \<not> active_c (constraints_m (snd r) ! j)"
    using update_mono [OF b] by blast
  show "\<not> active_c (constraints_m (snd (cutOrganic rand k center radius m)) ! j)"
    if "j < length (constraints_m m)"
    using that b by (rule cutOrganic_mono)
  show "\<not> active_c (constraints_m (cutAlongSegment start endP radius m) ! j)"
    if "j < length (constraints_m m)"
    using that b by (rule cutAlongSegment_mono)
next
  assume a: "i < length (constraints_m m) \<and> active_c (constraints_m m ! i) \<and>
      \<not> active_c (constraints_m (satisfyVisit j m) ! i)"
  with satisfyVisit_sole [of i m j]
  show "i = j"
    and "restLength (constraints_m m ! i) * effectiveTearThreshold m i < currentLength m i"
    by (auto simp: currentLength_def effectiveTearThreshold_def)
qed

lemma exampleStretched_obs:
  "\<not> broken (constraints exampleStretched ! 0)"
  "currentDist exampleStretched 0 = 2"
  "restDistance (constraints exampleStretched ! 0) * tearFactor exampleStretched = 7 / 4"
  "length (constraints exampleStretched) = 1"
  by (simp_all add: exampleStretched_def currentDist_def newConstraint_def newParticle_def
        distanceTo_def lengthSq_def sub_def vec_def)

lemma exampleTorn_eq:
  "exampleStretched\<lparr>constraints :=
      (constraints exampleStretched)[0 := (constraints exampleStretched ! 0)\<lparr>broken := True\<rparr>]\<rparr>
   = exampleTorn"
  by (simp add: exampleTorn_def exampleStretched_def)

lemma exampleTorn_obs:
  "broken (constraints exampleTorn ! 0)" "length (constraints exampleTorn) = 1"
  by (simp_all add: exampleTorn_def exampleStretched_def)

lemma relaxPass_exampleStretched:
  "constraints (relaxPass exampleStretched) = constraints exampleStretched"
  "position (particles (relaxPass exampleStretched) ! 0) = vec (1 / 8) 0 0"
  "position (particles (relaxPass exampleStretched) ! Suc 0) = vec (15 / 8) 0 0"
  "position (particles exampleStretched ! 0) = vec 0 0 0"
  "position (particles exampleStretched ! Suc 0) = vec 2 0 0"
  by (simp_all add: relaxPass_def relaxVisit_def satisfy_def exampleStretched_def
        newConstraint_def newParticle_def effInv_def vlength_def lengthSq_def sub_def
        addScaledVector_def vec_def Let_def)

lemma exampleWeak_obs:
  "active_c (constraints_m exampleWeak ! 0)"
  "active (particles_m exampleWeak ! p1_m (constraints_m exampleWeak ! 0))"
  "active (particles_m exampleWeak ! p2_m (constraints_m exampleWeak ! 0))"
  "currentLength exampleWeak 0 = 2"
  "effectiveTearThreshold exampleWeak 0 = 7 / 5"
  "restLength (constraints_m exampleWeak ! 0) = 1"
  "tearThreshold (params exampleWeak) = 14 / 5"
  "length (constraints_m exampleWeak) = 1"
  by (simp_all add: exampleWeak_def meshOf_def constraintOf_def particleAt_def
        currentLength_def effectiveTearThreshold_def defaultParams_def vlength_def
        lengthSq_def sub_def vec_def)

lemma exampleOver_obs:
  "active_c (constraints_m exampleOver ! 0)"
  "active (particles_m exampleOver ! p1_m (constraints_m exampleOver ! 0))"
  "active (particles_m exampleOver ! p2_m (constraints_m exampleOver ! 0))"
  "currentLength exampleOver 0 = 2"
  "min (cutFactor (particles_m exampleOver ! p1_m (constraints_m exampleOver ! 0)))
       (cutFactor (particles_m exampleOver ! p2_m (constraints_m exampleOver ! 0))) = 1"
  "restLength (constraints_m exampleOver ! 0) = 1 / 2"
  "tearThreshold (params exampleOver) = 14 / 5"
  "\<not> pinned_m (particles_m exampleOver ! 0)" "\<not> pinned_m (particles_m exampleOver ! Suc 0)"
  "length (constraints_m exampleOver) = 1"
  by (simp_all add: exampleOver_def meshOf_def constraintOf_def particleAt_def
        currentLength_def defaultParams_def vlength_def lengthSq_def sub_def vec_def)

lemma satisfyConstraints_single:
  "length (constraints_m m) = 1 \<Longrightarrow> satisfyConstraints m = satisfyVisit 0 m"
  by (simp add: satisfyConstraints_def)

theorem tearing_contract_witness:
  "\<not> broken (constraints exampleStretched ! 0) \<and>
   restDistance (constraints exampleStretched ! 0) * tearFactor exampleStretched
     < currentDist exampleStretched 0 \<and>
   stepVisit 0 exampleStretched = exampleTorn \<and>
   broken (constraints exampleTorn ! 0) \<and>
   stepVisit 0 exampleTorn = exampleTorn \<and>
   relaxVisit 0 exampleTorn = exampleTorn \<and>
   broken (constraints (step exampleTorn 1) ! 0) \<and>
   broken (constraints (snd (startSimulation exampleTorn)) ! 0) \<and>
   active_c (constraints_m exampleWeak ! 0) \<and>
   restLength (constraints_m exampleWeak ! 0) * effectiveTearThreshold exampleWeak 0
     < currentLength exampleWeak 0 \<and>
   \<not> active_c (constraints_m (satisfyVisit 0 exampleWeak) ! 0) \<and>
   \<not> active_c (constraints_m (satisfyConstraints (satisfyVisit 0 exampleWeak)) ! 0) \<and>
   restLength (constraints_m exampleOver ! 0) * tearThreshold (params exampleOver)
     < currentLength exampleOver 0 \<and>
   \<not> active_c (constraints_m (satisfyVisit 0 exampleOver) ! 0) \<and>
   physicsEnabled (exampleTorn\<lparr>physicsEnabled := True\<rparr>) \<and>
   broken (constraints (step (exampleTorn\<lparr>physicsEnabled := True\<rparr>) 1) ! 0) \<and>
   fst (startSimulation
     (exampleTorn\<lparr>particles := [pinToCurrent (newParticle 0 0 0 1), newParticle 2 0 0 1]\<rparr>)) \<and>
   broken (constraints (snd (startSimulation
     (exampleTorn\<lparr>particles := [pinToCurrent (newParticle 0 0 0 1), newParticle 2 0 0 1]\<rparr>))) ! 0) \<and>
   map_option (\<lambda>r. active_c (constraints_m (snd r) ! 0))
     (update zeroRand 0 0.01 (satisfyVisit 0 exampleWeak)) = Some False"
proof -
  note t1 = tearing_contract [where s = exampleStretched and j = 0 and i = 0
      and m = exampleWeak]
  note t2 = tearing_contract [where s = exampleTorn and j = 0 and i = 0 and dt = 1
      and m = exampleOver]
  have sv: "stepVisit 0 exampleStretched = exampleTorn"
    using t1 by (simp add: exampleStretched_obs exampleTorn_eq)
  have w: "satisfyVisit 0 exampleWeak
      = exampleWeak\<lparr>constraints_m :=
          (constraints_m exampleWeak)[0 := (constraints_m exampleWeak ! 0)\<lparr>active_c := False\<rparr>]\<rparr>"
    using t1 by (simp add: exampleWeak_obs)
  have o: "satisfyVisit 0 exampleOver
      = exampleOver\<lparr>constraints_m :=
          (constraints_m exampleOver)[0 := (constraints_m exampleOver ! 0)\<lparr>active_c := False\<rparr>]\<rparr>"
    using t2 by (simp add: exampleOver_obs)
  note t3 = tearing_contract [where m = "satisfyVisit 0 exampleWeak" and j = 0]
  have w2: "\<not> active_c (constraints_m (satisfyVisit 0 exampleWeak) ! 0)"
    by (simp add: w exampleWeak_obs)
  from t3 w2 have w3: "\<not> active_c (constraints_m (satisfyConstraints (satisfyVisit 0 exampleWeak)) ! 0)"
    by blast
  have o2: "\<not> active_c (constraints_m (satisfyVisit 0 exampleOver) ! 0)"
    by (simp add: o exampleOver_obs)
  let ?run = "exampleTorn\<lparr>physicsEnabled := True\<rparr>"
  let ?sel = "exampleTorn\<lparr>particles := [pinToCurrent (newParticle 0 0 0 1), newParticle 2 0 0 1]\<rparr>"
  have en: "physicsEnabled ?run" by simp
  have "broken (constraints ?run ! 0)" by (simp add: exampleTorn_obs)
  with tearing_contract [where s = ?run and j = 0 and dt = 1]
  have run: "broken (constraints (step ?run 1) ! 0)" by blast
  have sel: "fst (startSimulation ?sel)"
    by (simp add: startSimulation_def hasConstraintPoints_def topRowIndices_def idx_def
          exampleTorn_def exampleStretched_def pinToCurrent_def newParticle_def Let_def upt2)
  have "broken (constraints ?sel ! 0)" by (simp add: exampleTorn_obs)
  with tearing_contract [where s = ?sel and j = 0]
  have start: "broken (constraints (snd (startSimulation ?sel)) ! 0)" by blast
  have "(0.01::real) \<noteq> 0" by simp
  moreover have "\<forall>p \<in> set (particles_m (satisfyVisit 0 exampleWeak)). mass p \<noteq> 0"
    by (simp add: w) (simp add: exampleWeak_def meshOf_def particleAt_def)
  ultimately obtain r where "updateWith zeroRand 0 0.01 (satisfyVisit 0 exampleWeak) = Some r"
    using updateWith_defined by blast
  then have r: "update zeroRand 0 0.01 (satisfyVisit 0 exampleWeak) = Some r"
    by (simp add: update_def)
  with t3 w2 have "\<not> active_c (constraints_m (snd r) ! 0)" by blast
  with r have upd: "map_option (\<lambda>r. active_c (constraints_m (snd r) ! 0))
     (update zeroRand 0 0.01 (satisfyVisit 0 exampleWeak)) = Some False"
    by simp
  from t2 sv w2 w3 o2 have old: "\<not> broken (constraints exampleStretched ! 0) \<and>
   restDistance (constraints exampleStretched ! 0) * tearFactor exampleStretched
     < currentDist exampleStretched 0 \<and>
   stepVisit 0 exampleStretched = exampleTorn \<and>
   broken (constraints exampleTorn ! 0) \<and>
   stepVisit 0 exampleTorn = exampleTorn \<and>
   relaxVisit 0 exampleTorn = exampleTorn \<and>
   broken (constraints (step exampleTorn 1) ! 0) \<and>
   broken (constraints (snd (startSimulation exampleTorn)) ! 0) \<and>
   active_c (constraints_m exampleWeak ! 0) \<and>
   restLength (constraints_m exampleWeak ! 0) * effectiveTearThreshold exampleWeak 0
     < currentLength exampleWeak 0 \<and>
   \<not> active_c (constraints_m (satisfyVisit 0 exampleWeak) ! 0) \<and>
   \<not> active_c (constraints_m (satisfyConstraints (satisfyVisit 0 exampleWeak)) ! 0) \<and>
   restLength (constraints_m exampleOver ! 0) * tearThreshold (params exampleOver)
     < currentLength exampleOver 0 \<and>
   \<not> active_c (constraints_m (satisfyVisit 0 exampleOver) ! 0)"
    by (simp add: exampleStretched_obs exampleTorn_obs exampleWeak_obs exampleOver_obs)
  from old en run sel start upd show ?thesis by (simp only: simp_thms)
qed

text \<open>
  The claim as stated fails in two places.  Before the start, a pass over a
  constraint stretched to twice its rest distance (above the tear factor 1.75)
  satisfies it and does not break it.  In main.js a constraint with a damaged
  endpoint (\<open>cutFactor = 1/2\<close>) is torn at length 2, below
  \<open>restLength * tearThreshold = 2.8\<close>.
\<close>

theorem tearing_counterexample:
  "restDistance (constraints exampleStretched ! 0) * tearFactor exampleStretched
     < currentDist exampleStretched 0 \<and>
   \<not> broken (constraints (relaxPass exampleStretched) ! 0) \<and>
   position (particles exampleStretched ! 0) = vec 0 0 0 \<and>
   position (particles (relaxPass exampleStretched) ! 0) = vec (1 / 8) 0 0 \<and>
   position (particles exampleStretched ! 1) = vec 2 0 0 \<and>
   position (particles (relaxPass exampleStretched) ! 1) = vec (15 / 8) 0 0 \<and>
   active_c (constraints_m exampleWeak ! 0) \<and>
   currentLength exampleWeak 0 = 2 \<and>
   restLength (constraints_m exampleWeak ! 0) * tearThreshold (params exampleWeak) = 14 / 5 \<and>
   \<not> active_c (constraints_m (satisfyConstraints exampleWeak) ! 0)"
proof -
  have "satisfyConstraints exampleWeak = satisfyVisit 0 exampleWeak"
    by (rule satisfyConstraints_single) (simp add: exampleWeak_obs)
  moreover have "\<not> active_c (constraints_m (satisfyVisit 0 exampleWeak) ! 0)"
    by (simp add: satisfyVisit_def exampleWeak_def meshOf_def constraintOf_def particleAt_def
          defaultParams_def vlength_def lengthSq_def sub_def vec_def Let_def)
  ultimately show ?thesis
    by (simp add: relaxPass_exampleStretched exampleStretched_obs exampleWeak_obs)
qed

subsection \<open>Constraint satisfaction\<close>

lemma addScaledVector_zero: "addScaledVector a v 0 = a"
  by (simp add: addScaledVector_def vec_def)

lemma vlength_sub_self: "vlength (sub a a) = 0"
  by (simp add: vlength_def lengthSq_def sub_def vec_def)

lemma satisfy_noop:
  "broken c \<or> vlength (sub (position (ps ! p2 c)) (position (ps ! p1 c))) = 0 \<or>
     effInv (ps ! p1 c) + effInv (ps ! p2 c) = 0 \<Longrightarrow>
   satisfy c ps = ps"
  by (auto simp: satisfy_def Let_def)

lemma satisfy_apply:
  assumes r: "p1 c < length ps" "p2 c < length ps"
    and nb: "\<not> broken c"
    and len: "vlength (sub (position (ps ! p2 c)) (position (ps ! p1 c))) \<noteq> 0"
    and inv: "effInv (ps ! p1 c) + effInv (ps ! p2 c) \<noteq> 0"
  shows "satisfy c ps =
     ps[p1 c := (ps ! p1 c)\<lparr>position := addScaledVector (position (ps ! p1 c))
                  (sub (position (ps ! p2 c)) (position (ps ! p1 c)))
                  (effInv (ps ! p1 c) / (effInv (ps ! p1 c) + effInv (ps ! p2 c)) *
                   ((vlength (sub (position (ps ! p2 c)) (position (ps ! p1 c))) - restDistance c)
                      / vlength (sub (position (ps ! p2 c)) (position (ps ! p1 c)))
                      * (0.25 * stiffness c)))\<rparr>,
        p2 c := (ps ! p2 c)\<lparr>position := addScaledVector (position (ps ! p2 c))
                  (sub (position (ps ! p2 c)) (position (ps ! p1 c)))
                  (- (effInv (ps ! p2 c) / (effInv (ps ! p1 c) + effInv (ps ! p2 c)) *
                   ((vlength (sub (position (ps ! p2 c)) (position (ps ! p1 c))) - restDistance c)
                      / vlength (sub (position (ps ! p2 c)) (position (ps ! p1 c)))
                      * (0.25 * stiffness c))))\<rparr>]"
proof -
  have ne: "p1 c \<noteq> p2 c"
  proof
    assume "p1 c = p2 c"
    with len show False by (simp add: vlength_sub_self)
  qed
  with r nb len inv show ?thesis
    by (simp add: satisfy_def Let_def mult_ac)
qed

lemma satisfy_cases:
  assumes r: "p1 c < length ps" "p2 c < length ps"
  shows "let a = ps ! p1 c; b = ps ! p2 c;
         delta = sub (position b) (position a);
         currentLength = vlength delta;
         inv1 = effInv a; inv2 = effInv b;
         diff = (currentLength - restDistance c) / currentLength * (0.25 * stiffness c)
     in (broken c \<or> currentLength = 0 \<or> inv1 + inv2 = 0 \<longrightarrow> satisfy c ps = ps) \<and>
        (pinned a \<and> pinned b \<longrightarrow> inv1 + inv2 = 0) \<and>
        (\<not> broken c \<and> currentLength \<noteq> 0 \<and> inv1 + inv2 \<noteq> 0 \<longrightarrow>
           satisfy c ps ! p1 c
             = a\<lparr>position := addScaledVector (position a) delta (inv1 / (inv1 + inv2) * diff)\<rparr> \<and>
           satisfy c ps ! p2 c
             = b\<lparr>position := addScaledVector (position b) delta (- (inv2 / (inv1 + inv2) * diff))\<rparr> \<and>
           (\<forall>i<length ps. i \<noteq> p1 c \<and> i \<noteq> p2 c \<longrightarrow> satisfy c ps ! i = ps ! i) \<and>
           (pinned a \<longrightarrow> satisfy c ps ! p1 c = a) \<and>
           (pinned b \<longrightarrow> satisfy c ps ! p2 c = b))"
proof -
  have noop: "satisfy c ps = ps"
    if "broken c \<or> vlength (sub (position (ps ! p2 c)) (position (ps ! p1 c))) = 0 \<or>
     effInv (ps ! p1 c) + effInv (ps ! p2 c) = 0"
    using that by (rule satisfy_noop)
  have both: "effInv (ps ! p1 c) + effInv (ps ! p2 c) = 0"
    if "pinned (ps ! p1 c) \<and> pinned (ps ! p2 c)"
    using that by (simp add: effInv_def)
  have app: "satisfy c ps ! p1 c = (ps ! p1 c)\<lparr>position := addScaledVector (position (ps ! p1 c))
                  (sub (position (ps ! p2 c)) (position (ps ! p1 c)))
                  (effInv (ps ! p1 c) / (effInv (ps ! p1 c) + effInv (ps ! p2 c)) *
                   ((vlength (sub (position (ps ! p2 c)) (position (ps ! p1 c))) - restDistance c)
                      / vlength (sub (position (ps ! p2 c)) (position (ps ! p1 c)))
                      * (0.25 * stiffness c)))\<rparr> \<and>
      satisfy c ps ! p2 c = (ps ! p2 c)\<lparr>position := addScaledVector (position (ps ! p2 c))
                  (sub (position (ps ! p2 c)) (position (ps ! p1 c)))
                  (- (effInv (ps ! p2 c) / (effInv (ps ! p1 c) + effInv (ps ! p2 c)) *
                   ((vlength (sub (position (ps ! p2 c)) (position (ps ! p1 c))) - restDistance c)
                      / vlength (sub (position (ps ! p2 c)) (position (ps ! p1 c)))
                      * (0.25 * stiffness c))))\<rparr> \<and>
      (\<forall>i<length ps. i \<noteq> p1 c \<and> i \<noteq> p2 c \<longrightarrow> satisfy c ps ! i = ps ! i)"
    if h: "\<not> broken c \<and> vlength (sub (position (ps ! p2 c)) (position (ps ! p1 c))) \<noteq> 0 \<and>
     effInv (ps ! p1 c) + effInv (ps ! p2 c) \<noteq> 0"
  proof -
    have ne: "p1 c \<noteq> p2 c"
    proof
      assume "p1 c = p2 c"
      with h show False by (simp add: vlength_sub_self)
    qed
    from h have e: "satisfy c ps = ps[p1 c := (ps ! p1 c)\<lparr>position := addScaledVector (position (ps ! p1 c))
                  (sub (position (ps ! p2 c)) (position (ps ! p1 c)))
                  (effInv (ps ! p1 c) / (effInv (ps ! p1 c) + effInv (ps ! p2 c)) *
                   ((vlength (sub (position (ps ! p2 c)) (position (ps ! p1 c))) - restDistance c)
                      / vlength (sub (position (ps ! p2 c)) (position (ps ! p1 c)))
                      * (0.25 * stiffness c)))\<rparr>,
        p2 c := (ps ! p2 c)\<lparr>position := addScaledVector (position (ps ! p2 c))
                  (sub (position (ps ! p2 c)) (position (ps ! p1 c)))
                  (- (effInv (ps ! p2 c) / (effInv (ps ! p1 c) + effInv (ps ! p2 c)) *
                   ((vlength (sub (position (ps ! p2 c)) (position (ps ! p1 c))) - restDistance c)
                      / vlength (sub (position (ps ! p2 c)) (position (ps ! p1 c)))
                      * (0.25 * stiffness c))))\<rparr>]"
      by (intro satisfy_apply r) simp_all
    show ?thesis
      unfolding e using r ne by (simp add: nth_list_update)
  qed
  have pin1: "satisfy c ps ! p1 c = ps ! p1 c"
    if "\<not> broken c \<and> vlength (sub (position (ps ! p2 c)) (position (ps ! p1 c))) \<noteq> 0 \<and>
     effInv (ps ! p1 c) + effInv (ps ! p2 c) \<noteq> 0" "pinned (ps ! p1 c)"
    using app [OF that(1)] that(2) by (simp add: effInv_def addScaledVector_zero)
  have pin2: "satisfy c ps ! p2 c = ps ! p2 c"
    if "\<not> broken c \<and> vlength (sub (position (ps ! p2 c)) (position (ps ! p1 c))) \<noteq> 0 \<and>
     effInv (ps ! p1 c) + effInv (ps ! p2 c) \<noteq> 0" "pinned (ps ! p2 c)"
    using app [OF that(1)] that(2) by (simp add: effInv_def addScaledVector_zero)
  show ?thesis
    unfolding Let_def using noop both app pin1 pin2 by blast
qed


lemma satisfyVisit_noop:
  "\<not> active_c (constraints_m m ! j) \<or>
   \<not> active (particles_m m ! p1_m (constraints_m m ! j)) \<or>
   \<not> active (particles_m m ! p2_m (constraints_m m ! j)) \<or>
   currentLength m j = 0 \<Longrightarrow>
   satisfyVisit j m = m"
  by (auto simp: satisfyVisit_def Let_def currentLength_def)

lemma satisfyVisit_apply:
  assumes r: "p1_m (constraints_m m ! j) < length (particles_m m)"
      "p2_m (constraints_m m ! j) < length (particles_m m)"
    and act: "active_c (constraints_m m ! j)"
      "active (particles_m m ! p1_m (constraints_m m ! j))"
      "active (particles_m m ! p2_m (constraints_m m ! j))"
    and len: "currentLength m j \<noteq> 0"
    and keep: "\<not> restLength (constraints_m m ! j) * effectiveTearThreshold m j < currentLength m j"
  shows "constraints_m (satisfyVisit j m) = constraints_m m"
    and "particles_m (satisfyVisit j m) ! p1_m (constraints_m m ! j)
      = (particles_m m ! p1_m (constraints_m m ! j))\<lparr>position_m :=
          addScaledVector (position_m (particles_m m ! p1_m (constraints_m m ! j)))
            (sub (position_m (particles_m m ! p2_m (constraints_m m ! j)))
                 (position_m (particles_m m ! p1_m (constraints_m m ! j))))
            ((if pinned_m (particles_m m ! p1_m (constraints_m m ! j)) then 0
              else if pinned_m (particles_m m ! p2_m (constraints_m m ! j)) then 1 else 1 / 2) *
             ((currentLength m j - restLength (constraints_m m ! j)) / currentLength m j
                * (1 * stiffness_m (constraints_m m ! j))))\<rparr>"
    and "particles_m (satisfyVisit j m) ! p2_m (constraints_m m ! j)
      = (particles_m m ! p2_m (constraints_m m ! j))\<lparr>position_m :=
          addScaledVector (position_m (particles_m m ! p2_m (constraints_m m ! j)))
            (sub (position_m (particles_m m ! p2_m (constraints_m m ! j)))
                 (position_m (particles_m m ! p1_m (constraints_m m ! j))))
            (- ((if pinned_m (particles_m m ! p2_m (constraints_m m ! j)) then 0
                 else if pinned_m (particles_m m ! p1_m (constraints_m m ! j)) then 1 else 1 / 2) *
             ((currentLength m j - restLength (constraints_m m ! j)) / currentLength m j
                * (1 * stiffness_m (constraints_m m ! j)))))\<rparr>"
    and "\<forall>i<length (particles_m m).
           i \<noteq> p1_m (constraints_m m ! j) \<and> i \<noteq> p2_m (constraints_m m ! j) \<longrightarrow>
           particles_m (satisfyVisit j m) ! i = particles_m m ! i"
proof -
  have ne: "p1_m (constraints_m m ! j) \<noteq> p2_m (constraints_m m ! j)"
  proof
    assume "p1_m (constraints_m m ! j) = p2_m (constraints_m m ! j)"
    with len show False by (simp add: currentLength_def vlength_sub_self)
  qed
  from len vlength_nonneg [of "sub (position_m (particles_m m ! p2_m (constraints_m m ! j)))
                 (position_m (particles_m m ! p1_m (constraints_m m ! j)))"]
  have pos: "0 < currentLength m j" by (simp add: currentLength_def)
  show "constraints_m (satisfyVisit j m) = constraints_m m"
    using act pos keep by (simp add: satisfyVisit_def Let_def currentLength_def
      effectiveTearThreshold_def)
  show "particles_m (satisfyVisit j m) ! p1_m (constraints_m m ! j)
      = (particles_m m ! p1_m (constraints_m m ! j))\<lparr>position_m :=
          addScaledVector (position_m (particles_m m ! p1_m (constraints_m m ! j)))
            (sub (position_m (particles_m m ! p2_m (constraints_m m ! j)))
                 (position_m (particles_m m ! p1_m (constraints_m m ! j))))
            ((if pinned_m (particles_m m ! p1_m (constraints_m m ! j)) then 0
              else if pinned_m (particles_m m ! p2_m (constraints_m m ! j)) then 1 else 1 / 2) *
             ((currentLength m j - restLength (constraints_m m ! j)) / currentLength m j
                * (1 * stiffness_m (constraints_m m ! j))))\<rparr>"
    using act pos keep r ne
    by (simp add: satisfyVisit_def Let_def currentLength_def effectiveTearThreshold_def
      add_def sub_def multiplyScalar_def addScaledVector_def vec_def field_simps)
  show "particles_m (satisfyVisit j m) ! p2_m (constraints_m m ! j)
      = (particles_m m ! p2_m (constraints_m m ! j))\<lparr>position_m :=
          addScaledVector (position_m (particles_m m ! p2_m (constraints_m m ! j)))
            (sub (position_m (particles_m m ! p2_m (constraints_m m ! j)))
                 (position_m (particles_m m ! p1_m (constraints_m m ! j))))
            (- ((if pinned_m (particles_m m ! p2_m (constraints_m m ! j)) then 0
                 else if pinned_m (particles_m m ! p1_m (constraints_m m ! j)) then 1 else 1 / 2) *
             ((currentLength m j - restLength (constraints_m m ! j)) / currentLength m j
                * (1 * stiffness_m (constraints_m m ! j)))))\<rparr>"
    using act pos keep r ne
    by (simp add: satisfyVisit_def Let_def currentLength_def effectiveTearThreshold_def
      add_def sub_def multiplyScalar_def addScaledVector_def vec_def field_simps)
  show "\<forall>i<length (particles_m m).
           i \<noteq> p1_m (constraints_m m ! j) \<and> i \<noteq> p2_m (constraints_m m ! j) \<longrightarrow>
           particles_m (satisfyVisit j m) ! i = particles_m m ! i"
    using act pos keep
    by (simp add: satisfyVisit_def Let_def currentLength_def effectiveTearThreshold_def)
qed


text \<open>
  Claim C1, as the code has it.  \<open>Constraint.satisfy\<close> of cloth.js takes the vector
  \<open>delta\<close> from the first endpoint to the second.  It changes nothing when the
  constraint is broken, when the length of \<open>delta\<close> is zero, or when the effective
  inverse masses (zero for a pinned particle) add up to zero, as they do when both
  endpoints are pinned.  Otherwise, with
  \<open>diff = (currentLength - restDistance) / currentLength * (0.25 * stiffness)\<close>, the
  first endpoint moves by \<open>delta\<close> times its inverse-mass share of \<open>diff\<close>, the
  second by \<open>delta\<close> times minus its share, nothing else changes, and a pinned
  endpoint stays where it is.

  The loop body of \<open>satisfyConstraints\<close> of main.js changes nothing when the
  constraint or an endpoint is inactive or the length is zero.  When the constraint
  is not torn at this visit, the same correction is applied with the constant 1 in
  place of 0.25, and the shares are one half each for two unpinned endpoints, all
  for the unpinned one of a pinned pair, nothing for a pinned endpoint: the
  inverse-mass shares whenever the two masses are equal and positive.
\<close>

theorem satisfy_contract:
  "(p1 c < length ps \<and> p2 c < length ps \<longrightarrow>
     (let a = ps ! p1 c; b = ps ! p2 c;
          delta = sub (position b) (position a);
          currentLength = vlength delta;
          inv1 = effInv a; inv2 = effInv b;
          diff = (currentLength - restDistance c) / currentLength * (0.25 * stiffness c)
      in (broken c \<or> currentLength = 0 \<or> inv1 + inv2 = 0 \<longrightarrow> satisfy c ps = ps) \<and>
         (pinned a \<and> pinned b \<longrightarrow> inv1 + inv2 = 0) \<and>
         (\<not> broken c \<and> currentLength \<noteq> 0 \<and> inv1 + inv2 \<noteq> 0 \<longrightarrow>
            satisfy c ps ! p1 c
              = a\<lparr>position := addScaledVector (position a) delta (inv1 / (inv1 + inv2) * diff)\<rparr> \<and>
            satisfy c ps ! p2 c
              = b\<lparr>position := addScaledVector (position b) delta (- (inv2 / (inv1 + inv2) * diff))\<rparr> \<and>
            (\<forall>i<length ps. i \<noteq> p1 c \<and> i \<noteq> p2 c \<longrightarrow> satisfy c ps ! i = ps ! i) \<and>
            (pinned a \<longrightarrow> satisfy c ps ! p1 c = a) \<and>
            (pinned b \<longrightarrow> satisfy c ps ! p2 c = b)))) \<and>
   (p1_m (constraints_m m ! j) < length (particles_m m) \<and>
    p2_m (constraints_m m ! j) < length (particles_m m) \<longrightarrow>
     (let constraint = constraints_m m ! j;
          a = particles_m m ! p1_m constraint; b = particles_m m ! p2_m constraint;
          diff = sub (position_m b) (position_m a);
          scale = (currentLength m j - restLength constraint) / currentLength m j
                    * (1 * stiffness_m constraint);
          share1 = (if pinned_m a then 0 else if pinned_m b then 1 else 1 / 2);
          share2 = (if pinned_m b then 0 else if pinned_m a then 1 else 1 / 2);
          inv1 = (if pinned_m a then 0 else 1 / mass a);
          inv2 = (if pinned_m b then 0 else 1 / mass b)
      in (\<not> active_c constraint \<or> \<not> active a \<or> \<not> active b \<or> currentLength m j = 0 \<longrightarrow>
            satisfyVisit j m = m) \<and>
         (active_c constraint \<and> active a \<and> active b \<and> currentLength m j \<noteq> 0 \<and>
          \<not> restLength constraint * effectiveTearThreshold m j < currentLength m j \<longrightarrow>
            constraints_m (satisfyVisit j m) = constraints_m m \<and>
            particles_m (satisfyVisit j m) ! p1_m constraint
              = a\<lparr>position_m := addScaledVector (position_m a) diff (share1 * scale)\<rparr> \<and>
            particles_m (satisfyVisit j m) ! p2_m constraint
              = b\<lparr>position_m := addScaledVector (position_m b) diff (- (share2 * scale))\<rparr> \<and>
            (\<forall>i<length (particles_m m). i \<noteq> p1_m constraint \<and> i \<noteq> p2_m constraint \<longrightarrow>
               particles_m (satisfyVisit j m) ! i = particles_m m ! i) \<and>
            (pinned_m a \<longrightarrow> particles_m (satisfyVisit j m) ! p1_m constraint = a) \<and>
            (pinned_m b \<longrightarrow> particles_m (satisfyVisit j m) ! p2_m constraint = b)) \<and>
         (active_c constraint \<and> active a \<and> active b \<and> currentLength m j \<noteq> 0 \<and>
          restLength constraint * effectiveTearThreshold m j < currentLength m j \<longrightarrow>
            particles_m (satisfyVisit j m) = particles_m m) \<and>
         (mass a = mass b \<and> 0 < mass a \<and> \<not> (pinned_m a \<and> pinned_m b) \<longrightarrow>
            share1 = inv1 / (inv1 + inv2) \<and> share2 = inv2 / (inv1 + inv2))))"
proof (intro conjI impI)
  assume "p1 c < length ps \<and> p2 c < length ps"
  then show "let a = ps ! p1 c; b = ps ! p2 c;
          delta = sub (position b) (position a);
          currentLength = vlength delta;
          inv1 = effInv a; inv2 = effInv b;
          diff = (currentLength - restDistance c) / currentLength * (0.25 * stiffness c)
      in (broken c \<or> currentLength = 0 \<or> inv1 + inv2 = 0 \<longrightarrow> satisfy c ps = ps) \<and>
         (pinned a \<and> pinned b \<longrightarrow> inv1 + inv2 = 0) \<and>
         (\<not> broken c \<and> currentLength \<noteq> 0 \<and> inv1 + inv2 \<noteq> 0 \<longrightarrow>
            satisfy c ps ! p1 c
              = a\<lparr>position := addScaledVector (position a) delta (inv1 / (inv1 + inv2) * diff)\<rparr> \<and>
            satisfy c ps ! p2 c
              = b\<lparr>position := addScaledVector (position b) delta (- (inv2 / (inv1 + inv2) * diff))\<rparr> \<and>
            (\<forall>i<length ps. i \<noteq> p1 c \<and> i \<noteq> p2 c \<longrightarrow> satisfy c ps ! i = ps ! i) \<and>
            (pinned a \<longrightarrow> satisfy c ps ! p1 c = a) \<and>
            (pinned b \<longrightarrow> satisfy c ps ! p2 c = b))"
    by (intro satisfy_cases) simp_all
next
  assume r: "p1_m (constraints_m m ! j) < length (particles_m m) \<and>
    p2_m (constraints_m m ! j) < length (particles_m m)"
  have shares: "(if pinned_m a then 0 else if pinned_m b then 1 else 1 / 2)
        = (if pinned_m a then 0 else 1 / mass a)
            / ((if pinned_m a then 0 else 1 / mass a) + (if pinned_m b then 0 else 1 / mass b)) \<and>
      (if pinned_m b then 0 else if pinned_m a then 1 else 1 / 2)
        = (if pinned_m b then 0 else 1 / mass b)
            / ((if pinned_m a then 0 else 1 / mass a) + (if pinned_m b then 0 else 1 / mass b))"
    if "mass a = mass b \<and> 0 < mass a \<and> \<not> (pinned_m a \<and> pinned_m b)" for a b :: particle_m
    using that by (auto simp: field_simps)
  show "let constraint = constraints_m m ! j;
          a = particles_m m ! p1_m constraint; b = particles_m m ! p2_m constraint;
          diff = sub (position_m b) (position_m a);
          scale = (currentLength m j - restLength constraint) / currentLength m j
                    * (1 * stiffness_m constraint);
          share1 = (if pinned_m a then 0 else if pinned_m b then 1 else 1 / 2);
          share2 = (if pinned_m b then 0 else if pinned_m a then 1 else 1 / 2);
          inv1 = (if pinned_m a then 0 else 1 / mass a);
          inv2 = (if pinned_m b then 0 else 1 / mass b)
      in (\<not> active_c constraint \<or> \<not> active a \<or> \<not> active b \<or> currentLength m j = 0 \<longrightarrow>
            satisfyVisit j m = m) \<and>
         (active_c constraint \<and> active a \<and> active b \<and> currentLength m j \<noteq> 0 \<and>
          \<not> restLength constraint * effectiveTearThreshold m j < currentLength m j \<longrightarrow>
            constraints_m (satisfyVisit j m) = constraints_m m \<and>
            particles_m (satisfyVisit j m) ! p1_m constraint
              = a\<lparr>position_m := addScaledVector (position_m a) diff (share1 * scale)\<rparr> \<and>
            particles_m (satisfyVisit j m) ! p2_m constraint
              = b\<lparr>position_m := addScaledVector (position_m b) diff (- (share2 * scale))\<rparr> \<and>
            (\<forall>i<length (particles_m m). i \<noteq> p1_m constraint \<and> i \<noteq> p2_m constraint \<longrightarrow>
               particles_m (satisfyVisit j m) ! i = particles_m m ! i) \<and>
            (pinned_m a \<longrightarrow> particles_m (satisfyVisit j m) ! p1_m constraint = a) \<and>
            (pinned_m b \<longrightarrow> particles_m (satisfyVisit j m) ! p2_m constraint = b)) \<and>
         (active_c constraint \<and> active a \<and> active b \<and> currentLength m j \<noteq> 0 \<and>
          restLength constraint * effectiveTearThreshold m j < currentLength m j \<longrightarrow>
            particles_m (satisfyVisit j m) = particles_m m) \<and>
         (mass a = mass b \<and> 0 < mass a \<and> \<not> (pinned_m a \<and> pinned_m b) \<longrightarrow>
            share1 = inv1 / (inv1 + inv2) \<and> share2 = inv2 / (inv1 + inv2))"
    unfolding Let_def
  proof (intro conjI impI)
    assume "\<not> active_c (constraints_m m ! j) \<or>
      \<not> active (particles_m m ! p1_m (constraints_m m ! j)) \<or>
      \<not> active (particles_m m ! p2_m (constraints_m m ! j)) \<or> currentLength m j = 0"
    then show "satisfyVisit j m = m" by (rule satisfyVisit_noop)
  next
    assume a: "active_c (constraints_m m ! j) \<and>
      active (particles_m m ! p1_m (constraints_m m ! j)) \<and>
      active (particles_m m ! p2_m (constraints_m m ! j)) \<and> currentLength m j \<noteq> 0 \<and>
      \<not> restLength (constraints_m m ! j) * effectiveTearThreshold m j < currentLength m j"
    note ap = satisfyVisit_apply [of m j]
    show "constraints_m (satisfyVisit j m) = constraints_m m"
      using ap(1) r a by blast
    show "particles_m (satisfyVisit j m) ! p1_m (constraints_m m ! j)
      = (particles_m m ! p1_m (constraints_m m ! j))\<lparr>position_m :=
          addScaledVector (position_m (particles_m m ! p1_m (constraints_m m ! j)))
            (sub (position_m (particles_m m ! p2_m (constraints_m m ! j)))
                 (position_m (particles_m m ! p1_m (constraints_m m ! j))))
            ((if pinned_m (particles_m m ! p1_m (constraints_m m ! j)) then 0
              else if pinned_m (particles_m m ! p2_m (constraints_m m ! j)) then 1 else 1 / 2) *
             ((currentLength m j - restLength (constraints_m m ! j)) / currentLength m j
                * (1 * stiffness_m (constraints_m m ! j))))\<rparr>"
      using ap(2) r a by blast
    show "particles_m (satisfyVisit j m) ! p2_m (constraints_m m ! j)
      = (particles_m m ! p2_m (constraints_m m ! j))\<lparr>position_m :=
          addScaledVector (position_m (particles_m m ! p2_m (constraints_m m ! j)))
            (sub (position_m (particles_m m ! p2_m (constraints_m m ! j)))
                 (position_m (particles_m m ! p1_m (constraints_m m ! j))))
            (- ((if pinned_m (particles_m m ! p2_m (constraints_m m ! j)) then 0
                 else if pinned_m (particles_m m ! p1_m (constraints_m m ! j)) then 1 else 1 / 2) *
             ((currentLength m j - restLength (constraints_m m ! j)) / currentLength m j
                * (1 * stiffness_m (constraints_m m ! j)))))\<rparr>"
      using ap(3) r a by blast
    show "\<forall>i<length (particles_m m).
           i \<noteq> p1_m (constraints_m m ! j) \<and> i \<noteq> p2_m (constraints_m m ! j) \<longrightarrow>
           particles_m (satisfyVisit j m) ! i = particles_m m ! i"
      using ap(4) r a by blast
    show "particles_m (satisfyVisit j m) ! p1_m (constraints_m m ! j)
        = particles_m m ! p1_m (constraints_m m ! j)"
      if "pinned_m (particles_m m ! p1_m (constraints_m m ! j))"
    proof -
      from ap(2) r a have "particles_m (satisfyVisit j m) ! p1_m (constraints_m m ! j)
      = (particles_m m ! p1_m (constraints_m m ! j))\<lparr>position_m :=
          addScaledVector (position_m (particles_m m ! p1_m (constraints_m m ! j)))
            (sub (position_m (particles_m m ! p2_m (constraints_m m ! j)))
                 (position_m (particles_m m ! p1_m (constraints_m m ! j))))
            ((if pinned_m (particles_m m ! p1_m (constraints_m m ! j)) then 0
              else if pinned_m (particles_m m ! p2_m (constraints_m m ! j)) then 1 else 1 / 2) *
             ((currentLength m j - restLength (constraints_m m ! j)) / currentLength m j
                * (1 * stiffness_m (constraints_m m ! j))))\<rparr>"
        by blast
      with that show ?thesis by (simp add: addScaledVector_zero)
    qed
    show "particles_m (satisfyVisit j m) ! p2_m (constraints_m m ! j)
        = particles_m m ! p2_m (constraints_m m ! j)"
      if "pinned_m (particles_m m ! p2_m (constraints_m m ! j))"
    proof -
      from ap(3) r a have "particles_m (satisfyVisit j m) ! p2_m (constraints_m m ! j)
      = (particles_m m ! p2_m (constraints_m m ! j))\<lparr>position_m :=
          addScaledVector (position_m (particles_m m ! p2_m (constraints_m m ! j)))
            (sub (position_m (particles_m m ! p2_m (constraints_m m ! j)))
                 (position_m (particles_m m ! p1_m (constraints_m m ! j))))
            (- ((if pinned_m (particles_m m ! p2_m (constraints_m m ! j)) then 0
                 else if pinned_m (particles_m m ! p1_m (constraints_m m ! j)) then 1 else 1 / 2) *
             ((currentLength m j - restLength (constraints_m m ! j)) / currentLength m j
                * (1 * stiffness_m (constraints_m m ! j)))))\<rparr>"
        by blast
      with that show ?thesis by (simp add: addScaledVector_zero)
    qed
  next
    assume t: "active_c (constraints_m m ! j) \<and>
      active (particles_m m ! p1_m (constraints_m m ! j)) \<and>
      active (particles_m m ! p2_m (constraints_m m ! j)) \<and> currentLength m j \<noteq> 0 \<and>
      restLength (constraints_m m ! j) * effectiveTearThreshold m j < currentLength m j"
    with vlength_nonneg [of "sub (position_m (particles_m m ! p2_m (constraints_m m ! j)))
                 (position_m (particles_m m ! p1_m (constraints_m m ! j)))"]
    have "0 < currentLength m j" by (simp add: currentLength_def)
    with t have "satisfyVisit j m
        = m\<lparr>constraints_m := (constraints_m m)[j := (constraints_m m ! j)\<lparr>active_c := False\<rparr>]\<rparr>"
      by (simp add: satisfyVisit_tear currentLength_def effectiveTearThreshold_def)
    then show "particles_m (satisfyVisit j m) = particles_m m" by simp
  next
    assume h: "mass (particles_m m ! p1_m (constraints_m m ! j))
        = mass (particles_m m ! p2_m (constraints_m m ! j)) \<and>
      0 < mass (particles_m m ! p1_m (constraints_m m ! j)) \<and>
      \<not> (pinned_m (particles_m m ! p1_m (constraints_m m ! j)) \<and>
         pinned_m (particles_m m ! p2_m (constraints_m m ! j)))"
    from shares [OF h]
    show "(if pinned_m (particles_m m ! p1_m (constraints_m m ! j)) then 0
           else if pinned_m (particles_m m ! p2_m (constraints_m m ! j)) then 1 else 1 / 2)
        = (if pinned_m (particles_m m ! p1_m (constraints_m m ! j)) then 0
           else 1 / mass (particles_m m ! p1_m (constraints_m m ! j)))
          / ((if pinned_m (particles_m m ! p1_m (constraints_m m ! j)) then 0
              else 1 / mass (particles_m m ! p1_m (constraints_m m ! j)))
             + (if pinned_m (particles_m m ! p2_m (constraints_m m ! j)) then 0
                else 1 / mass (particles_m m ! p2_m (constraints_m m ! j))))"
      and "(if pinned_m (particles_m m ! p2_m (constraints_m m ! j)) then 0
           else if pinned_m (particles_m m ! p1_m (constraints_m m ! j)) then 1 else 1 / 2)
        = (if pinned_m (particles_m m ! p2_m (constraints_m m ! j)) then 0
           else 1 / mass (particles_m m ! p2_m (constraints_m m ! j)))
          / ((if pinned_m (particles_m m ! p1_m (constraints_m m ! j)) then 0
              else 1 / mass (particles_m m ! p1_m (constraints_m m ! j)))
             + (if pinned_m (particles_m m ! p2_m (constraints_m m ! j)) then 0
                else 1 / mass (particles_m m ! p2_m (constraints_m m ! j))))"
      by blast+
  qed
qed

lemma exampleStretched_parts:
  "constraints exampleStretched ! 0 = newConstraint 0 1 1 1"
  "particles exampleStretched = [newParticle 0 0 0 1, newParticle 2 0 0 1]"
  "constraints exampleTorn ! 0 = (newConstraint 0 1 1 1)\<lparr>broken := True\<rparr>"
  "particles exampleTorn = [newParticle 0 0 0 1, newParticle 2 0 0 1]"
  by (simp_all add: exampleStretched_def exampleTorn_def)

lemma exampleSlack_parts:
  "constraints_m exampleSlack ! 0 = constraintOf 1 1"
  "particles_m exampleSlack = [particleAt 0 0, particleAt 2 1]"
  "currentLength exampleSlack 0 = 2"
  "effectiveTearThreshold exampleSlack 0 = 14 / 5"
  by (simp_all add: exampleSlack_def meshOf_def constraintOf_def particleAt_def
        currentLength_def effectiveTearThreshold_def defaultParams_def vlength_def
        lengthSq_def sub_def vec_def)

theorem satisfy_contract_witness:
  "\<not> broken (constraints exampleStretched ! 0) \<and>
   vlength (sub (position (particles exampleStretched ! 1))
                (position (particles exampleStretched ! 0))) = 2 \<and>
   effInv (particles exampleStretched ! 0) + effInv (particles exampleStretched ! 1) = 2 \<and>
   position (satisfy (constraints exampleStretched ! 0) (particles exampleStretched) ! 0)
     = vec (1 / 8) 0 0 \<and>
   position (satisfy (constraints exampleStretched ! 0) (particles exampleStretched) ! 1)
     = vec (15 / 8) 0 0 \<and>
   broken (constraints exampleTorn ! 0) \<and>
   satisfy (constraints exampleTorn ! 0) (particles exampleTorn) = particles exampleTorn \<and>
   active_c (constraints_m exampleSlack ! 0) \<and>
   currentLength exampleSlack 0 = 2 \<and>
   \<not> restLength (constraints_m exampleSlack ! 0) * effectiveTearThreshold exampleSlack 0
       < currentLength exampleSlack 0 \<and>
   position_m (particles_m (satisfyVisit 0 exampleSlack) ! 0) = vec (1 / 2) 0 0 \<and>
   position_m (particles_m (satisfyVisit 0 exampleSlack) ! 1) = vec (3 / 2) 0 0 \<and>
   pinned (pinToCurrent (newParticle 0 0 0 1)) \<and>
   satisfy (newConstraint 0 1 1 1) [pinToCurrent (newParticle 0 0 0 1), newParticle 2 0 0 1] ! 0
     = pinToCurrent (newParticle 0 0 0 1) \<and>
   position (satisfy (newConstraint 0 1 1 1)
       [pinToCurrent (newParticle 0 0 0 1), newParticle 2 0 0 1] ! 1) = vec (7 / 4) 0 0 \<and>
   satisfy (newConstraint 0 1 1 1)
       [pinToCurrent (newParticle 0 0 0 1), pinToCurrent (newParticle 2 0 0 1)]
     = [pinToCurrent (newParticle 0 0 0 1), pinToCurrent (newParticle 2 0 0 1)] \<and>
   restLength (constraints_m exampleOver ! 0) * effectiveTearThreshold exampleOver 0
       < currentLength exampleOver 0 \<and>
   particles_m (satisfyVisit 0 exampleOver) = particles_m exampleOver \<and>
   \<not> active_c (constraints_m exampleSevered ! 0) \<and>
   satisfyVisit 0 exampleSevered = exampleSevered"
proof -
  let ?c = "newConstraint 0 1 1 1"
  let ?p1 = "[pinToCurrent (newParticle 0 0 0 1), newParticle 2 0 0 1]"
  let ?p2 = "[pinToCurrent (newParticle 0 0 0 1), pinToCurrent (newParticle 2 0 0 1)]"
  note t3 = satisfy_contract [where c = ?c and ps = ?p1 and m = exampleOver and j = 0]
  note t4 = satisfy_contract [where c = ?c and ps = ?p2 and m = exampleSevered and j = 0]
  have len1: "vlength (sub (position (?p1 ! p2 ?c)) (position (?p1 ! p1 ?c))) = 2"
    by (simp add: newConstraint_def newParticle_def pinToCurrent_def vlength_def lengthSq_def
          sub_def vec_def)
  have inv1: "effInv (?p1 ! p1 ?c) + effInv (?p1 ! p2 ?c) = 1"
    by (simp add: newConstraint_def newParticle_def pinToCurrent_def effInv_def)
  from t3 len1 inv1 have pin:
    "satisfy ?c ?p1 ! 0 = pinToCurrent (newParticle 0 0 0 1)"
    "position (satisfy ?c ?p1 ! 1) = vec (7 / 4) 0 0"
    by (simp_all add: Let_def newConstraint_def newParticle_def pinToCurrent_def
          effInv_def sub_def addScaledVector_def vec_def)
  from t4 have pin2: "satisfy ?c ?p2 = ?p2"
    by (simp add: Let_def newConstraint_def newParticle_def pinToCurrent_def effInv_def)
  have over: "restLength (constraints_m exampleOver ! 0) * effectiveTearThreshold exampleOver 0
       < currentLength exampleOver 0"
    by (simp add: exampleOver_obs effectiveTearThreshold_def)
  have ro: "p1_m (constraints_m exampleOver ! 0) < length (particles_m exampleOver) \<and>
      p2_m (constraints_m exampleOver ! 0) < length (particles_m exampleOver)"
    by (simp add: exampleOver_def meshOf_def constraintOf_def)
  have ho: "active_c (constraints_m exampleOver ! 0) \<and>
      active (particles_m exampleOver ! p1_m (constraints_m exampleOver ! 0)) \<and>
      active (particles_m exampleOver ! p2_m (constraints_m exampleOver ! 0)) \<and>
      currentLength exampleOver 0 \<noteq> 0 \<and>
      restLength (constraints_m exampleOver ! 0) * effectiveTearThreshold exampleOver 0
        < currentLength exampleOver 0"
    using over by (simp add: exampleOver_obs)
  from t3 ro ho have torn: "particles_m (satisfyVisit 0 exampleOver) = particles_m exampleOver"
    unfolding Let_def by blast
  have rs: "p1_m (constraints_m exampleSevered ! 0) < length (particles_m exampleSevered) \<and>
      p2_m (constraints_m exampleSevered ! 0) < length (particles_m exampleSevered)"
    by (simp add: exampleSevered_def meshOf_def constraintOf_def)
  have sev: "\<not> active_c (constraints_m exampleSevered ! 0)"
    by (simp add: exampleSevered_def meshOf_def constraintOf_def)
  from t4 rs sev have skip: "satisfyVisit 0 exampleSevered = exampleSevered"
    unfolding Let_def by blast
  have pp: "pinned (pinToCurrent (newParticle 0 0 0 1))"
    by (simp add: pinToCurrent_def)
  note t1 = satisfy_contract [where c = "constraints exampleStretched ! 0"
      and ps = "particles exampleStretched" and m = exampleSlack and j = 0]
  note t2 = satisfy_contract [where c = "constraints exampleTorn ! 0"
      and ps = "particles exampleTorn" and m = exampleSlack and j = 0]
  have len: "vlength (sub (position (particles exampleStretched ! 1))
                (position (particles exampleStretched ! 0))) = 2"
    by (simp add: exampleStretched_parts newParticle_def vlength_def lengthSq_def sub_def vec_def)
  have inv: "effInv (particles exampleStretched ! 0) + effInv (particles exampleStretched ! 1) = 2"
    by (simp add: exampleStretched_parts newParticle_def effInv_def)
  from t1 len inv have
    "position (satisfy (constraints exampleStretched ! 0) (particles exampleStretched) ! 0)
       = vec (1 / 8) 0 0"
    "position (satisfy (constraints exampleStretched ! 0) (particles exampleStretched) ! 1)
       = vec (15 / 8) 0 0"
    by (simp_all add: Let_def exampleStretched_parts newConstraint_def newParticle_def
          effInv_def sub_def addScaledVector_def vec_def)
  moreover from t2 have
    "satisfy (constraints exampleTorn ! 0) (particles exampleTorn) = particles exampleTorn"
    by (simp add: Let_def exampleStretched_parts newConstraint_def)
  moreover from t1 have
    "position_m (particles_m (satisfyVisit 0 exampleSlack) ! 0) = vec (1 / 2) 0 0"
    "position_m (particles_m (satisfyVisit 0 exampleSlack) ! 1) = vec (3 / 2) 0 0"
    by (simp_all add: Let_def exampleSlack_parts constraintOf_def particleAt_def
          sub_def addScaledVector_def vec_def)
  ultimately show ?thesis
    using len inv pin pin2 over torn sev skip pp
    by (simp add: exampleStretched_parts exampleSlack_parts newConstraint_def constraintOf_def)
qed

text \<open>
  The claim as stated gives every constraint of nonzero length with an unpinned
  endpoint its correction.  A broken constraint of cloth.js gets none, and in
  main.js a constraint stretched beyond the tear threshold is deactivated instead
  of corrected.
\<close>

theorem satisfy_counterexample:
  "broken (constraints exampleTorn ! 0) \<and>
   active_c (constraints_m exampleOver ! 0) \<and>
   vlength (sub (position (particles exampleTorn ! 1))
                (position (particles exampleTorn ! 0))) = 2 \<and>
   \<not> pinned (particles exampleTorn ! 0) \<and> \<not> pinned (particles exampleTorn ! 1) \<and>
   effInv (particles exampleTorn ! 0) + effInv (particles exampleTorn ! 1) = 2 \<and>
   restDistance (constraints exampleTorn ! 0) = 1 \<and>
   stiffness (constraints exampleTorn ! 0) = 1 \<and>
   satisfy (constraints exampleTorn ! 0) (particles exampleTorn) = particles exampleTorn \<and>
   currentLength exampleOver 0 = 2 \<and>
   restLength (constraints_m exampleOver ! 0) = 1 / 2 \<and>
   stiffness_m (constraints_m exampleOver ! 0) = 1 \<and>
   \<not> pinned_m (particles_m exampleOver ! 0) \<and> \<not> pinned_m (particles_m exampleOver ! 1) \<and>
   particles_m (satisfyVisit 0 exampleOver) = particles_m exampleOver \<and>
   \<not> active_c (constraints_m (satisfyVisit 0 exampleOver) ! 0)"
  by (simp add: exampleStretched_parts newParticle_def newConstraint_def vlength_def
        lengthSq_def sub_def vec_def effInv_def satisfy_def
        satisfyVisit_def exampleOver_def meshOf_def constraintOf_def particleAt_def
        currentLength_def defaultParams_def Let_def)

subsection \<open>Time step\<close>

lemma satisfyVisit_time: "time (satisfyVisit j s) = time s"
  by (simp add: satisfyVisit_def Let_def)

lemma fold_satisfyVisit_time: "time (fold satisfyVisit js s) = time s"
  by (induction js arbitrary: s) (simp_all add: satisfyVisit_time)

lemma satisfyConstraints_time: "time (satisfyConstraints s) = time s"
  by (simp add: satisfyConstraints_def fold_satisfyVisit_time)

lemma funpow_satisfyConstraints_time: "time ((satisfyConstraints ^^ n) s) = time s"
  by (induction n) (simp_all add: satisfyConstraints_time)

lemma updateWith_time:
  "updateWith rand k dt s = Some r \<Longrightarrow> time (snd r) = time s + dt"
  by (auto simp: updateWith_def Let_def funpow_satisfyConstraints_time attachToPivots_def)

text \<open>
  Claim C6, as the code has it.  \<open>ClothPhysics.update\<close> replaces a \<open>deltaTime\<close> above
  0.02 by 0.02 before anything reads it, so its whole body (the clock, the forces,
  the Verlet step with its \<open>deltaTime * deltaTime\<close> term, the constraint passes)
  runs with 0.02: every larger value behaves as 0.02 does.  A positive value at or
  below 0.02 is used as given.  For a positive \<open>deltaTime\<close> and particles of
  nonzero mass \<open>update\<close> returns a state, and its clock has advanced by the minimum
  of \<open>deltaTime\<close> and 0.02.  \<open>Cloth.step\<close> of cloth.js, once the simulation has
  started, hands its \<open>deltaTime\<close> to \<open>integrate\<close> as it is, where a free particle
  moves by its acceleration times \<open>deltaTime * deltaTime\<close>.
\<close>

theorem update_clamps_deltaTime:
  "(0.02 < dt \<longrightarrow>
      update rand k dt s = updateWith rand k 0.02 s \<and>
      update rand k dt s = update rand k 0.02 s) \<and>
   (0 < dt \<and> dt \<le> 0.02 \<longrightarrow> update rand k dt s = updateWith rand k dt s) \<and>
   (0 < dt \<and> (\<forall>p \<in> set (particles_m s). mass p \<noteq> 0) \<longrightarrow>
      (\<exists>r. update rand k dt s = Some r \<and> time (snd r) = time s + min dt 0.02 \<and>
           min dt 0.02 \<le> 0.02)) \<and>
   (physicsEnabled c \<longrightarrow>
      step c dt = fold stepPass [0..<iterations c]
        (c\<lparr>particles := map (\<lambda>p. integrate (addForce p (gravity c)) dt (damping c))
                            (particles c)\<rparr>)) \<and>
   (\<not> pinned p \<longrightarrow>
      position (integrate p dt d)
        = addScaledVector (add (position p) (multiplyScalar (sub (position p) (previous p)) (1 - d)))
            (acceleration p) (dt * dt))"
proof (intro conjI impI)
  assume "0.02 < dt"
  then show "update rand k dt s = updateWith rand k 0.02 s"
    and "update rand k dt s = update rand k 0.02 s"
    by (simp_all add: update_def)
next
  assume "0 < dt \<and> dt \<le> 0.02"
  then show "update rand k dt s = updateWith rand k dt s"
    by (simp add: update_def)
next
  assume a: "0 < dt \<and> (\<forall>p \<in> set (particles_m s). mass p \<noteq> 0)"
  have u: "update rand k dt s = updateWith rand k (min dt 0.02) s"
    by (simp add: update_def min_def)
  from a have "min dt 0.02 \<noteq> 0" by (simp add: min_def)
  from updateWith_defined [OF this, of s rand k] a
  obtain r where r: "updateWith rand k (min dt 0.02) s = Some r" by blast
  from updateWith_time [OF r] r u
  show "\<exists>r. update rand k dt s = Some r \<and> time (snd r) = time s + min dt 0.02 \<and>
           min dt 0.02 \<le> 0.02"
    by simp
next
  assume "physicsEnabled c"
  then show "step c dt = fold stepPass [0..<iterations c]
        (c\<lparr>particles := map (\<lambda>p. integrate (addForce p (gravity c)) dt (damping c))
                            (particles c)\<rparr>)"
    by (simp add: step_def Let_def comp_def)
next
  assume "\<not> pinned p"
  then show "position (integrate p dt d)
        = addScaledVector (add (position p) (multiplyScalar (sub (position p) (previous p)) (1 - d)))
            (acceleration p) (dt * dt)"
    by (simp add: integrate_def Let_def)
qed

lemma exampleRunning_parts:
  "physicsEnabled exampleRunning" "iterations exampleRunning = 0"
  "gravity exampleRunning = vec 0 (- 10) 0" "damping exampleRunning = 0"
  "particles exampleRunning =
     [pinToCurrent (newParticle (- (1 / 2)) 4 0 1), newParticle (1 / 2) 4 0 1,
      newParticle (- (1 / 2)) 3 0 1, newParticle (1 / 2) 3 0 1]"
  by (simp_all add: exampleRunning_def newCloth_def)

theorem update_clamps_deltaTime_witness:
  "(0.02::real) < 1 \<and>
   update zeroRand 0 1 examplePhysics = update zeroRand 0 0.02 examplePhysics \<and>
   update zeroRand 0 0.01 examplePhysics = updateWith zeroRand 0 0.01 examplePhysics \<and>
   map_option (time \<circ> snd) (update zeroRand 0 1 examplePhysics) = Some 0.02 \<and>
   map_option (time \<circ> snd) (update zeroRand 0 0.01 examplePhysics) = Some 0.01 \<and>
   physicsEnabled exampleRunning \<and>
   step exampleRunning 1
     = exampleRunning\<lparr>particles :=
         map (\<lambda>p. integrate (addForce p (vec 0 (- 10) 0)) 1 0) (particles exampleRunning)\<rparr> \<and>
   \<not> pinned (addForce (particles exampleRunning ! 1) (vec 0 (- 10) 0)) \<and>
   position (integrate (addForce (particles exampleRunning ! 1) (vec 0 (- 10) 0)) 1 0)
     = vec (1 / 2) (- 6) 0"
proof -
  note t1 = update_clamps_deltaTime [where dt = 1 and rand = zeroRand and k = 0
      and s = examplePhysics and c = exampleRunning
      and p = "addForce (particles exampleRunning ! 1) (vec 0 (- 10) 0)" and d = 0]
  note t2 = update_clamps_deltaTime [where dt = "0.01" and rand = zeroRand and k = 0
      and s = examplePhysics]
  have a: "(0.02::real) < 1" and b: "(0::real) < 1" and c: "(0::real) < 0.01 \<and> (0.01::real) \<le> 0.02"
    by simp_all
  from t1 a have u1: "update zeroRand 0 1 examplePhysics = update zeroRand 0 0.02 examplePhysics"
    by blast
  from t2 c have u2: "update zeroRand 0 0.01 examplePhysics = updateWith zeroRand 0 0.01 examplePhysics"
    by blast
  from t1 b examplePhysics_obs(2)
  obtain r where "update zeroRand 0 1 examplePhysics = Some r"
    "time (snd r) = time examplePhysics + min 1 0.02" by blast
  then have d1: "map_option (time \<circ> snd) (update zeroRand 0 1 examplePhysics) = Some 0.02"
    by (simp add: examplePhysics_obs)
  from t2 c examplePhysics_obs(2)
  obtain r' where "update zeroRand 0 0.01 examplePhysics = Some r'"
    "time (snd r') = time examplePhysics + min 0.01 0.02" by blast
  then have d2: "map_option (time \<circ> snd) (update zeroRand 0 0.01 examplePhysics) = Some 0.01"
    by (simp add: examplePhysics_obs)
  from t1 have st: "step exampleRunning 1
     = exampleRunning\<lparr>particles :=
         map (\<lambda>p. integrate (addForce p (vec 0 (- 10) 0)) 1 0) (particles exampleRunning)\<rparr>"
    by (simp add: exampleRunning_parts(1-4))
  have np: "\<not> pinned (addForce (particles exampleRunning ! 1) (vec 0 (- 10) 0))"
    by (simp add: exampleRunning_parts addForce_def newParticle_def)
  with t1 have "position (integrate (addForce (particles exampleRunning ! 1) (vec 0 (- 10) 0)) 1 0)
     = addScaledVector (add (position (addForce (particles exampleRunning ! 1) (vec 0 (- 10) 0)))
          (multiplyScalar (sub (position (addForce (particles exampleRunning ! 1) (vec 0 (- 10) 0)))
             (previous (addForce (particles exampleRunning ! 1) (vec 0 (- 10) 0)))) (1 - 0)))
            (acceleration (addForce (particles exampleRunning ! 1) (vec 0 (- 10) 0))) (1 * 1)"
    by blast
  then have pos: "position (integrate (addForce (particles exampleRunning ! 1) (vec 0 (- 10) 0)) 1 0)
     = vec (1 / 2) (- 6) 0"
    by (simp add: exampleRunning_parts addForce_def newParticle_def addScaledVector_def add_def
          sub_def multiplyScalar_def vec_def)
  from a u1 u2 d1 d2 st np pos exampleRunning_parts(1) show ?thesis by blast
qed

text \<open>
  The claim as stated fails in both files.  \<open>Cloth.step\<close> of cloth.js has no clamp: a
  started cloth with gravity \<open>-10\<close> and a free particle at rest at height 4 is put at
  \<open>4 - 10 * 1 * 1\<close> by a step of one second, where a step of 0.02 puts it at
  \<open>4 - 10 * 0.02 * 0.02\<close>.  And \<open>update\<close> of main.js lets a value that is not positive
  through to the integration: with \<open>-1\<close> the clock runs back by a second, and with
  0 the velocity of a free particle is a division by zero.
\<close>

theorem unclamped_deltaTime_counterexample:
  "physicsEnabled exampleRunning \<and>
   \<not> pinned (particles exampleRunning ! 1) \<and>
   position (particles exampleRunning ! 1) = vec (1 / 2) 4 0 \<and>
   position (particles (step exampleRunning 1) ! 1) = vec (1 / 2) (- 6) 0 \<and>
   position (particles (step exampleRunning 0.02) ! 1) = vec (1 / 2) (999 / 250) 0 \<and>
   time examplePhysics = 0 \<and>
   map_option (time \<circ> snd) (update zeroRand 0 (- 1) examplePhysics) = Some (- 1) \<and>
   \<not> pinned_m (particles_m examplePhysics ! 1) \<and>
   active (particles_m examplePhysics ! 1) \<and>
   update zeroRand 0 0 examplePhysics = None"
proof -
  have cloth: "physicsEnabled exampleRunning \<and>
   \<not> pinned (particles exampleRunning ! 1) \<and>
   position (particles exampleRunning ! 1) = vec (1 / 2) 4 0 \<and>
   position (particles (step exampleRunning 1) ! 1) = vec (1 / 2) (- 6) 0 \<and>
   position (particles (step exampleRunning 0.02) ! 1) = vec (1 / 2) (999 / 250) 0"
    by (simp add: step_def exampleRunning_parts Let_def addForce_def integrate_def newParticle_def
        pinToCurrent_def addScaledVector_def add_def sub_def multiplyScalar_def vec_def)
  have "(- 1::real) \<noteq> 0" by simp
  from updateWith_defined [OF this examplePhysics_obs(2), of zeroRand 0]
  obtain r where r: "updateWith zeroRand 0 (- 1) examplePhysics = Some r" ..
  from updateWith_time [OF r] r
  have neg: "map_option (time \<circ> snd) (update zeroRand 0 (- 1) examplePhysics) = Some (- 1)"
    by (simp add: update_def examplePhysics_obs)
  have "Suc 0 < length (particles_m examplePhysics)" by (simp add: examplePhysics_obs)
  then have "particles_m examplePhysics ! Suc 0 \<in> set (particles_m examplePhysics)"
    by (rule nth_mem)
  with examplePhysics_obs(3,4)
  have "\<exists>p \<in> set (particles_m (attachToPivots examplePhysics)). \<not> pinned_m p \<and> active p"
    unfolding attach_examplePhysics by blast
  then have "updateWith zeroRand 0 0 examplePhysics = None" by (rule updateWith_zero)
  then have zero: "update zeroRand 0 0 examplePhysics = None" by (simp add: update_def)
  from cloth neg zero examplePhysics_obs(1,3,4) show ?thesis by simp
qed

subsection \<open>Cuts and stiffness\<close>

lemma planarDistance_particleAt: "planarDistance (vec 0 0 0) (particleAt a i) = \<bar>a\<bar>"
  by (simp add: planarDistance_def particleAt_def vec_def)

lemma planarDistance_particleAt_upd:
  "planarDistance (vec 0 0 0) ((particleAt a i)\<lparr>cutFactor := f\<rparr>) = \<bar>a\<bar>"
  by (simp add: planarDistance_def particleAt_def vec_def)

lemma exampleCutMesh_parts:
  "particles_m exampleCutMesh = [particleAt 2 0, particleAt 10 (Suc 0)]"
  "constraints_m exampleCutMesh = [constraintOf 8 1]"
  by (simp_all add: exampleCutMesh_def meshOf_def)

lemma cutA_particles:
  "cutOrganicParticles zeroRand k (vec 0 0 0) 2 [particleAt 2 0, particleAt 10 (Suc 0)]
     = (k + 1, [(particleAt 2 0)\<lparr>cutFactor := 1 / 5\<rparr>, particleAt 10 (Suc 0)], {})"
  by (simp add: cutOrganicParticle_def planarDistance_particleAt zeroRand_def Let_def)

lemma cutB_particles:
  "cutOrganicParticles zeroRand k (vec 0 0 0) (3 / 2) [particleAt 2 0, particleAt 10 (Suc 0)]
     = (k + 1, [(particleAt 2 0)\<lparr>cutFactor := 2 / 3\<rparr>, particleAt 10 (Suc 0)], {})"
  by (simp add: cutOrganicParticle_def planarDistance_particleAt zeroRand_def Let_def)

lemma cutB_after_A:
  "cutOrganicParticles zeroRand k (vec 0 0 0) (3 / 2)
       [(particleAt 2 0)\<lparr>cutFactor := 1 / 5\<rparr>, particleAt 10 (Suc 0)]
     = (k + 1, [(particleAt 2 0)\<lparr>cutFactor := 2 / 3\<rparr>, particleAt 10 (Suc 0)], {})"
  by (simp add: cutOrganicParticle_def planarDistance_particleAt planarDistance_particleAt_upd
        zeroRand_def Let_def)

lemma cutA_after_B:
  "cutOrganicParticles zeroRand k (vec 0 0 0) 2
       [(particleAt 2 0)\<lparr>cutFactor := 2 / 3\<rparr>, particleAt 10 (Suc 0)]
     = (k + 1, [(particleAt 2 0)\<lparr>cutFactor := 1 / 5\<rparr>, particleAt 10 (Suc 0)], {})"
  by (simp add: cutOrganicParticle_def planarDistance_particleAt planarDistance_particleAt_upd
        zeroRand_def Let_def)

lemma cutA_mesh:
  "snd (cutOrganic zeroRand k (vec 0 0 0) 2 exampleCutMesh)
     = meshOf [(particleAt 2 0)\<lparr>cutFactor := 1 / 5\<rparr>, particleAt 10 (Suc 0)]
         [(constraintOf 8 1)\<lparr>stiffness_m := 1 / 2\<rparr>]"
  by (simp add: cutOrganic_def exampleCutMesh_def meshOf_def cutA_particles Let_def
        del: cutOrganicParticles.simps)
     (simp add: cutOrganicConstraint_def constraintOf_def particleAt_def)

lemma cutB_mesh:
  "snd (cutOrganic zeroRand k (vec 0 0 0) (3 / 2) exampleCutMesh)
     = meshOf [(particleAt 2 0)\<lparr>cutFactor := 2 / 3\<rparr>, particleAt 10 (Suc 0)]
         [(constraintOf 8 1)\<lparr>stiffness_m := 2 / 3\<rparr>]"
  by (simp add: cutOrganic_def exampleCutMesh_def meshOf_def cutB_particles Let_def
        del: cutOrganicParticles.simps)
     (simp add: cutOrganicConstraint_def constraintOf_def particleAt_def)

lemma cutAB_mesh:
  "snd (cutOrganic zeroRand k' (vec 0 0 0) (3 / 2)
          (snd (cutOrganic zeroRand k (vec 0 0 0) 2 exampleCutMesh)))
     = meshOf [(particleAt 2 0)\<lparr>cutFactor := 2 / 3\<rparr>, particleAt 10 (Suc 0)]
         [(constraintOf 8 1)\<lparr>stiffness_m := 2 / 3\<rparr>]"
  by (simp add: cutA_mesh)
     (simp add: cutOrganic_def meshOf_def cutB_after_A Let_def del: cutOrganicParticles.simps,
      simp add: cutOrganicConstraint_def constraintOf_def particleAt_def)

lemma cutBA_mesh:
  "snd (cutOrganic zeroRand k' (vec 0 0 0) 2
          (snd (cutOrganic zeroRand k (vec 0 0 0) (3 / 2) exampleCutMesh)))
     = meshOf [(particleAt 2 0)\<lparr>cutFactor := 1 / 5\<rparr>, particleAt 10 (Suc 0)]
         [(constraintOf 8 1)\<lparr>stiffness_m := 1 / 2\<rparr>]"
  by (simp add: cutB_mesh)
     (simp add: cutOrganic_def meshOf_def cutA_after_B Let_def del: cutOrganicParticles.simps,
      simp add: cutOrganicConstraint_def constraintOf_def particleAt_def)


lemma cutOrganicConstraint_fixed:
  "baseStiffness (cutOrganicConstraint ps c) = baseStiffness c"
  "p1_m (cutOrganicConstraint ps c) = p1_m c"
  "p2_m (cutOrganicConstraint ps c) = p2_m c"
  by (simp_all add: cutOrganicConstraint_def Let_def)

lemma cutOrganicConstraint_stiffness:
  "active (ps ! p1_m c) \<Longrightarrow> active (ps ! p2_m c) \<Longrightarrow>
   stiffness_m (cutOrganicConstraint ps c)
     = (if cutFactor (ps ! p1_m c) < 1 \<or> cutFactor (ps ! p2_m c) < 1
        then max (0.5 * baseStiffness c)
               (min (cutFactor (ps ! p1_m c)) (cutFactor (ps ! p2_m c)) * baseStiffness c)
        else baseStiffness c) \<and>
   active_c (cutOrganicConstraint ps c) = active_c c"
  by (simp add: cutOrganicConstraint_def Let_def)

lemma cutOrganic_constraint_nth:
  "j < length (constraints_m s) \<Longrightarrow>
   constraints_m (snd (cutOrganic rand k center radius s)) ! j
     = cutOrganicConstraint (particles_m (snd (cutOrganic rand k center radius s)))
         (constraints_m s ! j)"
  by (simp add: cutOrganic_def Let_def)

lemma cutSegmentConstraint_fixed:
  "baseStiffness (cutSegmentConstraint a b r ps c) = baseStiffness c"
  "p1_m (cutSegmentConstraint a b r ps c) = p1_m c"
  "p2_m (cutSegmentConstraint a b r ps c) = p2_m c"
  by (simp_all add: cutSegmentConstraint_def Let_def)

lemma cutSegmentConstraint_active:
  "active_c (cutSegmentConstraint a b r ps c) \<Longrightarrow>
   active_c c \<and> active (ps ! p1_m c) \<and> active (ps ! p2_m c) \<and>
   stiffness_m (cutSegmentConstraint a b r ps c)
     = max (0.5 * baseStiffness c)
         (min (cutFactor (ps ! p1_m c)) (cutFactor (ps ! p2_m c)) * baseStiffness c)"
  by (simp add: cutSegmentConstraint_def Let_def split: if_splits)

lemma cutAlongSegment_constraint_nth:
  "\<not> vlength (sub b a) < 1 / 1000000 \<Longrightarrow> j < length (constraints_m s) \<Longrightarrow>
   constraints_m (cutAlongSegment a b r s) ! j
     = cutSegmentConstraint a b r (particles_m (cutAlongSegment a b r s)) (constraints_m s ! j)"
  by (simp add: cutAlongSegment_def Let_def)

lemma cutAlongSegment_particle_nth:
  "\<not> vlength (sub b a) < 1 / 1000000 \<Longrightarrow> i < length (particles_m s) \<Longrightarrow>
   particles_m (cutAlongSegment a b r s) ! i = cutSegmentParticle a b r (particles_m s ! i)"
  by (simp add: cutAlongSegment_def Let_def)

lemma cutAlongSegment_lengths:
  "length (particles_m (cutAlongSegment a b r s)) = length (particles_m s)"
  "length (constraints_m (cutAlongSegment a b r s)) = length (constraints_m s)"
  by (simp_all add: cutAlongSegment_def Let_def)

lemma cutSegmentParticle_cutFactor_le:
  "cutFactor (cutSegmentParticle a b r p) \<le> cutFactor p"
  by (simp add: cutSegmentParticle_def Let_def)

lemma cutSegmentParticle_commute:
  "active (cutSegmentParticle a' b' r' (cutSegmentParticle a b r p)) \<Longrightarrow>
   cutFactor (cutSegmentParticle a' b' r' (cutSegmentParticle a b r p))
     = cutFactor (cutSegmentParticle a b r (cutSegmentParticle a' b' r' p))"
  by (simp add: cutSegmentParticle_def Let_def min.commute min.left_commute split: if_splits)


lemma segment_cuts_commute:
  assumes nd: "\<not> vlength (sub b a) < 1 / 1000000" "\<not> vlength (sub b' a') < 1 / 1000000"
    and j: "j < length (constraints_m s)"
    and r: "p1_m (constraints_m s ! j) < length (particles_m s)"
      "p2_m (constraints_m s ! j) < length (particles_m s)"
    and act: "active_c (constraints_m (cutAlongSegment a' b' r' (cutAlongSegment a b r s)) ! j)"
      "active_c (constraints_m (cutAlongSegment a b r (cutAlongSegment a' b' r' s)) ! j)"
  shows "stiffness_m (constraints_m (cutAlongSegment a' b' r' (cutAlongSegment a b r s)) ! j)
       = stiffness_m (constraints_m (cutAlongSegment a b r (cutAlongSegment a' b' r' s)) ! j)"
proof -
  let ?c = "constraints_m s ! j"
  have one: "active (cutSegmentParticle a2 b2 r2 (cutSegmentParticle a1 b1 r1 (particles_m s ! p1_m ?c))) \<and>
      active (cutSegmentParticle a2 b2 r2 (cutSegmentParticle a1 b1 r1 (particles_m s ! p2_m ?c))) \<and>
      stiffness_m (constraints_m (cutAlongSegment a2 b2 r2 (cutAlongSegment a1 b1 r1 s)) ! j)
        = max (0.5 * baseStiffness ?c)
            (min (cutFactor (cutSegmentParticle a2 b2 r2 (cutSegmentParticle a1 b1 r1 (particles_m s ! p1_m ?c))))
                 (cutFactor (cutSegmentParticle a2 b2 r2 (cutSegmentParticle a1 b1 r1 (particles_m s ! p2_m ?c))))
               * baseStiffness ?c)"
    if nd1: "\<not> vlength (sub b1 a1) < 1 / 1000000" and nd2: "\<not> vlength (sub b2 a2) < 1 / 1000000"
      and a: "active_c (constraints_m (cutAlongSegment a2 b2 r2 (cutAlongSegment a1 b1 r1 s)) ! j)"
    for a1 b1 r1 a2 b2 r2
  proof -
    let ?s1 = "cutAlongSegment a1 b1 r1 s"
    let ?s2 = "cutAlongSegment a2 b2 r2 ?s1"
    let ?c1 = "constraints_m ?s1 ! j"
    have j1: "j < length (constraints_m ?s1)" using j by (simp add: cutAlongSegment_lengths)
    have c1: "?c1 = cutSegmentConstraint a1 b1 r1 (particles_m ?s1) ?c"
      using nd1 j by (rule cutAlongSegment_constraint_nth)
    have c2: "constraints_m ?s2 ! j = cutSegmentConstraint a2 b2 r2 (particles_m ?s2) ?c1"
      using nd2 j1 by (rule cutAlongSegment_constraint_nth)
    have fixed: "p1_m ?c1 = p1_m ?c" "p2_m ?c1 = p2_m ?c" "baseStiffness ?c1 = baseStiffness ?c"
      by (simp_all add: c1 cutSegmentConstraint_fixed)
    have pn: "particles_m ?s2 ! i = cutSegmentParticle a2 b2 r2 (cutSegmentParticle a1 b1 r1 (particles_m s ! i))"
      if "i < length (particles_m s)" for i
      using that nd1 nd2
      by (simp add: cutAlongSegment_particle_nth cutAlongSegment_lengths)
    from a c2 have "active_c (cutSegmentConstraint a2 b2 r2 (particles_m ?s2) ?c1)" by simp
    from cutSegmentConstraint_active [OF this]
    have "active (particles_m ?s2 ! p1_m ?c1) \<and> active (particles_m ?s2 ! p2_m ?c1) \<and>
      stiffness_m (cutSegmentConstraint a2 b2 r2 (particles_m ?s2) ?c1)
        = max (0.5 * baseStiffness ?c1)
            (min (cutFactor (particles_m ?s2 ! p1_m ?c1)) (cutFactor (particles_m ?s2 ! p2_m ?c1))
               * baseStiffness ?c1)"
      by simp
    then show ?thesis
      unfolding fixed c2 [symmetric] using pn [OF r(1)] pn [OF r(2)] by simp
  qed
  note ab = one [OF nd(1) nd(2) act(1)]
  note ba = one [OF nd(2) nd(1) act(2)]
  from ab have "cutFactor (cutSegmentParticle a' b' r' (cutSegmentParticle a b r (particles_m s ! p1_m ?c)))
      = cutFactor (cutSegmentParticle a b r (cutSegmentParticle a' b' r' (particles_m s ! p1_m ?c)))"
    by (intro cutSegmentParticle_commute) simp
  moreover from ab have "cutFactor (cutSegmentParticle a' b' r' (cutSegmentParticle a b r (particles_m s ! p2_m ?c)))
      = cutFactor (cutSegmentParticle a b r (cutSegmentParticle a' b' r' (particles_m s ! p2_m ?c)))"
    by (intro cutSegmentParticle_commute) simp
  ultimately show ?thesis using ab ba by simp
qed

lemma stiffness_floor_example:
  assumes "0 \<le> (b::real)"
  shows "max (0.5 * b) (min 0.6 0.8 * b) = 0.6 * b"
proof -
  from assms have "0.5 * b \<le> 0.6 * b" by (intro mult_right_mono) simp_all
  moreover have "min (0.6::real) 0.8 = 0.6" by simp
  ultimately show ?thesis by (simp only: max_absorb2)
qed

lemma cutSegmentConstraint_inactive:
  "\<not> active_c (cutSegmentConstraint a b r ps c) \<Longrightarrow>
   stiffness_m (cutSegmentConstraint a b r ps c) = stiffness_m c"
  by (auto simp: cutSegmentConstraint_def Let_def)

text \<open>
  Claim C4, as the code has it.  After \<open>cutOrganic\<close>, a constraint whose two endpoints
  are active has the stiffness \<open>max (0.5 * baseStiffness) (min f1 f2 * baseStiffness)\<close>
  when one of the endpoints' damage factors \<open>f1\<close>, \<open>f2\<close> is below 1, and
  \<open>baseStiffness\<close> otherwise, whether the constraint itself is active or not.  After
  a \<open>cutAlongSegment\<close> a constraint that is still active has active endpoints and
  the stiffness given by the same maximum; a constraint that is inactive after the
  segment cut, because it was inactive before or because the cut has deactivated
  it, has the stiffness it had before the cut.  A segment cut along a degenerate
  segment changes nothing.  \<open>baseStiffness\<close> never changes, and a stiffness that is
  set does not depend on the stiffness before the cut.  Two segment cuts give the
  same stiffness in either order to a constraint that is active after both.
  Endpoints with factors 0.6 and 0.8 give \<open>0.6 * baseStiffness\<close> for a nonnegative
  \<open>baseStiffness\<close>.
\<close>

theorem cut_stiffness_from_base:
  "(j < length (constraints_m s) \<longrightarrow>
     (let s' = snd (cutOrganic rand k center radius s);
          c = constraints_m s ! j; c' = constraints_m s' ! j;
          f1 = cutFactor (particles_m s' ! p1_m c); f2 = cutFactor (particles_m s' ! p2_m c)
      in baseStiffness c' = baseStiffness c \<and>
         (active (particles_m s' ! p1_m c) \<and> active (particles_m s' ! p2_m c) \<longrightarrow>
            stiffness_m c'
              = (if f1 < 1 \<or> f2 < 1
                 then max (0.5 * baseStiffness c) (min f1 f2 * baseStiffness c)
                 else baseStiffness c)))) \<and>
   (j < length (constraints_m s) \<and> \<not> vlength (sub endP start) < 1 / 1000000 \<longrightarrow>
     (let s' = cutAlongSegment start endP radius s;
          c = constraints_m s ! j; c' = constraints_m s' ! j;
          f1 = cutFactor (particles_m s' ! p1_m c); f2 = cutFactor (particles_m s' ! p2_m c)
      in baseStiffness c' = baseStiffness c \<and>
         (active_c c' \<longrightarrow>
            active (particles_m s' ! p1_m c) \<and> active (particles_m s' ! p2_m c) \<and>
            stiffness_m c' = max (0.5 * baseStiffness c) (min f1 f2 * baseStiffness c)) \<and>
         (\<not> active_c c' \<longrightarrow> stiffness_m c' = stiffness_m c))) \<and>
   (vlength (sub endP start) < 1 / 1000000 \<longrightarrow> cutAlongSegment start endP radius s = s) \<and>
   (j < length (constraints_m s) \<and>
    p1_m (constraints_m s ! j) < length (particles_m s) \<and>
    p2_m (constraints_m s ! j) < length (particles_m s) \<and>
    \<not> vlength (sub endP start) < 1 / 1000000 \<and> \<not> vlength (sub endP' start') < 1 / 1000000 \<and>
    active_c (constraints_m (cutAlongSegment start' endP' radius'
                (cutAlongSegment start endP radius s)) ! j) \<and>
    active_c (constraints_m (cutAlongSegment start endP radius
                (cutAlongSegment start' endP' radius' s)) ! j) \<longrightarrow>
      stiffness_m (constraints_m (cutAlongSegment start' endP' radius'
                (cutAlongSegment start endP radius s)) ! j)
        = stiffness_m (constraints_m (cutAlongSegment start endP radius
                (cutAlongSegment start' endP' radius' s)) ! j)) \<and>
   (active (ps ! p1_m c) \<and> active (ps ! p2_m c) \<longrightarrow>
      stiffness_m (cutOrganicConstraint ps (c\<lparr>stiffness_m := x\<rparr>))
        = stiffness_m (cutOrganicConstraint ps c)) \<and>
   (active_c (cutSegmentConstraint start endP radius ps c) \<longrightarrow>
      stiffness_m (cutSegmentConstraint start endP radius ps (c\<lparr>stiffness_m := x\<rparr>))
        = stiffness_m (cutSegmentConstraint start endP radius ps c)) \<and>
   (\<not> active_c (cutSegmentConstraint start endP radius ps c) \<longrightarrow>
      stiffness_m (cutSegmentConstraint start endP radius ps c) = stiffness_m c) \<and>
   (active (ps ! p1_m c) \<and> active (ps ! p2_m c) \<and>
    cutFactor (ps ! p1_m c) = 0.6 \<and> cutFactor (ps ! p2_m c) = 0.8 \<and> 0 \<le> baseStiffness c \<longrightarrow>
      stiffness_m (cutOrganicConstraint ps c) = 0.6 * baseStiffness c)"
proof (intro conjI impI)
  assume j: "j < length (constraints_m s)"
  show "let s' = snd (cutOrganic rand k center radius s);
          c = constraints_m s ! j; c' = constraints_m s' ! j;
          f1 = cutFactor (particles_m s' ! p1_m c); f2 = cutFactor (particles_m s' ! p2_m c)
      in baseStiffness c' = baseStiffness c \<and>
         (active (particles_m s' ! p1_m c) \<and> active (particles_m s' ! p2_m c) \<longrightarrow>
            stiffness_m c'
              = (if f1 < 1 \<or> f2 < 1
                 then max (0.5 * baseStiffness c) (min f1 f2 * baseStiffness c)
                 else baseStiffness c))"
    unfolding Let_def cutOrganic_constraint_nth [OF j]
    using cutOrganicConstraint_stiffness
    by (simp add: cutOrganicConstraint_fixed)
next
  assume a: "j < length (constraints_m s) \<and> \<not> vlength (sub endP start) < 1 / 1000000"
  then have n: "constraints_m (cutAlongSegment start endP radius s) ! j
     = cutSegmentConstraint start endP radius (particles_m (cutAlongSegment start endP radius s))
         (constraints_m s ! j)"
    by (intro cutAlongSegment_constraint_nth) simp_all
  show "let s' = cutAlongSegment start endP radius s;
          c = constraints_m s ! j; c' = constraints_m s' ! j;
          f1 = cutFactor (particles_m s' ! p1_m c); f2 = cutFactor (particles_m s' ! p2_m c)
      in baseStiffness c' = baseStiffness c \<and>
         (active_c c' \<longrightarrow>
            active (particles_m s' ! p1_m c) \<and> active (particles_m s' ! p2_m c) \<and>
            stiffness_m c' = max (0.5 * baseStiffness c) (min f1 f2 * baseStiffness c)) \<and>
         (\<not> active_c c' \<longrightarrow> stiffness_m c' = stiffness_m c)"
    unfolding Let_def n
    using cutSegmentConstraint_active cutSegmentConstraint_inactive
    by (simp add: cutSegmentConstraint_fixed)
next
  assume "vlength (sub endP start) < 1 / 1000000"
  then show "cutAlongSegment start endP radius s = s"
    by (simp add: cutAlongSegment_def Let_def)
next
  assume "j < length (constraints_m s) \<and>
    p1_m (constraints_m s ! j) < length (particles_m s) \<and>
    p2_m (constraints_m s ! j) < length (particles_m s) \<and>
    \<not> vlength (sub endP start) < 1 / 1000000 \<and> \<not> vlength (sub endP' start') < 1 / 1000000 \<and>
    active_c (constraints_m (cutAlongSegment start' endP' radius'
                (cutAlongSegment start endP radius s)) ! j) \<and>
    active_c (constraints_m (cutAlongSegment start endP radius
                (cutAlongSegment start' endP' radius' s)) ! j)"
  then show "stiffness_m (constraints_m (cutAlongSegment start' endP' radius'
                (cutAlongSegment start endP radius s)) ! j)
        = stiffness_m (constraints_m (cutAlongSegment start endP radius
                (cutAlongSegment start' endP' radius' s)) ! j)"
    by (intro segment_cuts_commute) simp_all
next
  assume "active (ps ! p1_m c) \<and> active (ps ! p2_m c)"
  then show "stiffness_m (cutOrganicConstraint ps (c\<lparr>stiffness_m := x\<rparr>))
        = stiffness_m (cutOrganicConstraint ps c)"
    by (simp add: cutOrganicConstraint_def Let_def)
next
  assume "active_c (cutSegmentConstraint start endP radius ps c)"
  then show "stiffness_m (cutSegmentConstraint start endP radius ps (c\<lparr>stiffness_m := x\<rparr>))
        = stiffness_m (cutSegmentConstraint start endP radius ps c)"
    by (simp add: cutSegmentConstraint_def Let_def split: if_splits)
next
  assume "\<not> active_c (cutSegmentConstraint start endP radius ps c)"
  then show "stiffness_m (cutSegmentConstraint start endP radius ps c) = stiffness_m c"
    by (rule cutSegmentConstraint_inactive)
next
  assume "active (ps ! p1_m c) \<and> active (ps ! p2_m c) \<and>
    cutFactor (ps ! p1_m c) = 0.6 \<and> cutFactor (ps ! p2_m c) = 0.8 \<and> 0 \<le> baseStiffness c"
  then have a1: "active (ps ! p1_m c)" and a2: "active (ps ! p2_m c)"
    and f1: "cutFactor (ps ! p1_m c) = 0.6" and f2: "cutFactor (ps ! p2_m c) = 0.8"
    and b: "0 \<le> baseStiffness c"
    by blast+
  have lt: "(0.6::real) < 1 \<or> (0.8::real) < 1" by simp
  from cutOrganicConstraint_stiffness [OF a1 a2]
  have "stiffness_m (cutOrganicConstraint ps c)
      = (if cutFactor (ps ! p1_m c) < 1 \<or> cutFactor (ps ! p2_m c) < 1
        then max (0.5 * baseStiffness c)
               (min (cutFactor (ps ! p1_m c)) (cutFactor (ps ! p2_m c)) * baseStiffness c)
        else baseStiffness c)"
    by blast
  then have "stiffness_m (cutOrganicConstraint ps c)
      = max (0.5 * baseStiffness c) (min 0.6 0.8 * baseStiffness c)"
    unfolding f1 f2 using lt by (simp only: if_True)
  with stiffness_floor_example [OF b]
  show "stiffness_m (cutOrganicConstraint ps c) = 0.6 * baseStiffness c"
    by (simp only:)
qed

lemma distPointToSeg_axis:
  "distPointToSeg (vec 0 (- 1) 0) (vec 0 1 0) (vec a 0 0) = \<bar>a\<bar>"
  by (simp add: distPointToSeg_def Let_def sub_def lengthSq_def dot_def clamp_def
        addScaledVector_def distanceTo_def vec_def)

lemma exampleSegment_length: "vlength (sub (vec 0 1 0) (vec 0 (- 1) 0)) = 2"
  by (simp add: vlength_def lengthSq_def sub_def vec_def)

lemma cutAlongSegment_maps:
  "\<not> vlength (sub b a) < 1 / 1000000 \<Longrightarrow>
   particles_m (cutAlongSegment a b r s) = map (cutSegmentParticle a b r) (particles_m s) \<and>
   constraints_m (cutAlongSegment a b r s)
     = map (cutSegmentConstraint a b r (map (cutSegmentParticle a b r) (particles_m s)))
         (constraints_m s)"
  by (simp add: cutAlongSegment_def Let_def)

lemma particleAt_fields:
  "position_m (particleAt a i) = vec a 0 0" "active (particleAt a i)"
  "cutFactor (particleAt a i) = 1"
  by (simp_all add: particleAt_def)

lemma segCut_particle_near1:
  "cutSegmentParticle (vec 0 (- 1) 0) (vec 0 1 0) (3 / 2) (particleAt 2 i)
     = (particleAt 2 i)\<lparr>cutFactor := 11 / 15\<rparr>"
  by (simp add: cutSegmentParticle_def Let_def particleAt_def distPointToSeg_axis)

lemma segCut_particle_far:
  "cutSegmentParticle (vec 0 (- 1) 0) (vec 0 1 0) (3 / 2) (particleAt 10 i) = particleAt 10 i"
  by (simp add: cutSegmentParticle_def Let_def particleAt_def distPointToSeg_axis)

lemma edge_clamp:
  "clamp (dot (sub (vec 0 (- 1) 0) (vec 2 0 0)) (sub (vec 10 0 0) (vec 2 0 0))
            / max (1 / 1000000) (lengthSq (sub (vec 10 0 0) (vec 2 0 0)))) 0 1 = 0"
  "clamp (dot (sub (vec 0 1 0) (vec 2 0 0)) (sub (vec 10 0 0) (vec 2 0 0))
            / max (1 / 1000000) (lengthSq (sub (vec 10 0 0) (vec 2 0 0)))) 0 1 = 0"
  by (simp_all add: clamp_def dot_def sub_def lengthSq_def vec_def)

lemma segCut_constraint:
  "cutSegmentConstraint (vec 0 (- 1) 0) (vec 0 1 0) r
     [(particleAt 2 0)\<lparr>cutFactor := f\<rparr>, particleAt 10 (Suc 0)] ((constraintOf 8 1)\<lparr>stiffness_m := x\<rparr>)
   = (if 2 \<le> r then (constraintOf 8 1)\<lparr>stiffness_m := x, active_c := False\<rparr>
      else (constraintOf 8 1)\<lparr>stiffness_m := max (1 / 2) (min f 1)\<rparr>)"
  by (simp add: cutSegmentConstraint_def Let_def constraintOf_def particleAt_fields edge_clamp
        addScaledVector_zero distPointToSeg_axis)

lemma meshOf_parts:
  "particles_m (meshOf ps cs) = ps" "constraints_m (meshOf ps cs) = cs"
  by (simp_all add: meshOf_def)

lemma exampleSegment_ok: "\<not> vlength (sub (vec 0 1 0) (vec 0 (- 1) 0)) < 1 / 1000000"
  by (simp add: exampleSegment_length)

lemma segSevered:
  "particles_m (cutAlongSegment (vec 0 (- 1) 0) (vec 0 1 0) (3 / 2) exampleSevered)
     = [(particleAt 2 0)\<lparr>cutFactor := 11 / 15\<rparr>, particleAt 10 (Suc 0)]"
  "constraints_m (cutAlongSegment (vec 0 (- 1) 0) (vec 0 1 0) (3 / 2) exampleSevered)
     = [(constraintOf 8 1)\<lparr>active_c := False\<rparr>]"
  by (simp_all add: cutAlongSegment_maps [OF exampleSegment_ok] exampleSevered_def meshOf_parts
        segCut_particle_near1 segCut_particle_far cutSegmentConstraint_def constraintOf_def)

lemma particleAt_one: "(particleAt a i)\<lparr>cutFactor := 1\<rparr> = particleAt a i"
  by (simp add: particleAt_def)

lemma distPointToSeg_along:
  "distPointToSeg (vec 2 1 0) (vec 10 1 0) (vec 2 0 0) = 1"
  "distPointToSeg (vec 2 1 0) (vec 10 1 0) (vec 10 0 0) = 1"
  by (simp_all add: distPointToSeg_def Let_def sub_def lengthSq_def dot_def clamp_def
        addScaledVector_def distanceTo_def vec_def)

lemma distPointToSeg_cross:
  "distPointToSeg (vec 6 (- 1) 0) (vec 6 1 0) (vec a 0 0) = \<bar>a - 6\<bar>"
  by (simp add: distPointToSeg_def Let_def sub_def lengthSq_def dot_def clamp_def
        addScaledVector_def distanceTo_def vec_def abs_minus_commute)

lemma exampleSegments_ok:
  "\<not> vlength (sub (vec 10 1 0) (vec 2 1 0)) < 1 / 1000000"
  "\<not> vlength (sub (vec 6 1 0) (vec 6 (- 1) 0)) < 1 / 1000000"
proof -
  have "1 \<le> sqrt 64" "1 \<le> sqrt 4" by (simp_all add: real_sqrt_ge_one)
  then show "\<not> vlength (sub (vec 10 1 0) (vec 2 1 0)) < 1 / 1000000"
    "\<not> vlength (sub (vec 6 1 0) (vec 6 (- 1) 0)) < 1 / 1000000"
    by (simp_all add: vlength_def lengthSq_def sub_def vec_def)
qed

lemma cutAcross_particles:
  "cutSegmentParticle (vec 0 (- 1) 0) (vec 0 1 0) (5 / 3) ((particleAt 2 i)\<lparr>cutFactor := f\<rparr>)
     = (particleAt 2 i)\<lparr>cutFactor := min f (3 / 5)\<rparr>"
  "cutSegmentParticle (vec 0 (- 1) 0) (vec 0 1 0) (5 / 3) ((particleAt 10 i)\<lparr>cutFactor := g\<rparr>)
     = (particleAt 10 i)\<lparr>cutFactor := g\<rparr>"
  by (simp_all add: cutSegmentParticle_def Let_def particleAt_def distPointToSeg_axis)

lemma cutAlong_particles:
  "cutSegmentParticle (vec 2 1 0) (vec 10 1 0) (5 / 7) ((particleAt 2 i)\<lparr>cutFactor := f\<rparr>)
     = (particleAt 2 i)\<lparr>cutFactor := min f (4 / 5)\<rparr>"
  "cutSegmentParticle (vec 2 1 0) (vec 10 1 0) (5 / 7) ((particleAt 10 i)\<lparr>cutFactor := g\<rparr>)
     = (particleAt 10 i)\<lparr>cutFactor := min g (4 / 5)\<rparr>"
  by (simp_all add: cutSegmentParticle_def Let_def particleAt_def distPointToSeg_along)

lemma cutCross_particles:
  "cutSegmentParticle (vec 6 (- 1) 0) (vec 6 1 0) 3 ((particleAt 2 i)\<lparr>cutFactor := f\<rparr>)
     = (particleAt 2 i)\<lparr>cutFactor := min f (11 / 15)\<rparr>"
  "cutSegmentParticle (vec 6 (- 1) 0) (vec 6 1 0) 3 ((particleAt 10 i)\<lparr>cutFactor := g\<rparr>)
     = (particleAt 10 i)\<lparr>cutFactor := min g (11 / 15)\<rparr>"
  by (simp_all add: cutSegmentParticle_def Let_def particleAt_def distPointToSeg_cross)

lemma particleAt_upd_fields:
  "position_m ((particleAt a i)\<lparr>cutFactor := f\<rparr>) = vec a 0 0"
  "active ((particleAt a i)\<lparr>cutFactor := f\<rparr>)"
  "cutFactor ((particleAt a i)\<lparr>cutFactor := f\<rparr>) = f"
  by (simp_all add: particleAt_def)

lemma edge_clamp_along:
  "clamp (dot (sub (vec 2 1 0) (vec 2 0 0)) (sub (vec 10 0 0) (vec 2 0 0))
            / max (1 / 1000000) (lengthSq (sub (vec 10 0 0) (vec 2 0 0)))) 0 1 = 0"
  "clamp (dot (sub (vec 10 1 0) (vec 2 0 0)) (sub (vec 10 0 0) (vec 2 0 0))
            / max (1 / 1000000) (lengthSq (sub (vec 10 0 0) (vec 2 0 0)))) 0 1 = 1"
  "clamp (dot (sub (vec 6 (- 1) 0) (vec 2 0 0)) (sub (vec 10 0 0) (vec 2 0 0))
            / max (1 / 1000000) (lengthSq (sub (vec 10 0 0) (vec 2 0 0)))) 0 1 = 1 / 2"
  "clamp (dot (sub (vec 6 1 0) (vec 2 0 0)) (sub (vec 10 0 0) (vec 2 0 0))
            / max (1 / 1000000) (lengthSq (sub (vec 10 0 0) (vec 2 0 0)))) 0 1 = 1 / 2"
  by (simp_all add: clamp_def dot_def sub_def lengthSq_def vec_def)

lemma edge_points:
  "addScaledVector (vec 2 0 0) (sub (vec 10 0 0) (vec 2 0 0)) 1 = vec 10 0 0"
  "addScaledVector (vec 2 0 0) (sub (vec 10 0 0) (vec 2 0 0)) (1 / 2) = vec 6 0 0"
  by (simp_all add: addScaledVector_def sub_def vec_def)

lemma cutAcross_constraint:
  "cutSegmentConstraint (vec 0 (- 1) 0) (vec 0 1 0) (5 / 3)
     [(particleAt 2 0)\<lparr>cutFactor := f\<rparr>, (particleAt 10 (Suc 0))\<lparr>cutFactor := g\<rparr>]
     ((constraintOf 8 1)\<lparr>stiffness_m := x\<rparr>)
   = (constraintOf 8 1)\<lparr>stiffness_m := max (1 / 2) (min f g)\<rparr>"
  by (simp add: cutSegmentConstraint_def Let_def constraintOf_def particleAt_upd_fields edge_clamp
        addScaledVector_zero distPointToSeg_axis)

lemma cutAlong_constraint:
  "cutSegmentConstraint (vec 2 1 0) (vec 10 1 0) (5 / 7)
     [(particleAt 2 0)\<lparr>cutFactor := f\<rparr>, (particleAt 10 (Suc 0))\<lparr>cutFactor := g\<rparr>]
     ((constraintOf 8 1)\<lparr>stiffness_m := x\<rparr>)
   = (constraintOf 8 1)\<lparr>stiffness_m := max (1 / 2) (min f g)\<rparr>"
  by (simp add: cutSegmentConstraint_def Let_def constraintOf_def particleAt_upd_fields
        edge_clamp_along edge_points addScaledVector_zero distPointToSeg_along)

lemma cutCross_constraint:
  "cutSegmentConstraint (vec 6 (- 1) 0) (vec 6 1 0) 3
     [(particleAt 2 0)\<lparr>cutFactor := f\<rparr>, (particleAt 10 (Suc 0))\<lparr>cutFactor := g\<rparr>]
     ((constraintOf 8 1)\<lparr>stiffness_m := x\<rparr>)
   = (constraintOf 8 1)\<lparr>stiffness_m := x, active_c := False\<rparr>"
  by (simp add: cutSegmentConstraint_def Let_def constraintOf_def particleAt_upd_fields
        edge_clamp_along edge_points distPointToSeg_cross)

lemma cutAcross_mesh:
  assumes "particles_m s = [(particleAt 2 0)\<lparr>cutFactor := f\<rparr>, (particleAt 10 (Suc 0))\<lparr>cutFactor := g\<rparr>]"
    "constraints_m s = [(constraintOf 8 1)\<lparr>stiffness_m := x\<rparr>]"
  shows "particles_m (cutAlongSegment (vec 0 (- 1) 0) (vec 0 1 0) (5 / 3) s)
      = [(particleAt 2 0)\<lparr>cutFactor := min f (3 / 5)\<rparr>, (particleAt 10 (Suc 0))\<lparr>cutFactor := g\<rparr>]"
    "constraints_m (cutAlongSegment (vec 0 (- 1) 0) (vec 0 1 0) (5 / 3) s)
      = [(constraintOf 8 1)\<lparr>stiffness_m := max (1 / 2) (min (min f (3 / 5)) g)\<rparr>]"
  by (simp_all add: cutAlongSegment_maps [OF exampleSegment_ok] assms cutAcross_particles
        cutAcross_constraint)

lemma cutAlong_mesh:
  assumes "particles_m s = [(particleAt 2 0)\<lparr>cutFactor := f\<rparr>, (particleAt 10 (Suc 0))\<lparr>cutFactor := g\<rparr>]"
    "constraints_m s = [(constraintOf 8 1)\<lparr>stiffness_m := x\<rparr>]"
  shows "particles_m (cutAlongSegment (vec 2 1 0) (vec 10 1 0) (5 / 7) s)
      = [(particleAt 2 0)\<lparr>cutFactor := min f (4 / 5)\<rparr>,
         (particleAt 10 (Suc 0))\<lparr>cutFactor := min g (4 / 5)\<rparr>]"
    "constraints_m (cutAlongSegment (vec 2 1 0) (vec 10 1 0) (5 / 7) s)
      = [(constraintOf 8 1)\<lparr>stiffness_m := max (1 / 2) (min (min f (4 / 5)) (min g (4 / 5)))\<rparr>]"
  by (simp_all add: cutAlongSegment_maps [OF exampleSegments_ok(1)] assms cutAlong_particles
        cutAlong_constraint)

lemma cutCross_mesh:
  assumes "particles_m s = [(particleAt 2 0)\<lparr>cutFactor := f\<rparr>, (particleAt 10 (Suc 0))\<lparr>cutFactor := g\<rparr>]"
    "constraints_m s = [(constraintOf 8 1)\<lparr>stiffness_m := x\<rparr>]"
  shows "particles_m (cutAlongSegment (vec 6 (- 1) 0) (vec 6 1 0) 3 s)
      = [(particleAt 2 0)\<lparr>cutFactor := min f (11 / 15)\<rparr>,
         (particleAt 10 (Suc 0))\<lparr>cutFactor := min g (11 / 15)\<rparr>]"
    "constraints_m (cutAlongSegment (vec 6 (- 1) 0) (vec 6 1 0) 3 s)
      = [(constraintOf 8 1)\<lparr>stiffness_m := x, active_c := False\<rparr>]"
  by (simp_all add: cutAlongSegment_maps [OF exampleSegments_ok(2)] assms cutCross_particles
        cutCross_constraint)

lemma exampleCutMesh_form:
  "particles_m exampleCutMesh
     = [(particleAt 2 0)\<lparr>cutFactor := 1\<rparr>, (particleAt 10 (Suc 0))\<lparr>cutFactor := 1\<rparr>]"
  "constraints_m exampleCutMesh = [(constraintOf 8 1)\<lparr>stiffness_m := 1\<rparr>]"
  by (simp_all add: exampleCutMesh_parts particleAt_one constraintOf_def)

lemma cutA_severed:
  "snd (cutOrganic zeroRand k (vec 0 0 0) 2 exampleSevered)
     = meshOf [(particleAt 2 0)\<lparr>cutFactor := 1 / 5\<rparr>, particleAt 10 (Suc 0)]
         [(constraintOf 8 1)\<lparr>active_c := False, stiffness_m := 1 / 2\<rparr>]"
  by (simp add: cutOrganic_def exampleSevered_def meshOf_def cutA_particles Let_def
        del: cutOrganicParticles.simps)
     (simp add: cutOrganicConstraint_def constraintOf_def particleAt_def)

lemma cutAcross_example:
  "particles_m (cutAlongSegment (vec 0 (- 1) 0) (vec 0 1 0) (5 / 3) exampleCutMesh)
     = [(particleAt 2 0)\<lparr>cutFactor := 3 / 5\<rparr>, (particleAt 10 (Suc 0))\<lparr>cutFactor := 1\<rparr>]"
  "constraints_m (cutAlongSegment (vec 0 (- 1) 0) (vec 0 1 0) (5 / 3) exampleCutMesh)
     = [(constraintOf 8 1)\<lparr>stiffness_m := 3 / 5\<rparr>]"
  by (simp_all add: cutAcross_mesh [OF exampleCutMesh_form])

lemma cutAlong_example:
  "particles_m (cutAlongSegment (vec 2 1 0) (vec 10 1 0) (5 / 7) exampleCutMesh)
     = [(particleAt 2 0)\<lparr>cutFactor := 4 / 5\<rparr>, (particleAt 10 (Suc 0))\<lparr>cutFactor := 4 / 5\<rparr>]"
  "constraints_m (cutAlongSegment (vec 2 1 0) (vec 10 1 0) (5 / 7) exampleCutMesh)
     = [(constraintOf 8 1)\<lparr>stiffness_m := 4 / 5\<rparr>]"
  by (simp_all add: cutAlong_mesh [OF exampleCutMesh_form])

lemma cutAcrossAlong_example:
  "particles_m (cutAlongSegment (vec 2 1 0) (vec 10 1 0) (5 / 7)
      (cutAlongSegment (vec 0 (- 1) 0) (vec 0 1 0) (5 / 3) exampleCutMesh))
     = [(particleAt 2 0)\<lparr>cutFactor := 3 / 5\<rparr>, (particleAt 10 (Suc 0))\<lparr>cutFactor := 4 / 5\<rparr>]"
  "constraints_m (cutAlongSegment (vec 2 1 0) (vec 10 1 0) (5 / 7)
      (cutAlongSegment (vec 0 (- 1) 0) (vec 0 1 0) (5 / 3) exampleCutMesh))
     = [(constraintOf 8 1)\<lparr>stiffness_m := 3 / 5\<rparr>]"
  by (simp_all add: cutAlong_mesh [OF cutAcross_example])

lemma cutAlongAcross_example:
  "particles_m (cutAlongSegment (vec 0 (- 1) 0) (vec 0 1 0) (5 / 3)
      (cutAlongSegment (vec 2 1 0) (vec 10 1 0) (5 / 7) exampleCutMesh))
     = [(particleAt 2 0)\<lparr>cutFactor := 3 / 5\<rparr>, (particleAt 10 (Suc 0))\<lparr>cutFactor := 4 / 5\<rparr>]"
  "constraints_m (cutAlongSegment (vec 0 (- 1) 0) (vec 0 1 0) (5 / 3)
      (cutAlongSegment (vec 2 1 0) (vec 10 1 0) (5 / 7) exampleCutMesh))
     = [(constraintOf 8 1)\<lparr>stiffness_m := 3 / 5\<rparr>]"
  by (simp_all add: cutAcross_mesh [OF cutAlong_example])

lemma cutAlongCross_example:
  "particles_m (cutAlongSegment (vec 6 (- 1) 0) (vec 6 1 0) 3
      (cutAlongSegment (vec 2 1 0) (vec 10 1 0) (5 / 7) exampleCutMesh))
     = [(particleAt 2 0)\<lparr>cutFactor := 11 / 15\<rparr>, (particleAt 10 (Suc 0))\<lparr>cutFactor := 11 / 15\<rparr>]"
  "constraints_m (cutAlongSegment (vec 6 (- 1) 0) (vec 6 1 0) 3
      (cutAlongSegment (vec 2 1 0) (vec 10 1 0) (5 / 7) exampleCutMesh))
     = [(constraintOf 8 1)\<lparr>stiffness_m := 4 / 5, active_c := False\<rparr>]"
  by (simp_all add: cutCross_mesh [OF cutAlong_example])

lemma exampleSevered_parts:
  "particles_m exampleSevered = [particleAt 2 0, particleAt 10 (Suc 0)]"
  "constraints_m exampleSevered = [(constraintOf 8 1)\<lparr>active_c := False\<rparr>]"
  by (simp_all add: exampleSevered_def meshOf_def)

text \<open>
  The claim as stated fails in three places.  \<open>cutAlongSegment\<close> skips a constraint
  that is already inactive: its endpoints stay active, one of them with the damage
  factor 11/15, and its stiffness stays at 1.  It also leaves the stiffness of a
  constraint that it deactivates for lying under the cut: after a first cut along
  the constraint (stiffness 4/5) a second cut across its middle leaves both
  endpoints active with the factor 11/15 and the stiffness at 4/5.  And two
  overlapping point cuts around the origin, of radius 2 and of radius 3/2, leave
  the constraint with stiffness 2/3 in one order and 1/2 in the other; this
  dependence on the order comes from the assignment to \<open>cutFactor\<close> that claim C5
  is about.
\<close>

theorem cut_stiffness_counterexample:
  "active (particles_m (cutAlongSegment (vec 0 (- 1) 0) (vec 0 1 0) (3 / 2) exampleSevered) ! 0) \<and>
   active (particles_m (cutAlongSegment (vec 0 (- 1) 0) (vec 0 1 0) (3 / 2) exampleSevered) ! 1) \<and>
   cutFactor (particles_m (cutAlongSegment (vec 0 (- 1) 0) (vec 0 1 0) (3 / 2) exampleSevered) ! 0)
     = 11 / 15 \<and>
   cutFactor (particles_m (cutAlongSegment (vec 0 (- 1) 0) (vec 0 1 0) (3 / 2) exampleSevered) ! 1)
     = 1 \<and>
   baseStiffness (constraints_m (cutAlongSegment (vec 0 (- 1) 0) (vec 0 1 0) (3 / 2) exampleSevered) ! 0)
     = 1 \<and>
   stiffness_m (constraints_m (cutAlongSegment (vec 0 (- 1) 0) (vec 0 1 0) (3 / 2) exampleSevered) ! 0)
     = 1 \<and>
   active (particles_m (cutAlongSegment (vec 6 (- 1) 0) (vec 6 1 0) 3
      (cutAlongSegment (vec 2 1 0) (vec 10 1 0) (5 / 7) exampleCutMesh)) ! 0) \<and>
   active (particles_m (cutAlongSegment (vec 6 (- 1) 0) (vec 6 1 0) 3
      (cutAlongSegment (vec 2 1 0) (vec 10 1 0) (5 / 7) exampleCutMesh)) ! 1) \<and>
   cutFactor (particles_m (cutAlongSegment (vec 6 (- 1) 0) (vec 6 1 0) 3
      (cutAlongSegment (vec 2 1 0) (vec 10 1 0) (5 / 7) exampleCutMesh)) ! 0) = 11 / 15 \<and>
   cutFactor (particles_m (cutAlongSegment (vec 6 (- 1) 0) (vec 6 1 0) 3
      (cutAlongSegment (vec 2 1 0) (vec 10 1 0) (5 / 7) exampleCutMesh)) ! 1) = 11 / 15 \<and>
   baseStiffness (constraints_m (cutAlongSegment (vec 6 (- 1) 0) (vec 6 1 0) 3
      (cutAlongSegment (vec 2 1 0) (vec 10 1 0) (5 / 7) exampleCutMesh)) ! 0) = 1 \<and>
   stiffness_m (constraints_m (cutAlongSegment (vec 6 (- 1) 0) (vec 6 1 0) 3
      (cutAlongSegment (vec 2 1 0) (vec 10 1 0) (5 / 7) exampleCutMesh)) ! 0) = 4 / 5 \<and>
   stiffness_m (constraints_m (snd (cutOrganic zeroRand 17 (vec 0 0 0) (3 / 2)
       (snd (cutOrganic zeroRand 0 (vec 0 0 0) 2 exampleCutMesh)))) ! 0) = 2 / 3 \<and>
   stiffness_m (constraints_m (snd (cutOrganic zeroRand 17 (vec 0 0 0) 2
       (snd (cutOrganic zeroRand 0 (vec 0 0 0) (3 / 2) exampleCutMesh)))) ! 0) = 1 / 2"
  by (simp add: segSevered cutAB_mesh cutBA_mesh meshOf_parts particleAt_fields constraintOf_def
        cutAlongCross_example particleAt_upd_fields)

text \<open>
  Claim C5 at a concrete input.  A particle at distance 2 from the centre: a point
  cut of radius 2 sets its damage factor to 1/5; a second, overlapping point cut of
  radius 3/2 around the same centre sets it to 2/3.  The second cut has raised the
  factor, where the segment cut takes the minimum with the factor it finds
  (\<open>cutSegmentParticle_cutFactor_le\<close>).
\<close>

theorem cutOrganic_raises_cutFactor:
  "active (particles_m exampleCutMesh ! 0) \<and>
   position_m (particles_m exampleCutMesh ! 0) = vec 2 0 0 \<and>
   cutFactor (particles_m exampleCutMesh ! 0) = 1 \<and>
   cutFactor (particles_m (snd (cutOrganic zeroRand 0 (vec 0 0 0) 2 exampleCutMesh)) ! 0) = 1 / 5 \<and>
   cutFactor (particles_m (snd (cutOrganic zeroRand 17 (vec 0 0 0) (3 / 2)
       (snd (cutOrganic zeroRand 0 (vec 0 0 0) 2 exampleCutMesh)))) ! 0) = 2 / 3 \<and>
   fst (cutOrganic zeroRand 0 (vec 0 0 0) 2 exampleCutMesh) = 17"
proof -
  have "cutFactor (particles_m (snd (cutOrganic zeroRand 17 (vec 0 0 0) (3 / 2)
       (snd (cutOrganic zeroRand 0 (vec 0 0 0) 2 exampleCutMesh)))) ! 0) = 2 / 3"
    by (simp only: cutAB_mesh) (simp add: meshOf_parts)
  moreover have "fst (cutOrganic zeroRand 0 (vec 0 0 0) 2 exampleCutMesh) = 17"
    by (simp add: cutOrganic_def exampleCutMesh_parts cutA_particles Let_def
          del: cutOrganicParticles.simps)
  ultimately show ?thesis
    by (simp add: cutA_mesh meshOf_parts exampleCutMesh_parts particleAt_fields)
qed

theorem cut_stiffness_from_base_witness:
  "stiffness_m (constraints_m (snd (cutOrganic zeroRand 0 (vec 0 0 0) 2 exampleCutMesh)) ! 0)
     = 1 / 2 \<and>
   \<not> active_c (constraints_m exampleSevered ! 0) \<and>
   stiffness_m (constraints_m exampleSevered ! 0) = 1 \<and>
   stiffness_m (constraints_m (snd (cutOrganic zeroRand 0 (vec 0 0 0) 2 exampleSevered)) ! 0)
     = 1 / 2 \<and>
   active_c (constraints_m (cutAlongSegment (vec 0 (- 1) 0) (vec 0 1 0) (5 / 3) exampleCutMesh) ! 0) \<and>
   stiffness_m (constraints_m (cutAlongSegment (vec 0 (- 1) 0) (vec 0 1 0) (5 / 3) exampleCutMesh) ! 0)
     = 3 / 5 \<and>
   active_c (constraints_m (cutAlongSegment (vec 2 1 0) (vec 10 1 0) (5 / 7) exampleCutMesh) ! 0) \<and>
   stiffness_m (constraints_m (cutAlongSegment (vec 2 1 0) (vec 10 1 0) (5 / 7) exampleCutMesh) ! 0)
     = 4 / 5 \<and>
   active_c (constraints_m (cutAlongSegment (vec 2 1 0) (vec 10 1 0) (5 / 7)
      (cutAlongSegment (vec 0 (- 1) 0) (vec 0 1 0) (5 / 3) exampleCutMesh)) ! 0) \<and>
   active_c (constraints_m (cutAlongSegment (vec 0 (- 1) 0) (vec 0 1 0) (5 / 3)
      (cutAlongSegment (vec 2 1 0) (vec 10 1 0) (5 / 7) exampleCutMesh)) ! 0) \<and>
   cutFactor (particles_m (cutAlongSegment (vec 2 1 0) (vec 10 1 0) (5 / 7)
      (cutAlongSegment (vec 0 (- 1) 0) (vec 0 1 0) (5 / 3) exampleCutMesh)) ! 0) = 3 / 5 \<and>
   cutFactor (particles_m (cutAlongSegment (vec 2 1 0) (vec 10 1 0) (5 / 7)
      (cutAlongSegment (vec 0 (- 1) 0) (vec 0 1 0) (5 / 3) exampleCutMesh)) ! 1) = 4 / 5 \<and>
   stiffness_m (constraints_m (cutAlongSegment (vec 2 1 0) (vec 10 1 0) (5 / 7)
      (cutAlongSegment (vec 0 (- 1) 0) (vec 0 1 0) (5 / 3) exampleCutMesh)) ! 0)
     = stiffness_m (constraints_m (cutAlongSegment (vec 0 (- 1) 0) (vec 0 1 0) (5 / 3)
      (cutAlongSegment (vec 2 1 0) (vec 10 1 0) (5 / 7) exampleCutMesh)) ! 0) \<and>
   stiffness_m (constraints_m (cutAlongSegment (vec 2 1 0) (vec 10 1 0) (5 / 7)
      (cutAlongSegment (vec 0 (- 1) 0) (vec 0 1 0) (5 / 3) exampleCutMesh)) ! 0) = 3 / 5 \<and>
   active (particles_m (cutAlongSegment (vec 6 (- 1) 0) (vec 6 1 0) 3
      (cutAlongSegment (vec 2 1 0) (vec 10 1 0) (5 / 7) exampleCutMesh)) ! 0) \<and>
   active (particles_m (cutAlongSegment (vec 6 (- 1) 0) (vec 6 1 0) 3
      (cutAlongSegment (vec 2 1 0) (vec 10 1 0) (5 / 7) exampleCutMesh)) ! 1) \<and>
   \<not> active_c (constraints_m (cutAlongSegment (vec 6 (- 1) 0) (vec 6 1 0) 3
      (cutAlongSegment (vec 2 1 0) (vec 10 1 0) (5 / 7) exampleCutMesh)) ! 0) \<and>
   stiffness_m (constraints_m (cutAlongSegment (vec 6 (- 1) 0) (vec 6 1 0) 3
      (cutAlongSegment (vec 2 1 0) (vec 10 1 0) (5 / 7) exampleCutMesh)) ! 0) = 4 / 5 \<and>
   cutAlongSegment (vec 0 0 0) (vec 0 0 0) 1 exampleCutMesh = exampleCutMesh \<and>
   stiffness_m (cutOrganicConstraint
       [(particleAt 2 0)\<lparr>cutFactor := 0.6\<rparr>, (particleAt 10 1)\<lparr>cutFactor := 0.8\<rparr>]
       (constraintOf 8 1)) = 0.6 * 1 \<and>
   stiffness_m (cutOrganicConstraint
       [(particleAt 2 0)\<lparr>cutFactor := 0.6\<rparr>, (particleAt 10 1)\<lparr>cutFactor := 0.8\<rparr>]
       ((constraintOf 8 1)\<lparr>stiffness_m := 1 / 4\<rparr>)) = 0.6 * 1 \<and>
   active_c (cutSegmentConstraint (vec 0 (- 1) 0) (vec 0 1 0) 1
       [(particleAt 2 0)\<lparr>cutFactor := 11 / 15\<rparr>, particleAt 10 (Suc 0)]
       ((constraintOf 8 1)\<lparr>stiffness_m := 1\<rparr>)) \<and>
   stiffness_m (cutSegmentConstraint (vec 0 (- 1) 0) (vec 0 1 0) 1
       [(particleAt 2 0)\<lparr>cutFactor := 11 / 15\<rparr>, particleAt 10 (Suc 0)]
       ((constraintOf 8 1)\<lparr>stiffness_m := 1, stiffness_m := 1 / 4\<rparr>))
     = stiffness_m (cutSegmentConstraint (vec 0 (- 1) 0) (vec 0 1 0) 1
       [(particleAt 2 0)\<lparr>cutFactor := 11 / 15\<rparr>, particleAt 10 (Suc 0)]
       ((constraintOf 8 1)\<lparr>stiffness_m := 1\<rparr>)) \<and>
   \<not> active_c (cutSegmentConstraint (vec 0 (- 1) 0) (vec 0 1 0) 2
       [(particleAt 2 0)\<lparr>cutFactor := 11 / 15\<rparr>, particleAt 10 (Suc 0)]
       ((constraintOf 8 1)\<lparr>stiffness_m := 1\<rparr>)) \<and>
   stiffness_m (cutSegmentConstraint (vec 0 (- 1) 0) (vec 0 1 0) 2
       [(particleAt 2 0)\<lparr>cutFactor := 11 / 15\<rparr>, particleAt 10 (Suc 0)]
       ((constraintOf 8 1)\<lparr>stiffness_m := 1\<rparr>)) = 1"
proof -
  let ?SA = "vec 0 (- 1) 0" and ?EA = "vec 0 1 0"
  let ?SB = "vec 2 1 0" and ?EB = "vec 10 1 0"
  let ?SC = "vec 6 (- 1) 0" and ?EC = "vec 6 1 0"
  let ?A = "cutAlongSegment ?SA ?EA (5 / 3) exampleCutMesh"
  let ?B = "cutAlongSegment ?SB ?EB (5 / 7) exampleCutMesh"
  let ?AB = "cutAlongSegment ?SB ?EB (5 / 7) ?A"
  let ?BA = "cutAlongSegment ?SA ?EA (5 / 3) ?B"
  let ?BC = "cutAlongSegment ?SC ?EC 3 ?B"
  let ?qs = "[(particleAt 2 0)\<lparr>cutFactor := 11 / 15\<rparr>, particleAt 10 (Suc 0)]"
  let ?d = "(constraintOf 8 1)\<lparr>stiffness_m := 1\<rparr>"
  let ?ps = "[(particleAt 2 0)\<lparr>cutFactor := 0.6\<rparr>, (particleAt 10 1)\<lparr>cutFactor := 0.8\<rparr>]"
  note ev = cutAcross_example cutAlong_example cutAcrossAlong_example cutAlongAcross_example
    cutAlongCross_example exampleCutMesh_parts constraintOf_def particleAt_upd_fields
    particleAt_fields
  have j: "0 < length (constraints_m exampleCutMesh)"
    "p1_m (constraints_m exampleCutMesh ! 0) < length (particles_m exampleCutMesh)"
    "p2_m (constraints_m exampleCutMesh ! 0) < length (particles_m exampleCutMesh)"
    by (simp_all add: exampleCutMesh_parts constraintOf_def)
  note o1 = cut_stiffness_from_base [where s = exampleCutMesh and j = 0 and rand = zeroRand
      and k = 0 and center = "vec 0 0 0" and radius = 2, THEN conjunct1]
  have org: "stiffness_m (constraints_m (snd (cutOrganic zeroRand 0 (vec 0 0 0) 2 exampleCutMesh)) ! 0)
     = 1 / 2"
    using o1 j by (simp add: Let_def cutA_mesh meshOf_parts exampleCutMesh_parts constraintOf_def
        particleAt_fields)
  note o2 = cut_stiffness_from_base [where s = exampleSevered and j = 0 and rand = zeroRand
      and k = 0 and center = "vec 0 0 0" and radius = 2, THEN conjunct1]
  have sev: "\<not> active_c (constraints_m exampleSevered ! 0)"
    "stiffness_m (constraints_m exampleSevered ! 0) = 1"
    by (simp_all add: exampleSevered_parts constraintOf_def)
  have orgS: "stiffness_m (constraints_m (snd (cutOrganic zeroRand 0 (vec 0 0 0) 2 exampleSevered)) ! 0)
     = 1 / 2"
    using o2 by (simp add: Let_def cutA_severed meshOf_parts exampleSevered_parts constraintOf_def
        particleAt_fields)
  note a2 = cut_stiffness_from_base [where s = exampleCutMesh and j = 0 and start = ?SA
      and endP = ?EA and radius = "5 / 3", THEN conjunct2, THEN conjunct1]
  have actA: "active_c (constraints_m ?A ! 0)" by (simp add: ev)
  have stA: "stiffness_m (constraints_m ?A ! 0) = 3 / 5"
    using a2 j actA exampleSegment_ok by (simp add: Let_def ev)
  note b2 = cut_stiffness_from_base [where s = exampleCutMesh and j = 0 and start = ?SB
      and endP = ?EB and radius = "5 / 7", THEN conjunct2, THEN conjunct1]
  have actB: "active_c (constraints_m ?B ! 0)" by (simp add: ev)
  have stB: "stiffness_m (constraints_m ?B ! 0) = 4 / 5"
    using b2 j actB exampleSegments_ok by (simp add: Let_def ev)
  have actAB: "active_c (constraints_m ?AB ! 0)" "active_c (constraints_m ?BA ! 0)"
    by (simp_all add: ev)
  have cf: "cutFactor (particles_m ?AB ! 0) = 3 / 5" "cutFactor (particles_m ?AB ! 1) = 4 / 5"
    by (simp_all add: ev)
  note c4 = cut_stiffness_from_base [where s = exampleCutMesh and j = 0 and start = ?SA
      and endP = ?EA and radius = "5 / 3" and start' = ?SB and endP' = ?EB and radius' = "5 / 7",
      THEN conjunct2, THEN conjunct2, THEN conjunct2, THEN conjunct1]
  from c4 j actAB exampleSegment_ok exampleSegments_ok(1)
  have comm: "stiffness_m (constraints_m ?AB ! 0) = stiffness_m (constraints_m ?BA ! 0)"
    by blast
  note ab2 = cut_stiffness_from_base [where s = ?A and j = 0 and start = ?SB
      and endP = ?EB and radius = "5 / 7", THEN conjunct2, THEN conjunct1]
  have stAB: "stiffness_m (constraints_m ?AB ! 0) = 3 / 5"
    using ab2 actAB(1) exampleSegments_ok by (simp add: Let_def ev)
  note bc2 = cut_stiffness_from_base [where s = ?B and j = 0 and start = ?SC
      and endP = ?EC and radius = 3, THEN conjunct2, THEN conjunct1]
  have actC: "active (particles_m ?BC ! 0)" "active (particles_m ?BC ! 1)"
    "\<not> active_c (constraints_m ?BC ! 0)"
    by (simp_all add: ev)
  have stBC: "stiffness_m (constraints_m ?BC ! 0) = 4 / 5"
    using bc2 actC(3) stB exampleSegments_ok by (simp add: Let_def ev)
  note d3 = cut_stiffness_from_base [where s = exampleCutMesh and start = "vec 0 0 0"
      and endP = "vec 0 0 0" and radius = 1, THEN conjunct2, THEN conjunct2, THEN conjunct1]
  have deg: "cutAlongSegment (vec 0 0 0) (vec 0 0 0) 1 exampleCutMesh = exampleCutMesh"
    using d3 by (simp add: vlength_sub_self)
  note t5 = cut_stiffness_from_base [where start = "vec 0 (- 1) 0" and endP = "vec 0 1 0"
      and radius = 1 and ps = ?qs and c = ?d and x = "1 / 4"]
  note t6 = cut_stiffness_from_base [where start = "vec 0 (- 1) 0" and endP = "vec 0 1 0"
      and radius = 2 and ps = ?qs and c = ?d]
  note t1 = cut_stiffness_from_base [where ps = ?ps and c = "constraintOf 8 1" and x = "1 / 4"]
  have sa: "active_c (cutSegmentConstraint (vec 0 (- 1) 0) (vec 0 1 0) 1 ?qs ?d)"
    by (subst segCut_constraint) (simp add: constraintOf_def)
  from t5 sa have sind:
    "stiffness_m (cutSegmentConstraint (vec 0 (- 1) 0) (vec 0 1 0) 1 ?qs (?d\<lparr>stiffness_m := 1 / 4\<rparr>))
       = stiffness_m (cutSegmentConstraint (vec 0 (- 1) 0) (vec 0 1 0) 1 ?qs ?d)"
    by blast
  have sn: "\<not> active_c (cutSegmentConstraint (vec 0 (- 1) 0) (vec 0 1 0) 2 ?qs ?d)"
    by (subst segCut_constraint) (simp add: constraintOf_def)
  from t6 sn have skeep:
    "stiffness_m (cutSegmentConstraint (vec 0 (- 1) 0) (vec 0 1 0) 2 ?qs ?d) = stiffness_m ?d"
    by blast
  have sd: "stiffness_m ?d = 1" by simp
  have ex: "active (?ps ! p1_m (constraintOf 8 1)) \<and> active (?ps ! p2_m (constraintOf 8 1)) \<and>
    cutFactor (?ps ! p1_m (constraintOf 8 1)) = 0.6 \<and>
    cutFactor (?ps ! p2_m (constraintOf 8 1)) = 0.8 \<and> 0 \<le> baseStiffness (constraintOf 8 1)"
    by (simp add: constraintOf_def particleAt_fields)
  with t1 have e1: "stiffness_m (cutOrganicConstraint ?ps (constraintOf 8 1))
      = 0.6 * baseStiffness (constraintOf 8 1)"
    by blast
  from t1 ex have e2: "stiffness_m (cutOrganicConstraint ?ps ((constraintOf 8 1)\<lparr>stiffness_m := 1 / 4\<rparr>))
      = stiffness_m (cutOrganicConstraint ?ps (constraintOf 8 1))"
    by blast
  have b: "baseStiffness (constraintOf 8 1) = 1" by (simp add: constraintOf_def)
  from org sev orgS actA stA actB stB actAB cf comm stAB actC stBC deg e1 e2 sa sind sn skeep
  show ?thesis
    unfolding b sd by (simp only: simp_thms)
qed

end
